theory Spec2Isabelle
  imports Main
begin

section \<open>The WhatsApp bridge server (whatsapp-server/src/server.ts)\<close>

text \<open>
  The server keeps its session in module-level variables and reacts to events of the
  session driver (whatsapp-web.js), of the socket hub and of the HTTP API. The model
  below has one record for the module variables and one function per handler. Everything
  a handler does to the outside world (console output, broadcasts, timers, driver calls,
  blob-store and chat-storage calls) is appended to a trace; the answers of the outside
  world (whether a promise resolves or rejects, and with what) are arguments.
  Fields of the driver's \<open>Message\<close> are prefixed \<open>msg_\<close>, fields of the stored
  \<open>ChatMessage\<close> are prefixed \<open>cm_\<close> (\<open>id\<close>, \<open>from\<close> and \<open>to\<close> are taken in HOL).
  Timestamps of broadcast payloads are left out.
\<close>

subsection \<open>Data\<close>

text \<open>The outcome of an awaited promise.\<close>

datatype 'a outcome = Rejects string | Resolves 'a

record wid =
  user :: string
  serialized :: string

record client_info =
  wid :: "wid option"
  pushname :: "string option"

text \<open>The driver object: \<open>info\<close> is undefined until the driver has an identity.\<close>

record wa_client =
  info :: "client_info option"

record account_info =
  phoneNumber :: "string option"
  accountName :: "string option"
  profilePicUrl :: "string option"
  isReady :: bool
  connectedAt :: "string option"

text \<open>The driver's message object, as far as the handlers read it.\<close>

record wa_message =
  msg_id :: string
  msg_serialized :: string
  msg_body :: string
  msg_from :: string
  msg_to :: string
  msg_fromMe :: bool
  msg_hasMedia :: bool
  msg_type :: string
  msg_ack :: "int option"

record media =
  mimetype :: string
  data :: string
  filename :: "string option"

record chat_message =
  cm_id :: string
  cm_body :: string
  cm_from :: string
  cm_to :: string
  cm_timestamp :: string
  cm_fromMe :: bool
  cm_hasMedia :: bool
  cm_mediaUrl :: "string option"
  cm_mediaType :: "string option"
  cm_fileName :: "string option"
  cm_fileSize :: "nat option"
  cm_isVoiceMessage :: "bool option"
  cm_duration :: "nat option"
  cm_ack :: "int option"

text \<open>The payload of the socket event \<open>send_message\<close>.\<close>

record send_data =
  sd_phoneNumber :: string
  sd_message :: string
  sd_mediaUrl :: "string option"
  sd_fileName :: "string option"
  sd_fileSize :: "nat option"
  sd_mediaType :: "string option"
  sd_isVoiceMessage :: "bool option"
  sd_duration :: "nat option"

datatype details =
    NoDetails
  | Detail string
  | ReconnectingDetail string nat
  | AccountDetail "string option" "string option"

datatype callback = CallSafeReconnect string | CallRestartWhatsAppClient

datatype payload =
    NoPayload
  | Str string
  | ConnectionState string details bool nat
  | MessageField string
  | ReasonField string
  | ErrorField string
  | Account account_info
  | AckUpdated string int string
  | MessageObj chat_message
  | ChatOf chat_message
  | SendFailed string string string send_data
  | SendOk chat_message

datatype effect =
    Console string
  | Emit string payload
  | SocketEmit string payload
  | SetTimeout nat callback
  | Sleep nat
  | NewClient
  | ClientDestroy
  | ClientInitialize
  | ClientSendText string string
  | ClientSendMedia string string
  | ClientGetProfilePicUrl string
  | HttpGet string
  | DownloadMedia string
  | UploadMedia string string
  | AddMessage chat_message
  | GetContactAvatar string
  | GetMultipleContactAvatars "string list"
  | LoadChats
  | SaveChats

record server_state =
  client :: "wa_client option"
  currentAccountInfo :: account_info
  qrCode :: "string option"
  isInitializing :: bool
  isClientReady :: bool
  isReconnecting :: bool
  reconnectAttempts :: nat
  trace :: "effect list"

definition MAX_RECONNECT_ATTEMPTS :: nat where
  "MAX_RECONNECT_ATTEMPTS = 5"

definition RECONNECT_DELAY :: nat where
  "RECONNECT_DELAY = 5000"

text \<open>The module variables as the module initialises them.\<close>

definition initialState :: server_state where
  "initialState =
     \<lparr> client = None,
       currentAccountInfo =
         \<lparr> phoneNumber = None, accountName = None, profilePicUrl = None,
           isReady = False, connectedAt = None \<rparr>,
       qrCode = None,
       isInitializing = False,
       isClientReady = False,
       isReconnecting = False,
       reconnectAttempts = 0,
       trace = [] \<rparr>"

definition emits :: "effect list \<Rightarrow> server_state \<Rightarrow> server_state" where
  "emits es s = s\<lparr>trace := trace s @ es\<rparr>"

definition clearAccountReady :: "server_state \<Rightarrow> server_state" where
  "clearAccountReady s = s\<lparr>currentAccountInfo := (currentAccountInfo s)\<lparr>isReady := False\<rparr>\<rparr>"

subsection \<open>Connection stabilisation\<close>

definition logConnectionState :: "string \<Rightarrow> details \<Rightarrow> server_state \<Rightarrow> server_state" where
  "logConnectionState st d s =
     emits [Console (''WhatsApp Connection: '' @ st),
            Emit ''connection-state'' (ConnectionState st d (isClientReady s) (reconnectAttempts s))] s"

definition isClientHealthy :: "server_state \<Rightarrow> bool" where
  "isClientHealthy s =
     (case client s of
        None \<Rightarrow> False
      | Some c \<Rightarrow>
          (case info c of
             None \<Rightarrow> False
           | Some i \<Rightarrow> (case wid i of None \<Rightarrow> False | Some w \<Rightarrow> isClientReady s)))"

text \<open>
  \<open>initializeWhatsAppClient\<close>. The answers of the driver are a function from the number of
  the inner attempt to the outcome of \<open>client.initialize()\<close>, and one to the outcome of
  \<open>client.destroy()\<close> after a failed attempt.
\<close>

record driver =
  initializeOutcome :: "nat \<Rightarrow> unit outcome"
  destroyOutcome :: "nat \<Rightarrow> unit outcome"

definition maxInitAttempts :: nat where
  "maxInitAttempts = 5"

definition newClient :: wa_client where
  "newClient = \<lparr> info = None \<rparr>"

definition destroyFailedClient :: "driver \<Rightarrow> nat \<Rightarrow> server_state \<Rightarrow> server_state" where
  "destroyFailedClient d n s =
     (case client s of
        None \<Rightarrow> s
      | Some c \<Rightarrow>
          (case destroyOutcome d n of
             Resolves u \<Rightarrow> emits [Console ''Destroying failed client instance...'', ClientDestroy, Sleep 5000] s
           | Rejects e \<Rightarrow>
               emits [Console ''Destroying failed client instance...'', ClientDestroy,
                      Console (''Warning: Error destroying failed client: '' @ e)] s))"

text \<open>One pass of the retry loop up to \<open>await client.initialize()\<close>.\<close>

definition beforeInitialize :: "nat \<Rightarrow> server_state \<Rightarrow> server_state" where
  "beforeInitialize n s =
     emits ([Console ''Initialization attempt'']
            @ (if n > 1 then [Sleep (min (n * 15000) 60000)] else [])
            @ [ClientInitialize]) s"

text \<open>The catch block of a pass that is not the last: a fresh client for the next pass.\<close>

definition afterFailedInitialize :: "driver \<Rightarrow> nat \<Rightarrow> string \<Rightarrow> server_state \<Rightarrow> server_state" where
  "afterFailedInitialize d n e s =
     emits [NewClient]
       ((destroyFailedClient d n (emits [Console (''Initialization attempt failed: '' @ e)] s))
          \<lparr>client := Some newClient\<rparr>)"

function initializeLoop :: "driver \<Rightarrow> nat \<Rightarrow> server_state \<Rightarrow> server_state \<times> unit outcome" where
  "initializeLoop d initAttempts s =
     (if initAttempts < maxInitAttempts then
        (let n = initAttempts + 1;
             s1 = beforeInitialize n s
         in case initializeOutcome d n of
              Resolves u \<Rightarrow> (emits [Console ''WhatsApp client initialized successfully''] s1, Resolves ())
            | Rejects e \<Rightarrow>
                (if n < maxInitAttempts then initializeLoop d n (afterFailedInitialize d n e s1)
                 else
                   (emits [Console (''Initialization attempt failed: '' @ e),
                           Console ''Failed to initialize after all attempts''] s1,
                    Rejects (''WhatsApp client initialization failed after 5 attempts: '' @ e))))
      else (s, Rejects ''Failed to initialize WhatsApp client after 5 attempts with extreme settings''))"
  by pat_completeness auto
termination
  by (relation "measure (\<lambda>(d, n, s). maxInitAttempts - n)") auto

declare initializeLoop.simps [simp del]

text \<open>The synchronous start of \<open>initializeWhatsAppClient\<close>, up to its first await.\<close>

definition initialize_begin :: "server_state \<Rightarrow> server_state \<times> bool" where
  "initialize_begin s =
     (if isInitializing s then
        (emits [Console ''Client initialization already in progress''] s, False)
      else
        (let s1 = clearAccountReady (s\<lparr>isInitializing := True, isClientReady := False\<rparr>);
             s2 = logConnectionState ''INITIALIZING'' NoDetails s1;
             s3 = emits [Console ''WhatsApp Client Configuration'', NewClient] (s2\<lparr>client := Some newClient\<rparr>)
         in (s3, True)))"

text \<open>The rest of it: the retry loop, the catch block and the finally block.\<close>

definition initialize_rest :: "driver \<Rightarrow> server_state \<Rightarrow> server_state \<times> unit outcome" where
  "initialize_rest d s =
     (case initializeLoop d 0 s of
        (s1, Resolves u) \<Rightarrow>
          ((logConnectionState ''INITIALIZATION_COMPLETE'' NoDetails s1)\<lparr>isInitializing := False\<rparr>,
           Resolves ())
      | (s1, Rejects e) \<Rightarrow>
          (let s2 = emits [Console (''CRITICAL: Error initializing WhatsApp client: '' @ e)] s1;
               s3 = logConnectionState ''INITIALIZATION_FAILED'' (Detail e) s2;
               s4 = clearAccountReady (s3\<lparr>isClientReady := False\<rparr>);
               escalatedDelay = min (RECONNECT_DELAY * 3) 30000;
               s5 = emits [Console ''Scheduling reconnection with escalated delay'',
                           SetTimeout escalatedDelay (CallSafeReconnect ''Extreme initialization failed'')] s4
           in (s5\<lparr>isInitializing := False\<rparr>, Rejects e)))"

definition initializeWhatsAppClient :: "driver \<Rightarrow> server_state \<Rightarrow> server_state \<times> unit outcome" where
  "initializeWhatsAppClient d s =
     (case initialize_begin s of
        (s1, False) \<Rightarrow> (s1, Resolves ())
      | (s1, True) \<Rightarrow> initialize_rest d s1)"

text \<open>
  \<open>safeReconnect\<close>, cut at its awaits: the entry up to \<open>await client.destroy()\<close>, the code
  from there to the delay, the call of \<open>initializeWhatsAppClient\<close>, and the catch and
  finally blocks.
\<close>

definition safeReconnect_enter :: "string \<Rightarrow> server_state \<Rightarrow> server_state \<times> bool" where
  "safeReconnect_enter reason s =
     (if isReconnecting s \<or> isInitializing s then
        (emits [Console ''Reconnection already in progress, skipping...''] s, False)
      else
        (let s1 = clearAccountReady (s\<lparr>isReconnecting := True, isClientReady := False\<rparr>);
             s2 = logConnectionState ''RECONNECTING''
                    (ReconnectingDetail reason (reconnectAttempts s1 + 1)) s1
         in (case client s2 of
               None \<Rightarrow> (s2, True)
             | Some c \<Rightarrow> (emits [ClientDestroy] s2, True))))"

definition safeReconnect_finally :: "server_state \<Rightarrow> server_state" where
  "safeReconnect_finally s = s\<lparr>isReconnecting := False\<rparr>"

text \<open>
  After the destroy; the argument is \<open>None\<close> when there was no client to destroy.
  \<open>True\<close> in the result when the function goes on to the delay.
\<close>

definition safeReconnect_afterDestroy ::
  "unit outcome option \<Rightarrow> server_state \<Rightarrow> server_state \<times> bool" where
  "safeReconnect_afterDestroy destroyed s =
     (let s1 = (case destroyed of
                  None \<Rightarrow> s
                | Some (Resolves u) \<Rightarrow> logConnectionState ''CLIENT_DESTROYED'' NoDetails s
                | Some (Rejects e) \<Rightarrow> emits [Console (''Error destroying client: '' @ e)] s);
          s2 = s1\<lparr>reconnectAttempts := reconnectAttempts s1 + 1\<rparr>
      in if reconnectAttempts s2 > MAX_RECONNECT_ATTEMPTS then
           (let s3 = logConnectionState ''MAX_RECONNECT_ATTEMPTS_REACHED'' NoDetails s2;
                s4 = emits [Emit ''connection-failed'' (MessageField ''max reconnect attempts reached'')] s3
            in (safeReconnect_finally s4, False))
         else (emits [Sleep RECONNECT_DELAY] s2, True))"

definition safeReconnect_catch :: "string \<Rightarrow> server_state \<Rightarrow> server_state" where
  "safeReconnect_catch e s =
     (let s1 = emits [Console (''Error during reconnection: '' @ e)] s;
          s2 = logConnectionState ''RECONNECT_FAILED'' (Detail e) s1
      in emits [SetTimeout (RECONNECT_DELAY * 2) (CallSafeReconnect (''Previous attempt failed: '' @ e))] s2)"

definition safeReconnect_settle :: "server_state \<times> unit outcome \<Rightarrow> server_state" where
  "safeReconnect_settle r =
     (case r of
        (s, Resolves u) \<Rightarrow> safeReconnect_finally s
      | (s, Rejects e) \<Rightarrow> safeReconnect_finally (safeReconnect_catch e s))"

text \<open>A whole call of \<open>safeReconnect\<close> that nothing interleaves with.\<close>

definition safeReconnect :: "unit outcome \<Rightarrow> driver \<Rightarrow> string \<Rightarrow> server_state \<Rightarrow> server_state" where
  "safeReconnect destroyed d reason s =
     (case safeReconnect_enter reason s of
        (s1, False) \<Rightarrow> s1
      | (s1, True) \<Rightarrow>
          (case safeReconnect_afterDestroy
                  (case client s of None \<Rightarrow> None | Some c \<Rightarrow> Some destroyed) s1 of
             (s2, False) \<Rightarrow> s2
           | (s2, True) \<Rightarrow> safeReconnect_settle (initializeWhatsAppClient d s2)))"

subsection \<open>Message ingestion\<close>

text \<open>
  What the outside world answers while a message is handled: the driver's media download,
  the blob store's upload, the audio probe inside \<open>getAudioDuration\<close>, the chat storage's
  \<open>addMessage\<close>, \<open>loadChats\<close> and \<open>saveChats\<close> and the avatar cache's two
  fetches (modules that the handlers only call), the length of a decoded buffer, the
  clock, the HTTP download of a media url and the driver's \<open>sendMessage\<close>. In the
  avatar lists a value \<open>None\<close> is JavaScript's null.
\<close>

text \<open>What \<open>client.sendMessage\<close> resolves to, as far as the handler reads it.\<close>

record sent =
  sent_serialized :: string
  sent_from :: string

record env =
  downloadMedia :: "wa_message \<Rightarrow> media option outcome"
  uploadMediaToSupabase :: "string \<Rightarrow> string \<Rightarrow> string \<Rightarrow> string outcome"
  audioProbe :: "string \<Rightarrow> string \<Rightarrow> nat outcome"
  addMessage :: "chat_message \<Rightarrow> unit outcome"
  bufferLength :: "string \<Rightarrow> nat"
  nowIso :: string
  nowMillis :: string
  httpGet :: "string \<Rightarrow> string outcome"
  sendText :: "string \<Rightarrow> string \<Rightarrow> sent outcome"
  sendMedia :: "string \<Rightarrow> string \<Rightarrow> string \<Rightarrow> sent outcome"
  getContactAvatar :: "string \<Rightarrow> string option outcome"
  getMultipleContactAvatars :: "string list \<Rightarrow> (string \<times> string option) list outcome"
  loadChats :: "(string \<times> string option) list outcome"
  saveChats :: "unit outcome"

text \<open>\<open>String.prototype.split\<close> on one separator character.\<close>

fun jsSplit :: "char \<Rightarrow> string \<Rightarrow> string list" where
  "jsSplit c [] = [[]]"
| "jsSplit c (x # xs) =
     (if x = c then [] # jsSplit c xs
      else (case jsSplit c xs of [] \<Rightarrow> [[x]] | y # ys \<Rightarrow> (x # y) # ys))"

text \<open>\<open>media.mimetype.split('/')[1]\<close> inside a template string: a missing part prints as undefined.\<close>

definition mimeExtension :: "string \<Rightarrow> string" where
  "mimeExtension m = (case jsSplit (CHR ''/'') m of a # b # rest \<Rightarrow> b | _ \<Rightarrow> ''undefined'')"

text \<open>\<open>getAudioDuration\<close> catches every error and returns 0.\<close>

definition getAudioDuration :: "env \<Rightarrow> string \<Rightarrow> string \<Rightarrow> nat" where
  "getAudioDuration e buffer mimeType =
     (case audioProbe e buffer mimeType of Resolves n \<Rightarrow> n | Rejects err \<Rightarrow> 0)"

record media_fields =
  mf_mediaUrl :: string
  mf_mediaType :: string
  mf_fileName :: string
  mf_fileSize :: nat
  mf_duration :: nat

definition noMedia :: media_fields where
  "noMedia = \<lparr> mf_mediaUrl = [], mf_mediaType = [], mf_fileName = [], mf_fileSize = 0, mf_duration = 0 \<rparr>"

text \<open>The MIME type and the file name under which the media block uploads.\<close>

definition mediaMimeType :: "wa_message \<Rightarrow> media \<Rightarrow> string" where
  "mediaMimeType msg m = (if msg_type msg = ''ptt'' then ''audio/ogg'' else mimetype m)"

definition mediaFileName :: "env \<Rightarrow> wa_message \<Rightarrow> media \<Rightarrow> string" where
  "mediaFileName e msg m =
     (let extension = (if msg_type msg = ''ptt'' then ''ogg'' else mimeExtension (mimetype m));
          defaultFileName = msg_type msg @ ''_'' @ nowMillis e @ ''.'' @ extension
      in case filename m of
           None \<Rightarrow> defaultFileName
         | Some f \<Rightarrow> (if f = [] then defaultFileName else f))"

text \<open>
  The media block, which \<open>processIncomingMessage\<close> and \<open>processOutgoingMessage\<close> both
  contain word for word (only the console line differs): the effects, and the media fields
  or the error that the block throws.
\<close>

definition processMedia :: "env \<Rightarrow> string \<Rightarrow> wa_message \<Rightarrow> effect list \<times> media_fields outcome" where
  "processMedia e label msg =
     (if msg_hasMedia msg then
        (case downloadMedia e msg of
           Rejects err \<Rightarrow> ([Console label, DownloadMedia (msg_id msg)], Rejects err)
         | Resolves None \<Rightarrow> ([Console label, DownloadMedia (msg_id msg)], Resolves noMedia)
         | Resolves (Some m) \<Rightarrow>
             (let mimeType = mediaMimeType msg m;
                  name = mediaFileName e msg m
              in case uploadMediaToSupabase e (data m) name mimeType of
                   Rejects err \<Rightarrow>
                     ([Console label, DownloadMedia (msg_id msg), UploadMedia name mimeType,
                       Console (''Error processing media: '' @ err)], Rejects err)
                 | Resolves url \<Rightarrow>
                     ([Console label, DownloadMedia (msg_id msg), UploadMedia name mimeType],
                      Resolves \<lparr> mf_mediaUrl = url, mf_mediaType = mimeType, mf_fileName = name,
                                 mf_fileSize = bufferLength e (data m),
                                 mf_duration = (if msg_type msg = ''ptt''
                                                then getAudioDuration e (data m) mimeType else 0) \<rparr>)))
      else ([], Resolves noMedia))"

definition buildMessage :: "env \<Rightarrow> wa_message \<Rightarrow> bool \<Rightarrow> int \<Rightarrow> media_fields \<Rightarrow> chat_message" where
  "buildMessage e msg me a f =
     \<lparr> cm_id = msg_id msg, cm_body = msg_body msg, cm_from = msg_from msg, cm_to = msg_to msg,
       cm_timestamp = nowIso e, cm_fromMe = me, cm_hasMedia = msg_hasMedia msg,
       cm_mediaUrl = Some (mf_mediaUrl f), cm_mediaType = Some (mf_mediaType f),
       cm_fileName = Some (mf_fileName f), cm_fileSize = Some (mf_fileSize f),
       cm_isVoiceMessage = Some (msg_type msg = ''ptt''), cm_duration = Some (mf_duration f),
       cm_ack = Some a \<rparr>"

text \<open>Saving and announcing, the tail of both functions.\<close>

definition saveAndAnnounce :: "env \<Rightarrow> string \<Rightarrow> chat_message \<Rightarrow> effect list \<times> unit outcome" where
  "saveAndAnnounce e label message =
     (case addMessage e message of
        Rejects err \<Rightarrow> ([Console label, AddMessage message], Rejects err)
      | Resolves u \<Rightarrow>
          ([Console label, AddMessage message,
            Emit ''whatsapp-message'' (MessageObj message),
            Emit ''chat-updated'' (ChatOf message)], Resolves ()))"

definition processIncomingMessage :: "env \<Rightarrow> wa_message \<Rightarrow> effect list \<times> unit outcome" where
  "processIncomingMessage e msg =
     (case processMedia e ''Processing incoming media'' msg of
        (es, Rejects err) \<Rightarrow> (es, Rejects err)
      | (es, Resolves f) \<Rightarrow>
          (case saveAndAnnounce e ''Saving INCOMING message'' (buildMessage e msg False 3 f) of
             (es', r) \<Rightarrow> (es @ es', r)))"

definition processOutgoingMessage :: "env \<Rightarrow> wa_message \<Rightarrow> effect list \<times> unit outcome" where
  "processOutgoingMessage e msg =
     (case processMedia e ''Processing outgoing media'' msg of
        (es, Rejects err) \<Rightarrow> (es, Rejects err)
      | (es, Resolves f) \<Rightarrow>
          (case saveAndAnnounce e ''Saving OUTGOING message''
                  (buildMessage e msg True (case msg_ack msg of None \<Rightarrow> 0 | Some a \<Rightarrow> a) f) of
             (es', r) \<Rightarrow> (es @ es', r)))"

text \<open>The handlers' try and catch around the two functions: the error is printed and dropped.\<close>

definition caught :: "string \<Rightarrow> effect list \<times> unit outcome \<Rightarrow> effect list" where
  "caught label r =
     (case r of
        (es, Resolves u) \<Rightarrow> es
      | (es, Rejects err) \<Rightarrow> es @ [Console (label @ err)])"

definition onMessage :: "env \<Rightarrow> wa_message \<Rightarrow> server_state \<Rightarrow> server_state" where
  "onMessage e msg s =
     (if \<not> isClientReady s then
        emits [Console ''Received message but client not ready, ignoring''] s
      else if \<not> msg_fromMe msg then
        (if isReady (currentAccountInfo s) \<and> Some (msg_to msg) = phoneNumber (currentAccountInfo s) then
           emits (caught ''Error processing incoming message: '' (processIncomingMessage e msg)) s
         else emits [Console ''Message not for current account, ignoring''] s)
      else s)"

definition onMessageCreate :: "env \<Rightarrow> wa_message \<Rightarrow> server_state \<Rightarrow> server_state" where
  "onMessageCreate e msg s =
     (if \<not> isClientReady s then
        emits [Console ''Received message_create but client not ready, ignoring''] s
      else if msg_fromMe msg then
        (if isReady (currentAccountInfo s) \<and> Some (msg_from msg) = phoneNumber (currentAccountInfo s) then
           emits (caught ''Error processing outgoing message: '' (processOutgoingMessage e msg)) s
         else emits [Console ''Outgoing message not from current account, ignoring''] s)
      else s)"

definition onMessageAck :: "wa_message \<Rightarrow> int \<Rightarrow> server_state \<Rightarrow> server_state" where
  "onMessageAck msg ack s =
     (if msg_fromMe msg \<and> isReady (currentAccountInfo s) then
        emits [Console ''Message ACK received'',
               Emit ''message-ack-updated'' (AckUpdated (msg_serialized msg) ack (msg_to msg))] s
      else emits [Console ''Message ACK received''] s)"

text \<open>
  The same code cut at its awaits. Once a handler has passed its guards it reads no module
  variable again, so what is left of a call is the phase it is suspended in: the download,
  the upload, the audio probe, or \<open>addMessage\<close>. The flag tells the outgoing function from
  the incoming one.
\<close>

datatype ingest_phase =
    AwaitsDownload
  | AwaitsUpload media
  | AwaitsDuration media string
  | AwaitsAddMessage chat_message

definition mediaLabel :: "bool \<Rightarrow> string" where
  "mediaLabel outgoing =
     (if outgoing then ''Processing outgoing media'' else ''Processing incoming media'')"

definition saveLabel :: "bool \<Rightarrow> string" where
  "saveLabel outgoing = (if outgoing then ''Saving OUTGOING message'' else ''Saving INCOMING message'')"

definition catchLabel :: "bool \<Rightarrow> string" where
  "catchLabel outgoing =
     (if outgoing then ''Error processing outgoing message: ''
      else ''Error processing incoming message: '')"

definition ackOf :: "bool \<Rightarrow> wa_message \<Rightarrow> int" where
  "ackOf outgoing msg =
     (if outgoing then (case msg_ack msg of None \<Rightarrow> 0 | Some a \<Rightarrow> a) else 3)"

text \<open>Building the record and calling \<open>addMessage\<close>; the call is awaited.\<close>

definition ingest_save ::
  "env \<Rightarrow> bool \<Rightarrow> wa_message \<Rightarrow> media_fields \<Rightarrow> effect list \<times> ingest_phase option" where
  "ingest_save e outgoing msg f =
     (let message = buildMessage e msg outgoing (ackOf outgoing msg) f
      in ([Console (saveLabel outgoing), AddMessage message], Some (AwaitsAddMessage message)))"

text \<open>From the call of the function to its first await.\<close>

definition ingest_start :: "env \<Rightarrow> bool \<Rightarrow> wa_message \<Rightarrow> effect list \<times> ingest_phase option" where
  "ingest_start e outgoing msg =
     (if msg_hasMedia msg then
        ([Console (mediaLabel outgoing), DownloadMedia (msg_id msg)], Some AwaitsDownload)
      else ingest_save e outgoing msg noMedia)"

text \<open>
  From one await to the next, or to the end of the handler (\<open>None\<close>): a rejected promise
  is thrown to the handler's catch, which prints it.
\<close>

fun ingest_resume ::
  "env \<Rightarrow> bool \<Rightarrow> wa_message \<Rightarrow> ingest_phase \<Rightarrow> effect list \<times> ingest_phase option" where
  "ingest_resume e outgoing msg AwaitsDownload =
     (case downloadMedia e msg of
        Rejects err \<Rightarrow> ([Console (catchLabel outgoing @ err)], None)
      | Resolves None \<Rightarrow> ingest_save e outgoing msg noMedia
      | Resolves (Some m) \<Rightarrow>
          ([UploadMedia (mediaFileName e msg m) (mediaMimeType msg m)], Some (AwaitsUpload m)))"
| "ingest_resume e outgoing msg (AwaitsUpload m) =
     (case uploadMediaToSupabase e (data m) (mediaFileName e msg m) (mediaMimeType msg m) of
        Rejects err \<Rightarrow>
          ([Console (''Error processing media: '' @ err), Console (catchLabel outgoing @ err)], None)
      | Resolves url \<Rightarrow>
          (if msg_type msg = ''ptt'' then ([], Some (AwaitsDuration m url))
           else ingest_save e outgoing msg
                  \<lparr> mf_mediaUrl = url, mf_mediaType = mediaMimeType msg m,
                    mf_fileName = mediaFileName e msg m,
                    mf_fileSize = bufferLength e (data m), mf_duration = 0 \<rparr>))"
| "ingest_resume e outgoing msg (AwaitsDuration m url) =
     ingest_save e outgoing msg
       \<lparr> mf_mediaUrl = url, mf_mediaType = mediaMimeType msg m,
         mf_fileName = mediaFileName e msg m,
         mf_fileSize = bufferLength e (data m),
         mf_duration = getAudioDuration e (data m) (mediaMimeType msg m) \<rparr>"
| "ingest_resume e outgoing msg (AwaitsAddMessage message) =
     (case addMessage e message of
        Rejects err \<Rightarrow> ([Console (catchLabel outgoing @ err)], None)
      | Resolves u \<Rightarrow>
          ([Emit ''whatsapp-message'' (MessageObj message),
            Emit ''chat-updated'' (ChatOf message)], None))"

subsection \<open>Lifecycle handlers of the driver (setupEnhancedClientEventHandlers)\<close>

text \<open>The source's default account name is a Cyrillic literal; it is transliterated here.\<close>

definition defaultAccountName :: string where
  "defaultAccountName = ''Polzovatel''"

text \<open>
  \<open>updateAccountInfo\<close>: reading \<open>info.wid.user\<close> of an info without wid throws, and the
  outer catch prints the error and leaves the account information as it was.
\<close>

definition updateAccountInfo :: "string option outcome \<Rightarrow> string \<Rightarrow> server_state \<Rightarrow> server_state" where
  "updateAccountInfo pic now s =
     (case client s of
        None \<Rightarrow> s
      | Some c \<Rightarrow>
          (case info c of
             None \<Rightarrow> s
           | Some i \<Rightarrow>
               (case wid i of
                  None \<Rightarrow> emits [Console ''Error updating account info''] s
                | Some w \<Rightarrow>
                    (let acc = \<lparr> phoneNumber = Some (user w @ ''@c.us''),
                                 accountName = (case pushname i of
                                                  None \<Rightarrow> Some defaultAccountName
                                                | Some n \<Rightarrow> Some (if n = [] then defaultAccountName else n)),
                                 profilePicUrl = None,
                                 isReady = True,
                                 connectedAt = Some now \<rparr>;
                         s1 = emits [ClientGetProfilePicUrl (serialized w)] (s\<lparr>currentAccountInfo := acc\<rparr>);
                         s2 = (case pic of
                                 Resolves u \<Rightarrow> s1\<lparr>currentAccountInfo := acc\<lparr>profilePicUrl := u\<rparr>\<rparr>
                               | Rejects err \<Rightarrow> emits [Console ''No profile picture available''] s1)
                     in emits [Console ''Account info updated''] s2))))"

definition onQr :: "string outcome \<Rightarrow> server_state \<Rightarrow> server_state" where
  "onQr dataUrl s =
     (let s1 = logConnectionState ''QR_GENERATED'' NoDetails s
      in case dataUrl of
           Resolves u \<Rightarrow> (emits [Emit ''qr'' (Str u)] (s1\<lparr>qrCode := Some u\<rparr>))\<lparr>reconnectAttempts := 0\<rparr>
         | Rejects err \<Rightarrow>
             logConnectionState ''QR_ERROR'' (Detail err)
               (emits [Console (''Error generating QR code: '' @ err)] s1))"

definition onReady :: "string option outcome \<Rightarrow> string \<Rightarrow> server_state \<Rightarrow> server_state" where
  "onReady pic now s =
     (let s1 = logConnectionState ''READY'' NoDetails (s\<lparr>isClientReady := True, reconnectAttempts := 0\<rparr>);
          s2 = updateAccountInfo pic now s1;
          s3 = emits [Emit ''ready'' NoPayload, Emit ''account-connected'' (Account (currentAccountInfo s2))] s2;
          s4 = s3\<lparr>qrCode := None\<rparr>
      in logConnectionState ''ACCOUNT_CONNECTED''
           (AccountDetail (phoneNumber (currentAccountInfo s4)) (accountName (currentAccountInfo s4))) s4)"

definition onAuthenticated :: "server_state \<Rightarrow> server_state" where
  "onAuthenticated s = logConnectionState ''AUTHENTICATED'' NoDetails s"

definition onLoadingScreen :: "string \<Rightarrow> server_state \<Rightarrow> server_state" where
  "onLoadingScreen progress s = logConnectionState ''LOADING'' (Detail progress) s"

definition onChangeState :: "string \<Rightarrow> server_state \<Rightarrow> server_state" where
  "onChangeState st s = logConnectionState ''STATE_CHANGED'' (Detail st) s"

definition onClientError :: "string \<Rightarrow> server_state \<Rightarrow> server_state" where
  "onClientError err s =
     logConnectionState ''CLIENT_ERROR'' (Detail err) (emits [Console (''WhatsApp client error: '' @ err)] s)"

definition onDisconnected :: "string \<Rightarrow> server_state \<Rightarrow> server_state" where
  "onDisconnected reason s =
     (let s1 = clearAccountReady (s\<lparr>isClientReady := False\<rparr>);
          s2 = logConnectionState ''DISCONNECTED'' (Detail reason) s1;
          s3 = emits [Emit ''disconnected'' (Str reason),
                      Emit ''account-disconnected'' (ReasonField reason)] s2;
          s4 = s3\<lparr>qrCode := None\<rparr>
      in if \<not> isReconnecting s4 then
           emits [SetTimeout 1000 (CallSafeReconnect (''Disconnected: '' @ reason))] s4
         else s4)"

definition onAuthFailure :: "string \<Rightarrow> server_state \<Rightarrow> server_state" where
  "onAuthFailure err s =
     (let s1 = clearAccountReady (s\<lparr>isClientReady := False\<rparr>);
          s2 = logConnectionState ''AUTH_FAILURE'' (Detail err) s1;
          s3 = emits [Emit ''auth_failure'' (Str err),
                      Emit ''account-auth-failed'' (ErrorField err)] s2
      in if \<not> isReconnecting s3 then
           emits [SetTimeout 2000 (CallSafeReconnect (''Auth failure: '' @ err))] s3
         else s3)"

text \<open>
  \<open>restartWhatsAppClient\<close>, cut at its first await: the guard and the destroy, then the new
  client, its initialisation, the catch and the finally.
\<close>

definition restart_begin :: "server_state \<Rightarrow> server_state \<times> bool" where
  "restart_begin s =
     (if isInitializing s then
        (emits [Console ''Client is already initializing, skipping restart''] s, False)
      else
        (let s1 = emits [Console ''Restarting WhatsApp client...''] (s\<lparr>isInitializing := True\<rparr>)
         in (case client s1 of
               None \<Rightarrow> (s1, True)
             | Some c \<Rightarrow> (emits [ClientDestroy] s1, True))))"

definition restart_rest :: "unit outcome option \<Rightarrow> unit outcome \<Rightarrow> server_state \<Rightarrow> server_state" where
  "restart_rest destroyed initialized s =
     (let failed = (\<lambda>s'. emits [Console ''Error restarting WhatsApp client'',
                              Emit ''error'' (MessageField ''Failed to restart WhatsApp client'')] s')
      in (case destroyed of
            Some (Rejects err) \<Rightarrow> failed s
          | _ \<Rightarrow>
              (let s1 = emits [NewClient, ClientInitialize] (s\<lparr>client := Some newClient\<rparr>)
               in case initialized of
                    Resolves u \<Rightarrow> emits [Console ''New WhatsApp client initialized''] s1
                  | Rejects err \<Rightarrow> failed s1)))\<lparr>isInitializing := False\<rparr>"

definition restartWhatsAppClient :: "unit outcome \<Rightarrow> unit outcome \<Rightarrow> server_state \<Rightarrow> server_state" where
  "restartWhatsAppClient destroyed initialized s =
     (case restart_begin s of
        (s1, False) \<Rightarrow> s1
      | (s1, True) \<Rightarrow>
          restart_rest (case client s of None \<Rightarrow> None | Some c \<Rightarrow> Some destroyed) initialized s1)"

subsection \<open>Sending a message (socket event send_message)\<close>

fun startsWith :: "string \<Rightarrow> string \<Rightarrow> bool" where
  "startsWith xs [] = True"
| "startsWith [] (y # ys) = False"
| "startsWith (x # xs) (y # ys) = (x = y \<and> startsWith xs ys)"

text \<open>\<open>String.prototype.includes\<close>.\<close>

fun jsIncludes :: "string \<Rightarrow> string \<Rightarrow> bool" where
  "jsIncludes [] ys = (ys = [])"
| "jsIncludes (x # xs) ys = (startsWith (x # xs) ys \<or> jsIncludes xs ys)"

definition isDigit :: "char \<Rightarrow> bool" where
  "isDigit c = (c \<in> set ''0123456789'')"

definition formatNumber :: "string \<Rightarrow> string" where
  "formatNumber p = (if jsIncludes p ''@c.us'' then p else filter isDigit p @ ''@c.us'')"

text \<open>Truthiness of an optional string: undefined and the empty string are falsy.\<close>

definition truthy :: "string option \<Rightarrow> bool" where
  "truthy x = (case x of None \<Rightarrow> False | Some v \<Rightarrow> v \<noteq> [])"

definition notReadyError :: string where
  "notReadyError = ''WhatsApp client is not ready. Please wait for connection to be established.''"

definition connectionStatus :: "server_state \<Rightarrow> string" where
  "connectionStatus s = (if isClientReady s then ''connected'' else ''disconnected'')"

definition isConnectionError :: "string \<Rightarrow> bool" where
  "isConnectionError m =
     (jsIncludes m ''Evaluation failed'' \<or> jsIncludes m ''Session closed'' \<or> jsIncludes m ''Target closed'')"

text \<open>The catch block of the handler.\<close>

definition sendFailed :: "send_data \<Rightarrow> string \<Rightarrow> server_state \<Rightarrow> server_state" where
  "sendFailed d err s =
     (let s1 = emits [Console (''Error sending message: '' @ err),
                      SocketEmit ''message-sent'' (SendFailed err [] [] d)] s
      in if isConnectionError err then
           (let s2 = (emits [Console ''Connection error detected, triggering reconnection''] s1)
                       \<lparr>isClientReady := False\<rparr>
            in if \<not> isReconnecting s2 then
                 emits [SetTimeout 1000
                          (CallSafeReconnect ''Message sending failed due to connection error'')] s2
               else s2)
         else s1)"

text \<open>The two ways to hand the message to the driver: the effects and what was sent.\<close>

definition deliver :: "env \<Rightarrow> send_data \<Rightarrow> string \<Rightarrow> effect list \<times> sent outcome" where
  "deliver e d formattedNumber =
     (case sd_mediaUrl d of
        Some url \<Rightarrow>
          (if url \<noteq> [] then
             (case httpGet e url of
                Rejects err \<Rightarrow>
                  ([Console ''Downloading media'', HttpGet url,
                    Console ''Error downloading or sending media''],
                   Rejects (''Failed to send media message: '' @ err))
              | Resolves buffer \<Rightarrow>
                  (let mimeType = (case sd_mediaType d of
                                     None \<Rightarrow> ''application/octet-stream''
                                   | Some m \<Rightarrow> (if m = [] then ''application/octet-stream'' else m))
                   in case sendMedia e formattedNumber mimeType buffer of
                        Rejects err \<Rightarrow>
                          ([Console ''Downloading media'', HttpGet url,
                            ClientSendMedia formattedNumber (sd_message d),
                            Console ''Error downloading or sending media''],
                           Rejects (''Failed to send media message: '' @ err))
                      | Resolves w \<Rightarrow>
                          ([Console ''Downloading media'', HttpGet url,
                            ClientSendMedia formattedNumber (sd_message d)], Resolves w)))
           else
             (case sendText e formattedNumber (sd_message d) of
                Rejects err \<Rightarrow> ([ClientSendText formattedNumber (sd_message d)], Rejects err)
              | Resolves w \<Rightarrow> ([ClientSendText formattedNumber (sd_message d)], Resolves w)))
      | None \<Rightarrow>
          (case sendText e formattedNumber (sd_message d) of
             Rejects err \<Rightarrow> ([ClientSendText formattedNumber (sd_message d)], Rejects err)
           | Resolves w \<Rightarrow> ([ClientSendText formattedNumber (sd_message d)], Resolves w)))"

definition sentMessage :: "env \<Rightarrow> send_data \<Rightarrow> string \<Rightarrow> sent \<Rightarrow> chat_message" where
  "sentMessage e d formattedNumber w =
     \<lparr> cm_id = sent_serialized w, cm_body = sd_message d, cm_from = sent_from w,
       cm_to = formattedNumber, cm_timestamp = nowIso e, cm_fromMe = True,
       cm_hasMedia = truthy (sd_mediaUrl d), cm_mediaUrl = sd_mediaUrl d,
       cm_mediaType = sd_mediaType d, cm_fileName = sd_fileName d, cm_fileSize = sd_fileSize d,
       cm_isVoiceMessage = sd_isVoiceMessage d, cm_duration = sd_duration d, cm_ack = None \<rparr>"

definition sendMessageHandler :: "env \<Rightarrow> send_data \<Rightarrow> server_state \<Rightarrow> server_state" where
  "sendMessageHandler e d s =
     (let s0 = emits [Console ''Received message data''] s
      in if \<not> isClientHealthy s0 then
           emits [Console ''Cannot send message - client not ready'',
                  SocketEmit ''message-sent''
                    (SendFailed notReadyError ''Client is not connected or authenticated''
                       (connectionStatus s0) d)] s0
         else
           (let formattedNumber = formatNumber (sd_phoneNumber d)
            in case deliver e d formattedNumber of
                 (es, Rejects err) \<Rightarrow> sendFailed d err (emits es s0)
               | (es, Resolves w) \<Rightarrow>
                   (let chatMessage = sentMessage e d formattedNumber w
                    in case addMessage e chatMessage of
                         Rejects err \<Rightarrow> sendFailed d err (emits (es @ [AddMessage chatMessage]) s0)
                       | Resolves u \<Rightarrow>
                           emits (es @ [AddMessage chatMessage,
                                        SocketEmit ''message-sent'' (SendOk chatMessage),
                                        Emit ''whatsapp-message'' (MessageObj chatMessage),
                                        Emit ''chat-updated'' (ChatOf chatMessage)]) s0)))"

text \<open>
  The handler cut at its awaits: the HTTP download, the driver's \<open>sendMessage\<close> and
  \<open>addMessage\<close>. Its catch block reads and writes the module variables when it runs.
\<close>

datatype send_phase =
    AwaitsHttpGet string
  | AwaitsSendMedia string
  | AwaitsSendText
  | AwaitsSaved chat_message

definition sendMimeType :: "send_data \<Rightarrow> string" where
  "sendMimeType d =
     (case sd_mediaType d of
        None \<Rightarrow> ''application/octet-stream''
      | Some m \<Rightarrow> (if m = [] then ''application/octet-stream'' else m))"

text \<open>From the health check to the first await.\<close>

definition send_start :: "send_data \<Rightarrow> effect list \<times> send_phase" where
  "send_start d =
     (case sd_mediaUrl d of
        Some url \<Rightarrow>
          (if url \<noteq> [] then ([Console ''Downloading media'', HttpGet url], AwaitsHttpGet url)
           else ([ClientSendText (formatNumber (sd_phoneNumber d)) (sd_message d)], AwaitsSendText))
      | None \<Rightarrow> ([ClientSendText (formatNumber (sd_phoneNumber d)) (sd_message d)], AwaitsSendText))"

definition send_save :: "env \<Rightarrow> send_data \<Rightarrow> sent \<Rightarrow> server_state \<Rightarrow> server_state \<times> send_phase option" where
  "send_save e d w s =
     (let chatMessage = sentMessage e d (formatNumber (sd_phoneNumber d)) w
      in (emits [AddMessage chatMessage] s, Some (AwaitsSaved chatMessage)))"

definition mediaSendFailed :: "send_data \<Rightarrow> string \<Rightarrow> server_state \<Rightarrow> server_state" where
  "mediaSendFailed d err s =
     sendFailed d (''Failed to send media message: '' @ err)
       (emits [Console ''Error downloading or sending media''] s)"

fun send_resume ::
  "env \<Rightarrow> send_data \<Rightarrow> send_phase \<Rightarrow> server_state \<Rightarrow> server_state \<times> send_phase option" where
  "send_resume e d (AwaitsHttpGet url) s =
     (case httpGet e url of
        Rejects err \<Rightarrow> (mediaSendFailed d err s, None)
      | Resolves buffer \<Rightarrow>
          (emits [ClientSendMedia (formatNumber (sd_phoneNumber d)) (sd_message d)] s,
           Some (AwaitsSendMedia buffer)))"
| "send_resume e d (AwaitsSendMedia buffer) s =
     (case sendMedia e (formatNumber (sd_phoneNumber d)) (sendMimeType d) buffer of
        Rejects err \<Rightarrow> (mediaSendFailed d err s, None)
      | Resolves w \<Rightarrow> send_save e d w s)"
| "send_resume e d AwaitsSendText s =
     (case sendText e (formatNumber (sd_phoneNumber d)) (sd_message d) of
        Rejects err \<Rightarrow> (sendFailed d err s, None)
      | Resolves w \<Rightarrow> send_save e d w s)"
| "send_resume e d (AwaitsSaved chatMessage) s =
     (case addMessage e chatMessage of
        Rejects err \<Rightarrow> (sendFailed d err s, None)
      | Resolves u \<Rightarrow>
          (emits [SocketEmit ''message-sent'' (SendOk chatMessage),
                  Emit ''whatsapp-message'' (MessageObj chatMessage),
                  Emit ''chat-updated'' (ChatOf chatMessage)] s, None))"

subsection \<open>HTTP endpoints: avatars and status\<close>

datatype response =
    NotReady string
  | BadRequest
  | ServerError string
  | AvatarOk string "string option"
  | AvatarsOk "(string \<times> string option) list"
  | Refreshed nat nat
  | Status bool bool string "account_info option"

definition notReady :: "server_state \<Rightarrow> response" where
  "notReady s = NotReady (connectionStatus s)"

text \<open>GET /avatar/:contactId\<close>

definition getAvatar :: "env \<Rightarrow> string \<Rightarrow> server_state \<Rightarrow> server_state \<times> response" where
  "getAvatar e contactId s =
     (let s0 = emits [Console ''GET /avatar''] s
      in if \<not> isClientHealthy s0 then (s0, notReady s0)
         else
           (case getContactAvatar e contactId of
              Rejects err \<Rightarrow>
                (emits [GetContactAvatar contactId, Console ''avatar error''] s0, ServerError err)
            | Resolves url \<Rightarrow>
                (emits [GetContactAvatar contactId, Console ''avatar answered''] s0,
                 AvatarOk contactId url)))"

text \<open>POST /avatars/batch; the body's \<open>contactIds\<close> is \<open>None\<close> when it is not an array.\<close>

definition postAvatarsBatch ::
  "env \<Rightarrow> string list option \<Rightarrow> server_state \<Rightarrow> server_state \<times> response" where
  "postAvatarsBatch e contactIds s =
     (let s0 = emits [Console ''POST /avatars/batch''] s
      in case contactIds of
           None \<Rightarrow> (s0, BadRequest)
         | Some ids \<Rightarrow>
             (if ids = [] then (s0, BadRequest)
              else if \<not> isClientHealthy s0 then (s0, notReady s0)
              else
                (case getMultipleContactAvatars e ids of
                   Rejects err \<Rightarrow>
                     (emits [GetMultipleContactAvatars ids, Console ''avatars error''] s0,
                      ServerError err)
                 | Resolves avatars \<Rightarrow>
                     (emits [GetMultipleContactAvatars ids, Console ''avatars answered''] s0,
                      AvatarsOk avatars))))"

text \<open>
  \<open>chat.avatarUrl !== avatars[phoneNumber]\<close>: the chat's url is undefined or a string, the
  fetched one undefined (no entry), null or a string.
\<close>

definition avatarDiffers :: "(string \<times> string option) list \<Rightarrow> string \<times> string option \<Rightarrow> bool" where
  "avatarDiffers avatars chat =
     (case map_of avatars (fst chat) of
        None \<Rightarrow> snd chat \<noteq> None
      | Some None \<Rightarrow> True
      | Some (Some u) \<Rightarrow> snd chat \<noteq> Some u)"

text \<open>POST /avatars/refresh\<close>

definition postAvatarsRefresh :: "env \<Rightarrow> server_state \<Rightarrow> server_state \<times> response" where
  "postAvatarsRefresh e s =
     (let s0 = emits [Console ''POST /avatars/refresh''] s
      in if \<not> isClientHealthy s0 then (s0, notReady s0)
         else
           (case loadChats e of
              Rejects err \<Rightarrow> (emits [LoadChats, Console ''refresh error''] s0, ServerError err)
            | Resolves chats \<Rightarrow>
                (let contactIds = map fst chats
                 in case getMultipleContactAvatars e contactIds of
                      Rejects err \<Rightarrow>
                        (emits [LoadChats, GetMultipleContactAvatars contactIds,
                                Console ''refresh error''] s0, ServerError err)
                    | Resolves avatars \<Rightarrow>
                        (case saveChats e of
                           Rejects err \<Rightarrow>
                             (emits [LoadChats, GetMultipleContactAvatars contactIds, SaveChats,
                                     Console ''refresh error''] s0, ServerError err)
                         | Resolves u \<Rightarrow>
                             (emits [LoadChats, GetMultipleContactAvatars contactIds, SaveChats,
                                     Emit ''chats'' NoPayload] s0,
                              Refreshed (length (filter (avatarDiffers avatars) chats))
                                        (length contactIds))))))"

text \<open>GET /whatsapp/status\<close>

definition statusEndpoint :: "server_state \<Rightarrow> response" where
  "statusEndpoint s =
     (let ready = (case client s of None \<Rightarrow> False | Some c \<Rightarrow> info c \<noteq> None);
          hasQr = truthy (qrCode s)
      in Status ready hasQr
           (if ready then ''ready'' else if hasQr then ''qr_pending'' else ''disconnected'')
           (if ready then Some (currentAccountInfo s) else None))"

definition statusText :: "response \<Rightarrow> string" where
  "statusText r = (case r of Status ready hasQr st acc \<Rightarrow> st | _ \<Rightarrow> [])"

subsection \<open>The server as a transition system\<close>

text \<open>
  A call of \<open>safeReconnect\<close>, of \<open>initializeWhatsAppClient\<close> at start-up, of
  \<open>restartWhatsAppClient\<close>, of the two message handlers or of the \<open>send_message\<close>
  handler is suspended at its awaits, and other handlers run in between. A task is such a
  suspended call; the system is the module variables and the tasks. A message task carries
  the answers of the outside world with it and is resumed with \<open>Answered\<close>; the
  lifecycle tasks get their answers when they are resumed.
  The remaining handlers are applied whole. Those that await (\<open>qr\<close>, \<open>ready\<close>, the
  avatar endpoints) write after their await only the QR code and the attempt counter
  (\<open>qr\<close>), the account's picture and the QR code (\<open>ready\<close>), or nothing.
\<close>

datatype task =
    ReconnectAwaitsDestroy
  | ReconnectAwaitsDelay
  | ReconnectAwaitsInitialize
  | StartupAwaitsInitialize
  | RestartAwaits bool
  | IngestAwaits env bool wa_message ingest_phase
  | SendAwaits env send_data send_phase

datatype resumption =
    Destroyed "unit outcome"
  | DelayElapsed
  | Initialized driver
  | Restarted "unit outcome" "unit outcome"
  | Answered

datatype event =
    Startup
  | Qr "string outcome"
  | Authenticated
  | LoadingScreen string
  | ChangeState string
  | ClientError string
  | DriverReady client_info "string option outcome" string
  | Disconnected string
  | AuthFailure string
  | Message env wa_message
  | MessageCreate env wa_message
  | MessageAck wa_message int
  | SendMessage env send_data
  | AvatarRequest env string
  | AvatarsBatchRequest env "string list option"
  | AvatarsRefreshRequest env
  | ReconnectRequested string
  | RestartRequested
  | Resume nat resumption

record system =
  vars :: server_state
  tasks :: "task list"

definition bootSystem :: system where
  "bootSystem = \<lparr> vars = initialState, tasks = [] \<rparr>"

definition isReconnectTask :: "task \<Rightarrow> bool" where
  "isReconnectTask t =
     (case t of
        ReconnectAwaitsDestroy \<Rightarrow> True
      | ReconnectAwaitsDelay \<Rightarrow> True
      | ReconnectAwaitsInitialize \<Rightarrow> True
      | _ \<Rightarrow> False)"

definition isMessageTask :: "task \<Rightarrow> bool" where
  "isMessageTask t =
     (case t of
        IngestAwaits e outgoing msg ph \<Rightarrow> True
      | SendAwaits e d ph \<Rightarrow> True
      | _ \<Rightarrow> False)"

text \<open>How many calls of \<open>safeReconnect\<close> are in flight.\<close>

definition reconnectsInFlight :: "system \<Rightarrow> nat" where
  "reconnectsInFlight c = length (filter isReconnectTask (tasks c))"

text \<open>How many calls of the message handlers and of the send handler are in flight.\<close>

definition messagesInFlight :: "system \<Rightarrow> nat" where
  "messagesInFlight c = length (filter isMessageTask (tasks c))"

text \<open>The driver has put the identity on the client object when it raises \<open>ready\<close>.\<close>

definition driverSetsInfo :: "client_info \<Rightarrow> server_state \<Rightarrow> server_state" where
  "driverSetsInfo i s = s\<lparr>client := map_option (\<lambda>c. c\<lparr>info := Some i\<rparr>) (client s)\<rparr>"

definition dropTask :: "nat \<Rightarrow> task list \<Rightarrow> task list" where
  "dropTask i ts = take i ts @ drop (Suc i) ts"

definition requestReconnect :: "string \<Rightarrow> system \<Rightarrow> system" where
  "requestReconnect reason c =
     (case safeReconnect_enter reason (vars c) of
        (s1, False) \<Rightarrow> c\<lparr>vars := s1\<rparr>
      | (s1, True) \<Rightarrow>
          (case client (vars c) of
             Some cl \<Rightarrow> \<lparr> vars = s1, tasks = tasks c @ [ReconnectAwaitsDestroy] \<rparr>
           | None \<Rightarrow>
               (case safeReconnect_afterDestroy None s1 of
                  (s2, False) \<Rightarrow> c\<lparr>vars := s2\<rparr>
                | (s2, True) \<Rightarrow> \<lparr> vars = s2, tasks = tasks c @ [ReconnectAwaitsDelay] \<rparr>)))"

definition requestStartup :: "system \<Rightarrow> system" where
  "requestStartup c =
     (case initialize_begin (vars c) of
        (s1, False) \<Rightarrow> c\<lparr>vars := s1\<rparr>
      | (s1, True) \<Rightarrow> \<lparr> vars = s1, tasks = tasks c @ [StartupAwaitsInitialize] \<rparr>)"

definition requestRestart :: "system \<Rightarrow> system" where
  "requestRestart c =
     (case restart_begin (vars c) of
        (s1, False) \<Rightarrow> c\<lparr>vars := s1\<rparr>
      | (s1, True) \<Rightarrow> \<lparr> vars = s1, tasks = tasks c @ [RestartAwaits (client (vars c) \<noteq> None)] \<rparr>)"

text \<open>The three handlers up to their first await.\<close>

definition beginIngest :: "env \<Rightarrow> bool \<Rightarrow> wa_message \<Rightarrow> system \<Rightarrow> system" where
  "beginIngest e outgoing msg c =
     (case ingest_start e outgoing msg of
        (es, None) \<Rightarrow> c\<lparr>vars := emits es (vars c)\<rparr>
      | (es, Some ph) \<Rightarrow>
          \<lparr> vars = emits es (vars c), tasks = tasks c @ [IngestAwaits e outgoing msg ph] \<rparr>)"

definition requestMessage :: "env \<Rightarrow> wa_message \<Rightarrow> system \<Rightarrow> system" where
  "requestMessage e msg c =
     (if \<not> isClientReady (vars c) then
        c\<lparr>vars := emits [Console ''Received message but client not ready, ignoring''] (vars c)\<rparr>
      else if \<not> msg_fromMe msg then
        (if isReady (currentAccountInfo (vars c)) \<and>
            Some (msg_to msg) = phoneNumber (currentAccountInfo (vars c)) then
           beginIngest e False msg c
         else c\<lparr>vars := emits [Console ''Message not for current account, ignoring''] (vars c)\<rparr>)
      else c)"

definition requestMessageCreate :: "env \<Rightarrow> wa_message \<Rightarrow> system \<Rightarrow> system" where
  "requestMessageCreate e msg c =
     (if \<not> isClientReady (vars c) then
        c\<lparr>vars := emits [Console ''Received message_create but client not ready, ignoring''] (vars c)\<rparr>
      else if msg_fromMe msg then
        (if isReady (currentAccountInfo (vars c)) \<and>
            Some (msg_from msg) = phoneNumber (currentAccountInfo (vars c)) then
           beginIngest e True msg c
         else c\<lparr>vars := emits [Console ''Outgoing message not from current account, ignoring''] (vars c)\<rparr>)
      else c)"

definition requestSend :: "env \<Rightarrow> send_data \<Rightarrow> system \<Rightarrow> system" where
  "requestSend e d c =
     (let s0 = emits [Console ''Received message data''] (vars c)
      in if \<not> isClientHealthy s0 then
           c\<lparr>vars := emits [Console ''Cannot send message - client not ready'',
                           SocketEmit ''message-sent''
                             (SendFailed notReadyError ''Client is not connected or authenticated''
                                (connectionStatus s0) d)] s0\<rparr>
         else
           \<lparr> vars = emits (fst (send_start d)) s0,
             tasks = tasks c @ [SendAwaits e d (snd (send_start d))] \<rparr>)"

text \<open>
  Resuming the task at position \<open>i\<close> with the answer it waits for; an answer of the wrong
  kind, or a position without a task, changes nothing. In the source a start-up whose
  initialisation is rejected ends the process; here the events go on, which only adds runs.
\<close>

fun resumeTask :: "task \<Rightarrow> resumption \<Rightarrow> server_state \<Rightarrow> (server_state \<times> task option) option" where
  "resumeTask ReconnectAwaitsDestroy (Destroyed r) s =
     (case safeReconnect_afterDestroy (Some r) s of
        (s2, False) \<Rightarrow> Some (s2, None)
      | (s2, True) \<Rightarrow> Some (s2, Some ReconnectAwaitsDelay))"
| "resumeTask ReconnectAwaitsDelay DelayElapsed s =
     (case initialize_begin s of
        (s1, False) \<Rightarrow> Some (safeReconnect_finally s1, None)
      | (s1, True) \<Rightarrow> Some (s1, Some ReconnectAwaitsInitialize))"
| "resumeTask ReconnectAwaitsInitialize (Initialized d) s =
     Some (safeReconnect_settle (initialize_rest d s), None)"
| "resumeTask StartupAwaitsInitialize (Initialized d) s =
     Some (fst (initialize_rest d s), None)"
| "resumeTask (RestartAwaits hadClient) (Restarted destroyed initialized) s =
     Some (restart_rest (if hadClient then Some destroyed else None) initialized s, None)"
| "resumeTask (IngestAwaits e outgoing msg ph) Answered s =
     (case ingest_resume e outgoing msg ph of
        (es, None) \<Rightarrow> Some (emits es s, None)
      | (es, Some ph') \<Rightarrow> Some (emits es s, Some (IngestAwaits e outgoing msg ph')))"
| "resumeTask (SendAwaits e d ph) Answered s =
     (case send_resume e d ph s of
        (s', None) \<Rightarrow> Some (s', None)
      | (s', Some ph') \<Rightarrow> Some (s', Some (SendAwaits e d ph')))"
| "resumeTask t r s = None"

definition resume :: "nat \<Rightarrow> resumption \<Rightarrow> system \<Rightarrow> system" where
  "resume i r c =
     (if i < length (tasks c) then
        (case resumeTask (tasks c ! i) r (vars c) of
           None \<Rightarrow> c
         | Some (s', None) \<Rightarrow> \<lparr> vars = s', tasks = dropTask i (tasks c) \<rparr>
         | Some (s', Some t') \<Rightarrow> \<lparr> vars = s', tasks = (tasks c)[i := t'] \<rparr>)
      else c)"

fun step :: "event \<Rightarrow> system \<Rightarrow> system" where
  "step Startup c = requestStartup c"
| "step (Qr u) c = c\<lparr>vars := onQr u (vars c)\<rparr>"
| "step Authenticated c = c\<lparr>vars := onAuthenticated (vars c)\<rparr>"
| "step (LoadingScreen p) c = c\<lparr>vars := onLoadingScreen p (vars c)\<rparr>"
| "step (ChangeState st) c = c\<lparr>vars := onChangeState st (vars c)\<rparr>"
| "step (ClientError err) c = c\<lparr>vars := onClientError err (vars c)\<rparr>"
| "step (DriverReady i pic now) c = c\<lparr>vars := onReady pic now (driverSetsInfo i (vars c))\<rparr>"
| "step (Disconnected reason) c = c\<lparr>vars := onDisconnected reason (vars c)\<rparr>"
| "step (AuthFailure err) c = c\<lparr>vars := onAuthFailure err (vars c)\<rparr>"
| "step (Message e msg) c = requestMessage e msg c"
| "step (MessageCreate e msg) c = requestMessageCreate e msg c"
| "step (MessageAck msg a) c = c\<lparr>vars := onMessageAck msg a (vars c)\<rparr>"
| "step (SendMessage e d) c = requestSend e d c"
| "step (AvatarRequest e contactId) c = c\<lparr>vars := fst (getAvatar e contactId (vars c))\<rparr>"
| "step (AvatarsBatchRequest e ids) c = c\<lparr>vars := fst (postAvatarsBatch e ids (vars c))\<rparr>"
| "step (AvatarsRefreshRequest e) c = c\<lparr>vars := fst (postAvatarsRefresh e (vars c))\<rparr>"
| "step (ReconnectRequested reason) c = requestReconnect reason c"
| "step RestartRequested c = requestRestart c"
| "step (Resume i r) c = resume i r c"

fun run :: "event list \<Rightarrow> system \<Rightarrow> system" where
  "run [] c = c"
| "run (ev # evs) c = run evs (step ev c)"

text \<open>
  What a trace holds: the messages handed to the chat storage, the broadcasts, the timers,
  and below the announcements of a message (the broadcasts \<open>whatsapp-message\<close> and
  \<open>chat-updated\<close>).
\<close>

fun stored :: "effect list \<Rightarrow> chat_message list" where
  "stored [] = []"
| "stored (AddMessage m # es) = m # stored es"
| "stored (x # es) = stored es"

fun broadcasts :: "effect list \<Rightarrow> (string \<times> payload) list" where
  "broadcasts [] = []"
| "broadcasts (Emit n p # es) = (n, p) # broadcasts es"
| "broadcasts (x # es) = broadcasts es"

fun timers :: "effect list \<Rightarrow> (nat \<times> callback) list" where
  "timers [] = []"
| "timers (SetTimeout n cb # es) = (n, cb) # timers es"
| "timers (x # es) = timers es"

text \<open>The calls that reach outside the process: the driver, the network, the storage modules.\<close>

fun isExternalCall :: "effect \<Rightarrow> bool" where
  "isExternalCall (Console x) = False"
| "isExternalCall (Emit n p) = False"
| "isExternalCall (SocketEmit n p) = False"
| "isExternalCall (SetTimeout n cb) = False"
| "isExternalCall (Sleep n) = False"
| "isExternalCall x = True"

text \<open>The delays a trace holds: the waits and the timers.\<close>

fun delays :: "effect list \<Rightarrow> nat list" where
  "delays [] = []"
| "delays (Sleep n # es) = n # delays es"
| "delays (SetTimeout n cb # es) = n # delays es"
| "delays (x # es) = delays es"

fun announced :: "effect list \<Rightarrow> payload list" where
  "announced [] = []"
| "announced (Emit n p # es) =
     (if n = ''whatsapp-message'' \<or> n = ''chat-updated'' then p # announced es else announced es)"
| "announced (x # es) = announced es"

text \<open>How often a trace creates or initialises a driver client.\<close>

fun initializations :: "effect list \<Rightarrow> nat" where
  "initializations [] = 0"
| "initializations (NewClient # es) = Suc (initializations es)"
| "initializations (ClientInitialize # es) = Suc (initializations es)"
| "initializations (x # es) = initializations es"

text \<open>The effects that a handler has added to the trace of the state it started in.\<close>

definition newEffects :: "server_state \<Rightarrow> server_state \<Rightarrow> effect list" where
  "newEffects s s' = drop (length (trace s)) (trace s')"

text \<open>
  The single-flight invariant: no call of \<open>safeReconnect\<close> is in flight, or one is and the
  flag is set.
\<close>

definition singleFlight :: "system \<Rightarrow> bool" where
  "singleFlight c =
     (reconnectsInFlight c = 0 \<or> (reconnectsInFlight c = 1 \<and> isReconnecting (vars c)))"

text \<open>
  The delay that \<open>safeReconnect\<close> awaits before it initialises a new client, when it gets
  that far.
\<close>

definition attemptDelay :: "unit outcome option \<Rightarrow> server_state \<Rightarrow> nat option" where
  "attemptDelay destroyed s =
     (case safeReconnect_afterDestroy destroyed s of
        (s2, True) \<Rightarrow> Some (sum_list (delays (newEffects s s2)))
      | (s2, False) \<Rightarrow> None)"

text \<open>
  The delays with which the source schedules a call of \<open>safeReconnect\<close>: after a
  disconnect or a failed send, after an authentication failure, after a failed reconnect,
  and after a failed initialisation.
\<close>

definition scheduleDelays :: "nat list" where
  "scheduleDelays = [1000, 2000, RECONNECT_DELAY * 2, min (RECONNECT_DELAY * 3) 30000]"

text \<open>The cap of the delay between two passes of the initialisation loop.\<close>

definition maxInitDelay :: nat where
  "maxInitDelay = 60000"

text \<open>Every timer of a trace has one of the fixed delays, and no wait or timer exceeds the cap.\<close>

definition delaysFixed :: "effect list \<Rightarrow> bool" where
  "delaysFixed es =
     (list_all (\<lambda>t. fst t \<in> set scheduleDelays) (timers es) \<and>
      list_all (\<lambda>n. n \<le> maxInitDelay) (delays es))"

text \<open>The payloads of the \<open>connection-failed\<close> broadcasts of a trace.\<close>

fun connectionFailures :: "effect list \<Rightarrow> payload list" where
  "connectionFailures [] = []"
| "connectionFailures (Emit n p # es) =
     (if n = ''connection-failed'' then p # connectionFailures es else connectionFailures es)"
| "connectionFailures (x # es) = connectionFailures es"

text \<open>A series of calls of \<open>safeReconnect\<close>, each with the answers it gets.\<close>

fun reconnectAll :: "(unit outcome \<times> driver \<times> string) list \<Rightarrow> server_state \<Rightarrow> server_state" where
  "reconnectAll [] s = s"
| "reconnectAll ((destroyed, d, reason) # calls) s = reconnectAll calls (safeReconnect destroyed d reason s)"

text \<open>From one state to another the ready flag is down and nothing was stored or announced.\<close>

definition idle :: "server_state \<Rightarrow> server_state \<Rightarrow> bool" where
  "idle s s' = (\<not> isClientReady s' \<and> stored (trace s') = stored (trace s) \<and>
                announced (trace s') = announced (trace s))"

text \<open>A series of acknowledgment events of the driver.\<close>

fun ackEvents :: "(wa_message \<times> int) list \<Rightarrow> event list" where
  "ackEvents [] = []"
| "ackEvents ((msg, a) # acks) = MessageAck msg a # ackEvents acks"


subsection \<open>Sample inputs\<close>

definition okDriver :: driver where
  "okDriver = \<lparr> initializeOutcome = (\<lambda>n. Resolves ()), destroyOutcome = (\<lambda>n. Resolves ()) \<rparr>"

definition failingDriver :: driver where
  "failingDriver =
     \<lparr> initializeOutcome = (\<lambda>n. Rejects ''Timeout''), destroyOutcome = (\<lambda>n. Resolves ()) \<rparr>"

definition sampleInfo :: client_info where
  "sampleInfo =
     \<lparr> wid = Some \<lparr> user = ''77001234567'', serialized = ''77001234567@c.us'' \<rparr>,
       pushname = Some ''Office'' \<rparr>"

definition sampleEnv :: env where
  "sampleEnv =
     \<lparr> downloadMedia = (\<lambda>m. Resolves (Some \<lparr> mimetype = ''image/png'', data = ''aGk='', filename = None \<rparr>)),
       uploadMediaToSupabase = (\<lambda>d n t. Resolves ''https://blob.example/m1.png''),
       audioProbe = (\<lambda>d t. Resolves 3),
       addMessage = (\<lambda>m. Resolves ()),
       bufferLength = (\<lambda>d. 2),
       nowIso = ''2025-01-01T00:00:00.000Z'',
       nowMillis = ''1735689600000'',
       httpGet = (\<lambda>u. Resolves ''bytes''),
       sendText = (\<lambda>n b. Resolves \<lparr> sent_serialized = ''true_A@c.us_s1'', sent_from = ''77001234567@c.us'' \<rparr>),
       sendMedia = (\<lambda>n t b. Resolves \<lparr> sent_serialized = ''true_A@c.us_s2'', sent_from = ''77001234567@c.us'' \<rparr>),
       getContactAvatar = (\<lambda>c. Resolves None),
       getMultipleContactAvatars = (\<lambda>cs. Resolves []),
       loadChats = Resolves [],
       saveChats = Resolves () \<rparr>"

definition uploadFailsEnv :: env where
  "uploadFailsEnv = sampleEnv\<lparr>uploadMediaToSupabase := (\<lambda>d n t. Rejects ''storage unavailable'')\<rparr>"

definition noMediaEnv :: env where
  "noMediaEnv = sampleEnv\<lparr>downloadMedia := (\<lambda>m. Resolves None)\<rparr>"

definition inboundText :: wa_message where
  "inboundText =
     \<lparr> msg_id = ''m1'', msg_serialized = ''false_A@c.us_m1'', msg_body = ''hi'',
       msg_from = ''A@c.us'', msg_to = ''77001234567@c.us'', msg_fromMe = False,
       msg_hasMedia = False, msg_type = ''chat'', msg_ack = Some 1 \<rparr>"

definition inboundImage :: wa_message where
  "inboundImage = inboundText\<lparr>msg_hasMedia := True, msg_type := ''image''\<rparr>"

definition outboundEcho :: wa_message where
  "outboundEcho =
     \<lparr> msg_id = ''s9'', msg_serialized = ''true_A@c.us_s9'', msg_body = ''hello'',
       msg_from = ''77001234567@c.us'', msg_to = ''A@c.us'', msg_fromMe = True,
       msg_hasMedia = False, msg_type = ''chat'', msg_ack = Some 1 \<rparr>"

definition strayInbound :: wa_message where
  "strayInbound = inboundText\<lparr>msg_to := ''70000000000@c.us''\<rparr>"

definition strayEcho :: wa_message where
  "strayEcho = outboundEcho\<lparr>msg_from := ''70000000000@c.us''\<rparr>"

definition sampleSend :: send_data where
  "sampleSend =
     \<lparr> sd_phoneNumber = ''+7 700 123-45-67'', sd_message = ''hello'', sd_mediaUrl = None,
       sd_fileName = None, sd_fileSize = None, sd_mediaType = None,
       sd_isVoiceMessage = None, sd_duration = None \<rparr>"

text \<open>Four reconnects in a row whose initialisation fails, and a fifth that succeeds.\<close>

definition fourFailures :: "(unit outcome \<times> driver \<times> string) list" where
  "fourFailures =
     [(Resolves (), failingDriver, ''Disconnected: logout''),
      (Resolves (), failingDriver, ''Previous attempt failed''),
      (Resolves (), failingDriver, ''Previous attempt failed''),
      (Resolves (), failingDriver, ''Previous attempt failed'')]"

definition afterFourFailures :: server_state where
  "afterFourFailures = reconnectAll fourFailures initialState"

definition fifthAttempt :: server_state where
  "fifthAttempt = safeReconnect (Resolves ()) okDriver ''Previous attempt failed'' afterFourFailures"

text \<open>The session after a start-up that succeeded and the driver's \<open>ready\<close>.\<close>

definition bootToReady :: "event list" where
  "bootToReady =
     [Startup, Resume 0 (Initialized okDriver),
      DriverReady sampleInfo (Resolves None) ''2025-01-01T00:00:00.000Z'']"

definition readyState :: server_state where
  "readyState = vars (run bootToReady bootSystem)"

text \<open>
  The driver drops the session, the timer of the disconnect handler fires and
  \<open>safeReconnect\<close> waits for the old client to be destroyed.
\<close>

definition reconnectingSystem :: system where
  "reconnectingSystem =
     run (bootToReady @ [Disconnected ''logout'', ReconnectRequested ''Disconnected: logout''])
       bootSystem"




text \<open>
  Three reconnect attempts in one session. The session is dropped and the timer of the
  disconnect handler starts the first attempt, whose initialisation fails in all five
  passes; the timer of the catch block starts the second attempt while the timer of the
  failed initialisation finds it in flight; the second attempt initialises its client, the
  driver then reports an authentication failure, and the timer of that handler starts the
  third attempt.
\<close>

definition initFailure :: string where
  "initFailure = ''WhatsApp client initialization failed after 5 attempts: Timeout''"

definition threeAttempts :: "event list" where
  "threeAttempts =
     bootToReady @
     [Disconnected ''logout'',
      ReconnectRequested ''Disconnected: logout'',
      Resume 0 (Destroyed (Resolves ())), Resume 0 DelayElapsed,
      Resume 0 (Initialized failingDriver),
      ReconnectRequested (''Previous attempt failed: '' @ initFailure),
      Resume 0 (Destroyed (Resolves ())),
      ReconnectRequested ''Extreme initialization failed'',
      Resume 0 DelayElapsed, Resume 0 (Initialized okDriver),
      AuthFailure ''auth'',
      ReconnectRequested ''Auth failure: auth'',
      Resume 0 (Destroyed (Resolves ()))]"


section \<open>Frame lemmas\<close>


lemma emits_simps [simp]:
  "client (emits es s) = client s"
  "currentAccountInfo (emits es s) = currentAccountInfo s"
  "qrCode (emits es s) = qrCode s"
  "isInitializing (emits es s) = isInitializing s"
  "isClientReady (emits es s) = isClientReady s"
  "isReconnecting (emits es s) = isReconnecting s"
  "reconnectAttempts (emits es s) = reconnectAttempts s"
  "trace (emits es s) = trace s @ es"
  by (simp_all add: emits_def)

lemma logConnectionState_simps [simp]:
  "client (logConnectionState st d s) = client s"
  "currentAccountInfo (logConnectionState st d s) = currentAccountInfo s"
  "qrCode (logConnectionState st d s) = qrCode s"
  "isInitializing (logConnectionState st d s) = isInitializing s"
  "isClientReady (logConnectionState st d s) = isClientReady s"
  "isReconnecting (logConnectionState st d s) = isReconnecting s"
  "reconnectAttempts (logConnectionState st d s) = reconnectAttempts s"
  "trace (logConnectionState st d s) =
     trace s @ [Console (''WhatsApp Connection: '' @ st),
                Emit ''connection-state'' (ConnectionState st d (isClientReady s) (reconnectAttempts s))]"
  by (simp_all add: logConnectionState_def)

lemma clearAccountReady_simps [simp]:
  "client (clearAccountReady s) = client s"
  "isReady (currentAccountInfo (clearAccountReady s)) = False"
  "phoneNumber (currentAccountInfo (clearAccountReady s)) = phoneNumber (currentAccountInfo s)"
  "qrCode (clearAccountReady s) = qrCode s"
  "isInitializing (clearAccountReady s) = isInitializing s"
  "isClientReady (clearAccountReady s) = isClientReady s"
  "isReconnecting (clearAccountReady s) = isReconnecting s"
  "reconnectAttempts (clearAccountReady s) = reconnectAttempts s"
  "trace (clearAccountReady s) = trace s"
  by (simp_all add: clearAccountReady_def)

lemma destroyFailedClient_simps [simp]:
  "currentAccountInfo (destroyFailedClient d n s) = currentAccountInfo s"
  "qrCode (destroyFailedClient d n s) = qrCode s"
  "isInitializing (destroyFailedClient d n s) = isInitializing s"
  "isClientReady (destroyFailedClient d n s) = isClientReady s"
  "isReconnecting (destroyFailedClient d n s) = isReconnecting s"
  "reconnectAttempts (destroyFailedClient d n s) = reconnectAttempts s"
  by (simp_all add: destroyFailedClient_def split: option.splits outcome.splits)

lemma beforeInitialize_simps [simp]:
  "client (beforeInitialize n s) = client s"
  "currentAccountInfo (beforeInitialize n s) = currentAccountInfo s"
  "qrCode (beforeInitialize n s) = qrCode s"
  "isInitializing (beforeInitialize n s) = isInitializing s"
  "isClientReady (beforeInitialize n s) = isClientReady s"
  "isReconnecting (beforeInitialize n s) = isReconnecting s"
  "reconnectAttempts (beforeInitialize n s) = reconnectAttempts s"
  by (simp_all add: beforeInitialize_def)

lemma afterFailedInitialize_simps [simp]:
  "client (afterFailedInitialize d n e s) = Some newClient"
  "currentAccountInfo (afterFailedInitialize d n e s) = currentAccountInfo s"
  "qrCode (afterFailedInitialize d n e s) = qrCode s"
  "isInitializing (afterFailedInitialize d n e s) = isInitializing s"
  "isClientReady (afterFailedInitialize d n e s) = isClientReady s"
  "isReconnecting (afterFailedInitialize d n e s) = isReconnecting s"
  "reconnectAttempts (afterFailedInitialize d n e s) = reconnectAttempts s"
  by (simp_all add: afterFailedInitialize_def)

lemma initializeLoop_frame:
  "initializeLoop d n s = (s', r) \<Longrightarrow>
     currentAccountInfo s' = currentAccountInfo s \<and> qrCode s' = qrCode s \<and>
     isInitializing s' = isInitializing s \<and> isClientReady s' = isClientReady s \<and>
     isReconnecting s' = isReconnecting s \<and> reconnectAttempts s' = reconnectAttempts s"
proof (induction d n s arbitrary: s' r rule: initializeLoop.induct)
  case (1 d initAttempts s)
  show ?case
  proof (cases "initAttempts < maxInitAttempts")
    case False
    with "1.prems" show ?thesis by (simp add: initializeLoop.simps)
  next
    case True
    show ?thesis
    proof (cases "initializeOutcome d (initAttempts + 1)")
      case (Resolves u)
      with True "1.prems" show ?thesis
        by (auto simp add: initializeLoop.simps [of d initAttempts s] Let_def)
    next
      case (Rejects e)
      show ?thesis
      proof (cases "initAttempts + 1 < maxInitAttempts")
        case False
        with True Rejects "1.prems" show ?thesis
          by (auto simp add: initializeLoop.simps [of d initAttempts s] Let_def)
      next
        case lt: True
        let ?s6 = "afterFailedInitialize d (initAttempts + 1) e (beforeInitialize (initAttempts + 1) s)"
        from True Rejects lt "1.prems"
        have rec: "initializeLoop d (initAttempts + 1) ?s6 = (s', r)"
          by (simp add: initializeLoop.simps [of d initAttempts s] Let_def)
        have "currentAccountInfo s' = currentAccountInfo ?s6 \<and> qrCode s' = qrCode ?s6 \<and>
     isInitializing s' = isInitializing ?s6 \<and> isClientReady s' = isClientReady ?s6 \<and>
     isReconnecting s' = isReconnecting ?s6 \<and> reconnectAttempts s' = reconnectAttempts ?s6"
          by (rule "1.IH" [OF True refl refl Rejects lt rec])
        then show ?thesis by simp
      qed
    qed
  qed
qed


lemma initializeLoop_isReconnecting:
  "isReconnecting (fst (initializeLoop d n s)) = isReconnecting s"
  using initializeLoop_frame [of d n s "fst (initializeLoop d n s)" "snd (initializeLoop d n s)"]
  by simp

lemma initialize_rest_isReconnecting [simp]:
  "isReconnecting (fst (initialize_rest d s)) = isReconnecting s"
proof (cases "initializeLoop d 0 s")
  case (Pair s1 r)
  then have "isReconnecting s1 = isReconnecting s"
    using initializeLoop_frame by blast
  with Pair show ?thesis
    by (cases r) (simp_all add: initialize_rest_def Let_def)
qed

lemma initialize_begin_isReconnecting [simp]:
  "isReconnecting (fst (initialize_begin s)) = isReconnecting s"
  by (simp add: initialize_begin_def Let_def)

lemma initialize_begin_isReconnecting_pair:
  "initialize_begin s = (s1, b) \<Longrightarrow> isReconnecting s1 = isReconnecting s"
  using initialize_begin_isReconnecting [of s] by simp

lemma restart_begin_isReconnecting [simp]:
  "isReconnecting (fst (restart_begin s)) = isReconnecting s"
  by (simp add: restart_begin_def Let_def split: option.splits)

lemma restart_rest_isReconnecting [simp]:
  "isReconnecting (restart_rest x y s) = isReconnecting s"
  by (simp add: restart_rest_def Let_def split: option.splits outcome.splits)

lemma updateAccountInfo_isReconnecting [simp]:
  "isReconnecting (updateAccountInfo pic now s) = isReconnecting s"
  by (simp add: updateAccountInfo_def Let_def split: option.splits outcome.splits)

lemma handlers_isReconnecting [simp]:
  "isReconnecting (onQr u s) = isReconnecting s"
  "isReconnecting (onAuthenticated s) = isReconnecting s"
  "isReconnecting (onLoadingScreen p s) = isReconnecting s"
  "isReconnecting (onChangeState st s) = isReconnecting s"
  "isReconnecting (onClientError err s) = isReconnecting s"
  "isReconnecting (onReady pic now s) = isReconnecting s"
  "isReconnecting (driverSetsInfo i s) = isReconnecting s"
  "isReconnecting (onDisconnected reason s) = isReconnecting s"
  "isReconnecting (onAuthFailure err s) = isReconnecting s"
  "isReconnecting (onMessage e msg s) = isReconnecting s"
  "isReconnecting (onMessageCreate e msg s) = isReconnecting s"
  "isReconnecting (onMessageAck msg a s) = isReconnecting s"
  by (simp_all add: onQr_def onAuthenticated_def onLoadingScreen_def onChangeState_def
      onClientError_def onReady_def driverSetsInfo_def onDisconnected_def onAuthFailure_def
      onMessage_def onMessageCreate_def onMessageAck_def Let_def split: outcome.splits)

lemma sendFailed_isReconnecting [simp]:
  "isReconnecting (sendFailed d err s) = isReconnecting s"
  by (simp add: sendFailed_def Let_def)

lemma endpoints_isReconnecting [simp]:
  "isReconnecting (sendMessageHandler e d s) = isReconnecting s"
  "isReconnecting (fst (getAvatar e contactId s)) = isReconnecting s"
  "isReconnecting (fst (postAvatarsBatch e ids s)) = isReconnecting s"
  "isReconnecting (fst (postAvatarsRefresh e s)) = isReconnecting s"
  by (simp_all add: sendMessageHandler_def getAvatar_def postAvatarsBatch_def
      postAvatarsRefresh_def Let_def split: outcome.splits option.splits prod.splits)

lemma filter_dropTask:
  "i < length ts \<Longrightarrow>
   length (filter P (dropTask i ts)) = length (filter P ts) - (if P (ts ! i) then 1 else 0)"
proof -
  assume i: "i < length ts"
  then have "ts = take i ts @ ts ! i # drop (Suc i) ts"
    by (rule id_take_nth_drop)
  then have "length (filter P ts) =
      length (filter P (take i ts @ ts ! i # drop (Suc i) ts))" by simp
  then show ?thesis by (simp add: dropTask_def)
qed

lemma filter_update:
  "i < length ts \<Longrightarrow>
   length (filter P (ts[i := t])) + (if P (ts ! i) then 1 else 0) =
     length (filter P ts) + (if P t then 1 else 0)"
proof -
  assume i: "i < length ts"
  then have a: "ts = take i ts @ ts ! i # drop (Suc i) ts"
    by (rule id_take_nth_drop)
  have b: "ts[i := t] = take i ts @ t # drop (Suc i) ts"
    using i by (rule upd_conv_take_nth_drop)
  have "length (filter P ts) = length (filter P (take i ts @ ts ! i # drop (Suc i) ts))"
    using a by simp
  then show ?thesis by (simp add: b)
qed

lemma reconnectsInFlight_vars [simp]:
  "reconnectsInFlight (c\<lparr>vars := x\<rparr>) = reconnectsInFlight c"
  by (simp add: reconnectsInFlight_def)

lemma singleFlight_vars:
  "singleFlight c \<Longrightarrow> isReconnecting x = isReconnecting (vars c) \<Longrightarrow> singleFlight (c\<lparr>vars := x\<rparr>)"
  by (simp add: singleFlight_def)

lemma safeReconnect_afterDestroy_isReconnecting:
  "safeReconnect_afterDestroy x s = (s2, True) \<Longrightarrow> isReconnecting s2 = isReconnecting s"
  by (auto simp add: safeReconnect_afterDestroy_def Let_def split: if_splits option.splits outcome.splits)

lemma safeReconnect_enter_entered:
  "safeReconnect_enter reason s = (s1, True) \<Longrightarrow>
     \<not> isReconnecting s \<and> \<not> isInitializing s \<and> isReconnecting s1"
  by (auto simp add: safeReconnect_enter_def Let_def split: if_splits option.splits)

lemma safeReconnect_enter_skipped:
  "safeReconnect_enter reason s = (s1, False) \<Longrightarrow> isReconnecting s1 = isReconnecting s"
  by (auto simp add: safeReconnect_enter_def Let_def split: if_splits option.splits)

lemma requestReconnect_singleFlight:
  assumes "singleFlight c"
  shows "singleFlight (requestReconnect reason c)"
proof (cases "safeReconnect_enter reason (vars c)")
  case (Pair s1 entered)
  show ?thesis
  proof (cases entered)
    case False
    with Pair assms show ?thesis
      by (simp add: requestReconnect_def singleFlight_vars safeReconnect_enter_skipped)
  next
    case True
    with Pair have e: "\<not> isReconnecting (vars c)" "isReconnecting s1"
      using safeReconnect_enter_entered [of reason "vars c" s1] by simp_all
    with assms have zero: "reconnectsInFlight c = 0"
      by (auto simp add: singleFlight_def)
    show ?thesis
    proof (cases "client (vars c)")
      case (Some cl)
      with Pair True zero e show ?thesis
        by (simp add: requestReconnect_def singleFlight_def reconnectsInFlight_def isReconnectTask_def)
    next
      case None
      show ?thesis
      proof (cases "safeReconnect_afterDestroy None s1")
        case p2: (Pair s2 goesOn)
        show ?thesis
        proof (cases goesOn)
          case False
          with Pair True None p2 zero show ?thesis
            by (simp add: requestReconnect_def singleFlight_def)
        next
          case t2: True
          with p2 e have "isReconnecting s2"
            using safeReconnect_afterDestroy_isReconnecting [of None s1 s2] by simp
          with Pair True None p2 t2 zero show ?thesis
            by (simp add: requestReconnect_def singleFlight_def reconnectsInFlight_def isReconnectTask_def)
        qed
      qed
    qed
  qed
qed

lemma requestStartup_singleFlight:
  "singleFlight c \<Longrightarrow> singleFlight (requestStartup c)"
proof -
  assume a: "singleFlight c"
  have "isReconnecting (fst (initialize_begin (vars c))) = isReconnecting (vars c)" by simp
  with a show ?thesis
    by (cases "initialize_begin (vars c)")
       (auto simp add: requestStartup_def singleFlight_def reconnectsInFlight_def isReconnectTask_def
             split: bool.splits)
qed

lemma requestRestart_singleFlight:
  "singleFlight c \<Longrightarrow> singleFlight (requestRestart c)"
proof -
  assume a: "singleFlight c"
  have "isReconnecting (fst (restart_begin (vars c))) = isReconnecting (vars c)" by simp
  with a show ?thesis
    by (cases "restart_begin (vars c)")
       (auto simp add: requestRestart_def singleFlight_def reconnectsInFlight_def isReconnectTask_def
             split: bool.splits)
qed

text \<open>What resuming a task does to the flag and to the kind of the task.\<close>

lemma send_resume_isReconnecting:
  "send_resume e d ph s = (s', x) \<Longrightarrow> isReconnecting s' = isReconnecting s"
  by (cases ph)
     (auto simp add: send_save_def mediaSendFailed_def Let_def split: outcome.splits)

lemma resumeTask_reconnect:
  assumes "resumeTask t r s = Some (s', t')" and "isReconnectTask t"
  shows "case t' of None \<Rightarrow> True | Some u \<Rightarrow> isReconnectTask u \<and> isReconnecting s' = isReconnecting s"
proof (cases t)
  case ReconnectAwaitsDestroy
  with assms show ?thesis
    by (cases r; cases t')
       (auto simp add: isReconnectTask_def split: prod.splits bool.splits
             dest: safeReconnect_afterDestroy_isReconnecting)
next
  case ReconnectAwaitsDelay
  with assms show ?thesis
    by (cases r; cases t')
       (auto simp add: isReconnectTask_def split: prod.splits bool.splits
             dest: initialize_begin_isReconnecting_pair)
next
  case ReconnectAwaitsInitialize
  with assms show ?thesis by (cases r; cases t') auto
qed (use assms in \<open>simp_all add: isReconnectTask_def\<close>)

lemma resumeTask_other:
  assumes "resumeTask t r s = Some (s', t')" and "\<not> isReconnectTask t"
  shows "(case t' of None \<Rightarrow> True | Some u \<Rightarrow> \<not> isReconnectTask u) \<and>
         isReconnecting s' = isReconnecting s"
proof (cases t)
  case StartupAwaitsInitialize
  with assms show ?thesis by (cases r) auto
next
  case (RestartAwaits x)
  with assms show ?thesis by (cases r) auto
next
  case (IngestAwaits e outgoing msg ph)
  with assms show ?thesis
    by (cases r) (auto simp add: isReconnectTask_def split: prod.splits option.splits)
next
  case (SendAwaits e d ph)
  with assms show ?thesis
    by (cases r)
       (auto simp add: isReconnectTask_def split: prod.splits option.splits
             dest: send_resume_isReconnecting)
qed (use assms in \<open>simp_all add: isReconnectTask_def\<close>)

lemma resume_singleFlight:
  assumes inv: "singleFlight c"
  shows "singleFlight (resume i r c)"
proof (cases "i < length (tasks c)")
  case False
  with inv show ?thesis by (simp add: resume_def)
next
  case i: True
  show ?thesis
  proof (cases "resumeTask (tasks c ! i) r (vars c)")
    case None
    with i inv show ?thesis by (simp add: resume_def)
  next
    case (Some p)
    obtain s' t' where p: "p = (s', t')" by (cases p)
    note res = Some [unfolded p]
    show ?thesis
    proof (cases "isReconnectTask (tasks c ! i)")
      case rt: True
      then have pos: "length (filter isReconnectTask (tasks c)) > 0"
        using i by (auto simp add: filter_empty_conv length_greater_0_conv intro: nth_mem)
      with inv have one: "reconnectsInFlight c = 1" "isReconnecting (vars c)"
        by (auto simp add: singleFlight_def reconnectsInFlight_def)
      show ?thesis
      proof (cases t')
        case None
        with Some p i rt one filter_dropTask [OF i, of isReconnectTask] show ?thesis
          by (simp add: resume_def singleFlight_def reconnectsInFlight_def)
      next
        case (Some u)
        with resumeTask_reconnect [OF res rt]
        have u: "isReconnectTask u" "isReconnecting s' = isReconnecting (vars c)" by simp_all
        with Some res p i rt one filter_update [OF i, of isReconnectTask u]
        show ?thesis
          by (simp add: resume_def singleFlight_def reconnectsInFlight_def)
      qed
    next
      case nt: False
      from resumeTask_other [OF res nt]
      have same: "isReconnecting s' = isReconnecting (vars c)" by simp
      show ?thesis
      proof (cases t')
        case None
        with res same p i nt inv filter_dropTask [OF i, of isReconnectTask] show ?thesis
          by (simp add: resume_def singleFlight_def reconnectsInFlight_def)
      next
        case (Some u)
        with resumeTask_other [OF res nt] have u: "\<not> isReconnectTask u" by simp
        with Some res same p i nt inv filter_update [OF i, of isReconnectTask u]
        show ?thesis
          by (simp add: resume_def singleFlight_def reconnectsInFlight_def)
      qed
    qed
  qed
qed

lemma beginIngest_singleFlight:
  "singleFlight c \<Longrightarrow> singleFlight (beginIngest e outgoing msg c)"
  by (cases "ingest_start e outgoing msg")
     (auto simp add: beginIngest_def singleFlight_def reconnectsInFlight_def isReconnectTask_def
           split: option.splits)

lemma requestMessage_singleFlight:
  "singleFlight c \<Longrightarrow> singleFlight (requestMessage e msg c)"
  "singleFlight c \<Longrightarrow> singleFlight (requestMessageCreate e msg c)"
  by (simp_all add: requestMessage_def requestMessageCreate_def beginIngest_singleFlight
      singleFlight_vars)

lemma requestSend_singleFlight:
  "singleFlight c \<Longrightarrow> singleFlight (requestSend e d c)"
  by (auto simp add: requestSend_def Let_def singleFlight_def reconnectsInFlight_def
      isReconnectTask_def)

lemma step_singleFlight:
  "singleFlight c \<Longrightarrow> singleFlight (step ev c)"
  by (cases ev)
     (simp_all add: singleFlight_vars requestReconnect_singleFlight requestStartup_singleFlight
        requestRestart_singleFlight resume_singleFlight requestMessage_singleFlight
        requestSend_singleFlight)

lemma run_singleFlight:
  "singleFlight c \<Longrightarrow> singleFlight (run evs c)"
  by (induction evs arbitrary: c) (simp_all add: step_singleFlight)

lemma bootSystem_singleFlight: "singleFlight bootSystem"
  by (simp add: singleFlight_def bootSystem_def reconnectsInFlight_def)


section \<open>The single-flight guard\<close>

text \<open>
  The pieces make up the whole: a request and the three resumptions, with nothing in
  between, do what one call of \<open>safeReconnect\<close> does.
\<close>

lemma safeReconnect_as_steps:
  "run [ReconnectRequested reason, Resume 0 (Destroyed destroyed), Resume 0 DelayElapsed,
        Resume 0 (Initialized d)] \<lparr> vars = s, tasks = [] \<rparr> =
     \<lparr> vars = safeReconnect destroyed d reason s, tasks = [] \<rparr>"
proof (cases "safeReconnect_enter reason s")
  case (Pair s1 entered)
  show ?thesis
  proof (cases entered)
    case False
    with Pair show ?thesis
      by (simp add: requestReconnect_def safeReconnect_def resume_def)
  next
    case True
    show ?thesis
    proof (cases "client s")
      case None
      obtain s2 goesOn where a: "safeReconnect_afterDestroy None s1 = (s2, goesOn)"
        by (cases "safeReconnect_afterDestroy None s1")
      show ?thesis
      proof (cases goesOn)
        case False
        with Pair True None a show ?thesis
          by (simp add: requestReconnect_def safeReconnect_def resume_def)
      next
        case g: True
        obtain s3 began where b: "initialize_begin s2 = (s3, began)"
          by (cases "initialize_begin s2")
        with Pair True None a g show ?thesis
          by (cases began)
             (simp_all add: requestReconnect_def safeReconnect_def resume_def dropTask_def
                initializeWhatsAppClient_def safeReconnect_settle_def)
      qed
    next
      case (Some c)
      obtain s2 goesOn where a: "safeReconnect_afterDestroy (Some destroyed) s1 = (s2, goesOn)"
        by (cases "safeReconnect_afterDestroy (Some destroyed) s1")
      show ?thesis
      proof (cases goesOn)
        case False
        with Pair True Some a show ?thesis
          by (simp add: requestReconnect_def safeReconnect_def resume_def dropTask_def)
      next
        case g: True
        obtain s3 began where b: "initialize_begin s2 = (s3, began)"
          by (cases "initialize_begin s2")
        with Pair True Some a g show ?thesis
          by (cases began)
             (simp_all add: requestReconnect_def safeReconnect_def resume_def dropTask_def
                initializeWhatsAppClient_def safeReconnect_settle_def)
      qed
    qed
  qed
qed


lemma safeReconnect_guarded:
  "isReconnecting s \<or> isInitializing s \<Longrightarrow>
   safeReconnect destroyed d reason s = emits [Console ''Reconnection already in progress, skipping...''] s"
  by (auto simp add: safeReconnect_def safeReconnect_enter_def)

lemma requestReconnect_guarded:
  "isReconnecting (vars c) \<or> isInitializing (vars c) \<Longrightarrow>
   requestReconnect reason c =
     c\<lparr>vars := emits [Console ''Reconnection already in progress, skipping...''] (vars c)\<rparr>"
  by (auto simp add: requestReconnect_def safeReconnect_enter_def)

text \<open>
  C4. A request to reconnect that arrives while a reconnect or an initialisation is in
  flight changes nothing but for one console line: no variable changes, nothing is
  queued, no timer is set. In every run of the server from its start at most one call of
  \<open>safeReconnect\<close> is in flight.
\<close>

theorem reconnect_single_flight:
  "reconnectsInFlight (run evs bootSystem) \<le> 1 \<and>
   (isReconnecting (vars c) \<or> isInitializing (vars c) \<longrightarrow>
      step (ReconnectRequested reason) c =
        c\<lparr>vars := emits [Console ''Reconnection already in progress, skipping...''] (vars c)\<rparr> \<and>
      safeReconnect destroyed d reason (vars c) =
        emits [Console ''Reconnection already in progress, skipping...''] (vars c))"
proof -
  have "singleFlight (run evs bootSystem)"
    by (rule run_singleFlight [OF bootSystem_singleFlight])
  then have "reconnectsInFlight (run evs bootSystem) \<le> 1"
    by (auto simp add: singleFlight_def)
  then show ?thesis
    by (simp add: safeReconnect_guarded requestReconnect_guarded)
qed

lemmas boot_defs = bootSystem_def initialState_def

theorem reconnect_single_flight_witness:
  "isReconnecting (vars (run [ReconnectRequested ''Disconnected: logout''] bootSystem)) \<and>
   reconnectsInFlight (run [ReconnectRequested ''Disconnected: logout'', ReconnectRequested ''again''] bootSystem) = 1 \<and>
   step (ReconnectRequested ''again'') (run [ReconnectRequested ''Disconnected: logout''] bootSystem) =
     (run [ReconnectRequested ''Disconnected: logout''] bootSystem)
       \<lparr>vars := emits [Console ''Reconnection already in progress, skipping...'']
                 (vars (run [ReconnectRequested ''Disconnected: logout''] bootSystem))\<rparr>"
proof -
  have running: "isReconnecting (vars (run [ReconnectRequested ''Disconnected: logout''] bootSystem))"
    by (simp add: boot_defs requestReconnect_def safeReconnect_enter_def
        safeReconnect_afterDestroy_def clearAccountReady_def logConnectionState_def emits_def
        MAX_RECONNECT_ATTEMPTS_def Let_def)
  have one: "reconnectsInFlight (run [ReconnectRequested ''Disconnected: logout'', ReconnectRequested ''again''] bootSystem) = 1"
    by (simp add: boot_defs requestReconnect_def safeReconnect_enter_def reconnectsInFlight_def
        isReconnectTask_def
        safeReconnect_afterDestroy_def clearAccountReady_def logConnectionState_def emits_def
        MAX_RECONNECT_ATTEMPTS_def Let_def)
  from running one
    reconnect_single_flight [of "[ReconnectRequested ''Disconnected: logout'', ReconnectRequested ''again'']"
      "run [ReconnectRequested ''Disconnected: logout''] bootSystem" "''again''"]
  show ?thesis by blast
qed


section \<open>The handlers and their pieces\<close>

lemma emits_emits [simp]: "emits es2 (emits es1 s) = emits (es1 @ es2) s"
  by (simp add: emits_def)

lemma emits_nil [simp]: "emits [] s = s"
  by (simp add: emits_def)

lemma resume_single:
  "resume 0 r \<lparr> vars = s, tasks = [t] \<rparr> =
     (case resumeTask t r s of
        None \<Rightarrow> \<lparr> vars = s, tasks = [t] \<rparr>
      | Some (s', None) \<Rightarrow> \<lparr> vars = s', tasks = [] \<rparr>
      | Some (s', Some t') \<Rightarrow> \<lparr> vars = s', tasks = [t'] \<rparr>)"
  by (simp add: resume_def dropTask_def split: option.splits prod.splits)

lemma resume_none [simp]: "resume 0 r \<lparr> vars = s, tasks = [] \<rparr> = \<lparr> vars = s, tasks = [] \<rparr>"
  by (simp add: resume_def)

text \<open>
  A message event and the four resumptions, with nothing in between, do what one call of
  the handler does; so do a send request and its three resumptions.
\<close>

lemma processMessage_unfold:
  "caught (catchLabel outgoing)
     (if outgoing then processOutgoingMessage e msg else processIncomingMessage e msg) =
   (case processMedia e (mediaLabel outgoing) msg of
      (es, Rejects err) \<Rightarrow> es @ [Console (catchLabel outgoing @ err)]
    | (es, Resolves f) \<Rightarrow>
        es @ caught (catchLabel outgoing)
               (saveAndAnnounce e (saveLabel outgoing)
                  (buildMessage e msg outgoing (ackOf outgoing msg) f)))"
  by (cases "processMedia e (mediaLabel outgoing) msg";
      cases "snd (processMedia e (mediaLabel outgoing) msg)";
      cases "saveAndAnnounce e (saveLabel outgoing)
               (buildMessage e msg outgoing (ackOf outgoing msg)
                  (case snd (processMedia e (mediaLabel outgoing) msg) of Resolves f \<Rightarrow> f))";
      cases outgoing)
     (auto simp add: processIncomingMessage_def processOutgoingMessage_def caught_def
        mediaLabel_def saveLabel_def catchLabel_def ackOf_def split: outcome.splits)

text \<open>From the call of \<open>addMessage\<close> to the end of the handler.\<close>

lemma save_as_steps:
  assumes "ingest_save e outgoing msg f = (es, Some ph)"
  shows "run [Resume 0 Answered] \<lparr> vars = emits es s, tasks = [IngestAwaits e outgoing msg ph] \<rparr> =
         \<lparr> vars = emits (caught (catchLabel outgoing)
                           (saveAndAnnounce e (saveLabel outgoing)
                              (buildMessage e msg outgoing (ackOf outgoing msg) f))) s,
           tasks = [] \<rparr>"
  using assms
  by (cases "addMessage e (buildMessage e msg outgoing (ackOf outgoing msg) f)")
     (auto simp add: ingest_save_def resume_single saveAndAnnounce_def caught_def Let_def)

lemma ingest_as_steps_general:
  "run [Resume 0 Answered, Resume 0 Answered, Resume 0 Answered, Resume 0 Answered]
     (beginIngest e outgoing msg \<lparr> vars = s, tasks = [] \<rparr>) =
   \<lparr> vars = emits (caught (catchLabel outgoing)
                     (if outgoing then processOutgoingMessage e msg
                      else processIncomingMessage e msg)) s,
     tasks = [] \<rparr>"
proof (cases "msg_hasMedia msg")
  case False
  then show ?thesis
    using save_as_steps [of e outgoing msg noMedia _ _ s]
    by (simp add: processMessage_unfold processMedia_def beginIngest_def ingest_start_def
        ingest_save_def Let_def)
next
  case media: True
  show ?thesis
  proof (cases "downloadMedia e msg")
    case (Rejects err)
    with media show ?thesis
      by (simp add: processMessage_unfold processMedia_def beginIngest_def ingest_start_def
          resume_single)
  next
    case (Resolves got)
    show ?thesis
    proof (cases got)
      case None
      with media Resolves show ?thesis
        using save_as_steps [of e outgoing msg noMedia _ _
            "emits [Console (mediaLabel outgoing), DownloadMedia (msg_id msg)] s"]
        by (simp add: processMessage_unfold processMedia_def beginIngest_def ingest_start_def
            resume_single ingest_save_def Let_def)
    next
      case (Some m)
      show ?thesis
      proof (cases "uploadMediaToSupabase e (data m) (mediaFileName e msg m) (mediaMimeType msg m)")
        case up: (Rejects err)
        with media Resolves Some show ?thesis
          by (simp add: processMessage_unfold processMedia_def beginIngest_def ingest_start_def
              resume_single Let_def)
      next
        case up: (Resolves url)
        show ?thesis
        proof (cases "msg_type msg = ''ptt''")
          case True
          with media Resolves Some up show ?thesis
            using save_as_steps [of e outgoing msg
                "\<lparr> mf_mediaUrl = url, mf_mediaType = mediaMimeType msg m,
                   mf_fileName = mediaFileName e msg m,
                   mf_fileSize = bufferLength e (data m),
                   mf_duration = getAudioDuration e (data m) (mediaMimeType msg m) \<rparr>" _ _
                "emits [Console (mediaLabel outgoing), DownloadMedia (msg_id msg),
                        UploadMedia (mediaFileName e msg m) (mediaMimeType msg m)] s"]
            by (simp add: processMessage_unfold processMedia_def beginIngest_def ingest_start_def
                resume_single ingest_save_def Let_def)
        next
          case False
          with media Resolves Some up show ?thesis
            using save_as_steps [of e outgoing msg
                "\<lparr> mf_mediaUrl = url, mf_mediaType = mediaMimeType msg m,
                   mf_fileName = mediaFileName e msg m,
                   mf_fileSize = bufferLength e (data m), mf_duration = 0 \<rparr>" _ _
                "emits [Console (mediaLabel outgoing), DownloadMedia (msg_id msg),
                        UploadMedia (mediaFileName e msg m) (mediaMimeType msg m)] s"]
            by (simp add: processMessage_unfold processMedia_def beginIngest_def ingest_start_def
                resume_single ingest_save_def Let_def)
        qed
      qed
    qed
  qed
qed

lemma ingest_as_steps:
  "run [Resume 0 Answered, Resume 0 Answered, Resume 0 Answered, Resume 0 Answered]
     (beginIngest e False msg \<lparr> vars = s, tasks = [] \<rparr>) =
   \<lparr> vars = emits (caught ''Error processing incoming message: '' (processIncomingMessage e msg)) s,
     tasks = [] \<rparr>"
  using ingest_as_steps_general [of e False msg s] by (simp add: catchLabel_def)

lemma ingest_outgoing_as_steps:
  "run [Resume 0 Answered, Resume 0 Answered, Resume 0 Answered, Resume 0 Answered]
     (beginIngest e True msg \<lparr> vars = s, tasks = [] \<rparr>) =
   \<lparr> vars = emits (caught ''Error processing outgoing message: '' (processOutgoingMessage e msg)) s,
     tasks = [] \<rparr>"
  using ingest_as_steps_general [of e True msg s] by (simp add: catchLabel_def)

lemma onMessage_as_steps:
  "run [Message e msg, Resume 0 Answered, Resume 0 Answered, Resume 0 Answered, Resume 0 Answered]
     \<lparr> vars = s, tasks = [] \<rparr> =
   \<lparr> vars = onMessage e msg s, tasks = [] \<rparr>"
  using ingest_as_steps [of e msg s]
  by (simp add: requestMessage_def onMessage_def)

lemma onMessageCreate_as_steps:
  "run [MessageCreate e msg, Resume 0 Answered, Resume 0 Answered, Resume 0 Answered,
        Resume 0 Answered] \<lparr> vars = s, tasks = [] \<rparr> =
   \<lparr> vars = onMessageCreate e msg s, tasks = [] \<rparr>"
  using ingest_outgoing_as_steps [of e msg s]
  by (simp add: requestMessageCreate_def onMessageCreate_def)

lemma isClientHealthy_emits [simp]: "isClientHealthy (emits es s) = isClientHealthy s"
  by (simp add: isClientHealthy_def split: option.splits)

lemma saved_as_steps:
  "resumeTask (SendAwaits e d (AwaitsSaved cm)) Answered s =
     Some (case addMessage e cm of
             Rejects err \<Rightarrow> sendFailed d err s
           | Resolves u \<Rightarrow>
               emits [SocketEmit ''message-sent'' (SendOk cm),
                      Emit ''whatsapp-message'' (MessageObj cm),
                      Emit ''chat-updated'' (ChatOf cm)] s, None)"
  by (simp split: outcome.splits)

lemma sendMessageHandler_as_steps:
  "run [SendMessage e d, Resume 0 Answered, Resume 0 Answered, Resume 0 Answered]
     \<lparr> vars = s, tasks = [] \<rparr> =
   \<lparr> vars = sendMessageHandler e d s, tasks = [] \<rparr>"
proof (cases "isClientHealthy s")
  case False
  then show ?thesis
    by (simp add: requestSend_def sendMessageHandler_def Let_def)
next
  case healthy: True
  let ?n = "formatNumber (sd_phoneNumber d)"
  have plain: ?thesis if "send_start d = ([ClientSendText ?n (sd_message d)], AwaitsSendText)"
    and "deliver e d ?n =
           (case sendText e ?n (sd_message d) of
              Rejects err \<Rightarrow> ([ClientSendText ?n (sd_message d)], Rejects err)
            | Resolves w \<Rightarrow> ([ClientSendText ?n (sd_message d)], Resolves w))"
  proof (cases "sendText e ?n (sd_message d)")
    case (Rejects err)
    with healthy that show ?thesis
      by (simp add: requestSend_def sendMessageHandler_def resume_single Let_def)
  next
    case (Resolves w)
    with healthy that show ?thesis
      by (cases "addMessage e (sentMessage e d ?n w)")
         (simp_all add: requestSend_def sendMessageHandler_def resume_single send_save_def Let_def)
  qed
  show ?thesis
  proof (cases "sd_mediaUrl d")
    case None
    then show ?thesis by (intro plain) (simp_all add: send_start_def deliver_def)
  next
    case (Some url)
    show ?thesis
    proof (cases "url = []")
      case True
      with Some show ?thesis by (intro plain) (simp_all add: send_start_def deliver_def)
    next
      case False
      show ?thesis
      proof (cases "httpGet e url")
        case (Rejects err)
        with healthy Some False show ?thesis
          by (simp add: requestSend_def sendMessageHandler_def resume_single send_start_def
              deliver_def mediaSendFailed_def Let_def)
      next
        case got: (Resolves buffer)
        show ?thesis
        proof (cases "sendMedia e ?n (sendMimeType d) buffer")
          case (Rejects err)
          with healthy Some False got show ?thesis
            by (simp add: requestSend_def sendMessageHandler_def resume_single send_start_def
                deliver_def mediaSendFailed_def sendMimeType_def Let_def)
        next
          case (Resolves w)
          with healthy Some False got show ?thesis
            by (cases "addMessage e (sentMessage e d ?n w)")
               (simp_all add: requestSend_def sendMessageHandler_def resume_single send_start_def
                  deliver_def send_save_def sendMimeType_def Let_def)
        qed
      qed
    qed
  qed
qed


section \<open>What the handlers add to the trace\<close>


lemma stored_append [simp]: "stored (xs @ ys) = stored xs @ stored ys"
  by (induction xs rule: stored.induct) simp_all

lemma broadcasts_append [simp]: "broadcasts (xs @ ys) = broadcasts xs @ broadcasts ys"
  by (induction xs rule: broadcasts.induct) simp_all

lemma timers_append [simp]: "timers (xs @ ys) = timers xs @ timers ys"
  by (induction xs rule: timers.induct) simp_all

lemma delays_append [simp]: "delays (xs @ ys) = delays xs @ delays ys"
  by (induction xs rule: delays.induct) simp_all

lemma announced_append [simp]: "announced (xs @ ys) = announced xs @ announced ys"
  by (induction xs rule: announced.induct) simp_all

lemma connectionFailures_append [simp]:
  "connectionFailures (xs @ ys) = connectionFailures xs @ connectionFailures ys"
  by (induction xs rule: connectionFailures.induct) simp_all

lemma initializations_append [simp]:
  "initializations (xs @ ys) = initializations xs + initializations ys"
  by (induction xs rule: initializations.induct) simp_all

lemma newEffects_emits [simp]: "newEffects s (emits es s) = es"
  by (simp add: newEffects_def)

lemma newEffects_append: "trace s' = trace s @ es \<Longrightarrow> newEffects s s' = es"
  by (simp add: newEffects_def)

text \<open>A call of \<open>safeReconnect\<close> that passes the guard with the counter at the cap or above.\<close>

lemma safeReconnect_over_cap:
  assumes "\<not> isReconnecting s" "\<not> isInitializing s" "MAX_RECONNECT_ATTEMPTS \<le> reconnectAttempts s"
  shows "\<exists>es. safeReconnect destroyed d reason s =
           (clearAccountReady s)
             \<lparr>isClientReady := False, isReconnecting := False,
               reconnectAttempts := reconnectAttempts s + 1,
               trace := trace s @
                 [Console ''WhatsApp Connection: RECONNECTING'',
                  Emit ''connection-state''
                    (ConnectionState ''RECONNECTING'' (ReconnectingDetail reason (reconnectAttempts s + 1))
                       False (reconnectAttempts s))] @ es @
                 [Console ''WhatsApp Connection: MAX_RECONNECT_ATTEMPTS_REACHED'',
                  Emit ''connection-state''
                    (ConnectionState ''MAX_RECONNECT_ATTEMPTS_REACHED'' NoDetails False (reconnectAttempts s + 1)),
                  Emit ''connection-failed'' (MessageField ''max reconnect attempts reached'')]\<rparr>
         \<and> initializations es = 0 \<and> timers es = [] \<and> delays es = [] \<and> connectionFailures es = []"
proof (cases "client s")
  case None
  with assms show ?thesis
    by (intro exI [of _ "[]"])
       (simp add: safeReconnect_def safeReconnect_enter_def safeReconnect_afterDestroy_def
          safeReconnect_finally_def clearAccountReady_def logConnectionState_def emits_def Let_def)
next
  case (Some c)
  show ?thesis
  proof (cases destroyed)
    case (Resolves u)
    with Some assms show ?thesis
      by (intro exI [of _ "[ClientDestroy, Console ''WhatsApp Connection: CLIENT_DESTROYED'',
             Emit ''connection-state'' (ConnectionState ''CLIENT_DESTROYED'' NoDetails False (reconnectAttempts s))]"])
         (simp add: safeReconnect_def safeReconnect_enter_def safeReconnect_afterDestroy_def
            safeReconnect_finally_def clearAccountReady_def logConnectionState_def emits_def Let_def)
  next
    case (Rejects e)
    with Some assms show ?thesis
      by (intro exI [of _ "[ClientDestroy, Console (''Error destroying client: '' @ e)]"])
         (simp add: safeReconnect_def safeReconnect_enter_def safeReconnect_afterDestroy_def
            safeReconnect_finally_def clearAccountReady_def logConnectionState_def emits_def Let_def)
  qed
qed

lemma safeReconnect_stays_exhausted:
  assumes "MAX_RECONNECT_ATTEMPTS \<le> reconnectAttempts s"
  shows "MAX_RECONNECT_ATTEMPTS \<le> reconnectAttempts (safeReconnect destroyed d reason s) \<and>
         initializations (trace (safeReconnect destroyed d reason s)) = initializations (trace s) \<and>
         timers (trace (safeReconnect destroyed d reason s)) = timers (trace s)"
proof (cases "isReconnecting s \<or> isInitializing s")
  case True
  with assms show ?thesis
    by (auto simp add: safeReconnect_def safeReconnect_enter_def emits_def)
next
  case False
  then have g: "\<not> isReconnecting s" "\<not> isInitializing s" by simp_all
  from safeReconnect_over_cap [OF g assms, of destroyed d reason]
  obtain es where "safeReconnect destroyed d reason s =
           (clearAccountReady s)
             \<lparr>isClientReady := False, isReconnecting := False,
               reconnectAttempts := reconnectAttempts s + 1,
               trace := trace s @
                 [Console ''WhatsApp Connection: RECONNECTING'',
                  Emit ''connection-state''
                    (ConnectionState ''RECONNECTING'' (ReconnectingDetail reason (reconnectAttempts s + 1))
                       False (reconnectAttempts s))] @ es @
                 [Console ''WhatsApp Connection: MAX_RECONNECT_ATTEMPTS_REACHED'',
                  Emit ''connection-state''
                    (ConnectionState ''MAX_RECONNECT_ATTEMPTS_REACHED'' NoDetails False (reconnectAttempts s + 1)),
                  Emit ''connection-failed'' (MessageField ''max reconnect attempts reached'')]\<rparr>"
    and "initializations es = 0" "timers es = []" by blast
  with assms show ?thesis by simp
qed

lemma reconnectAll_stays_exhausted:
  "MAX_RECONNECT_ATTEMPTS \<le> reconnectAttempts s \<Longrightarrow>
     MAX_RECONNECT_ATTEMPTS \<le> reconnectAttempts (reconnectAll calls s) \<and>
     initializations (trace (reconnectAll calls s)) = initializations (trace s) \<and>
     timers (trace (reconnectAll calls s)) = timers (trace s)"
proof (induction calls arbitrary: s)
  case Nil
  then show ?case by simp
next
  case (Cons call calls)
  obtain destroyed d reason where call: "call = (destroyed, d, reason)" by (cases call)
  from safeReconnect_stays_exhausted [OF Cons.prems, of destroyed d reason]
  have step: "MAX_RECONNECT_ATTEMPTS \<le> reconnectAttempts (safeReconnect destroyed d reason s)"
    "initializations (trace (safeReconnect destroyed d reason s)) = initializations (trace s)"
    "timers (trace (safeReconnect destroyed d reason s)) = timers (trace s)" by simp_all
  from Cons.IH [OF step(1)] step call show ?case by simp
qed


lemma initializeLoop_first_ok:
  "initializeOutcome d 1 = Resolves () \<Longrightarrow>
   initializeLoop d 0 s =
     (emits [Console ''Initialization attempt'', ClientInitialize,
             Console ''WhatsApp client initialized successfully''] s, Resolves ())"
  by (simp add: initializeLoop.simps [of d 0 s] maxInitAttempts_def beforeInitialize_def emits_def)

lemma initialize_rest_frame:
  "reconnectAttempts (fst (initialize_rest d s)) = reconnectAttempts s \<and>
   \<not> isInitializing (fst (initialize_rest d s)) \<and>
   (isClientReady (fst (initialize_rest d s)) \<longrightarrow> isClientReady s)"
proof (cases "initializeLoop d 0 s")
  case (Pair s1 r)
  from initializeLoop_frame [OF Pair] Pair show ?thesis
    by (cases r) (simp_all add: initialize_rest_def Let_def)
qed

lemma initializeWhatsAppClient_frame:
  "\<not> isInitializing s \<Longrightarrow>
   reconnectAttempts (fst (initializeWhatsAppClient d s)) = reconnectAttempts s \<and>
   \<not> isInitializing (fst (initializeWhatsAppClient d s)) \<and>
   \<not> isClientReady (fst (initializeWhatsAppClient d s)) \<and>
   isReconnecting (fst (initializeWhatsAppClient d s)) = isReconnecting s"
  using initialize_rest_frame [of d "fst (initialize_begin s)"]
    initialize_rest_isReconnecting [of d "fst (initialize_begin s)"]
  by (simp add: initializeWhatsAppClient_def initialize_begin_def Let_def)

lemma safeReconnect_settle_frame:
  "reconnectAttempts (safeReconnect_settle r) = reconnectAttempts (fst r) \<and>
   isInitializing (safeReconnect_settle r) = isInitializing (fst r) \<and>
   isClientReady (safeReconnect_settle r) = isClientReady (fst r) \<and>
   \<not> isReconnecting (safeReconnect_settle r)"
  by (cases r; cases "snd r")
     (simp_all add: safeReconnect_settle_def safeReconnect_finally_def safeReconnect_catch_def Let_def)

text \<open>A call of \<open>safeReconnect\<close> that passes the guard counts one attempt and clears its flag.\<close>

lemma safeReconnect_passes:
  assumes "\<not> isReconnecting s" "\<not> isInitializing s"
  shows "reconnectAttempts (safeReconnect destroyed d reason s) = reconnectAttempts s + 1 \<and>
         \<not> isReconnecting (safeReconnect destroyed d reason s) \<and>
         \<not> isInitializing (safeReconnect destroyed d reason s) \<and>
         \<not> isClientReady (safeReconnect destroyed d reason s)"
proof -
  define s1 where "s1 = fst (safeReconnect_enter reason s)"
  have enter: "safeReconnect_enter reason s = (s1, True)"
    and s1: "reconnectAttempts s1 = reconnectAttempts s" "\<not> isInitializing s1" "\<not> isClientReady s1"
    using assms by (simp_all add: s1_def safeReconnect_enter_def Let_def split: option.splits)
  obtain s2 goesOn where after:
    "safeReconnect_afterDestroy (case client s of None \<Rightarrow> None | Some c \<Rightarrow> Some destroyed) s1 = (s2, goesOn)"
    by (cases "safeReconnect_afterDestroy (case client s of None \<Rightarrow> None | Some c \<Rightarrow> Some destroyed) s1")
  from after s1 have s2: "reconnectAttempts s2 = reconnectAttempts s + 1" "\<not> isInitializing s2"
    "\<not> isClientReady s2" "\<not> goesOn \<longrightarrow> \<not> isReconnecting s2"
    by (auto simp add: safeReconnect_afterDestroy_def safeReconnect_finally_def Let_def
        split: if_splits option.splits outcome.splits)
  show ?thesis
  proof (cases goesOn)
    case False
    with enter after s2 show ?thesis by (simp add: safeReconnect_def)
  next
    case True
    from initializeWhatsAppClient_frame [OF s2(2), of d]
      safeReconnect_settle_frame [of "initializeWhatsAppClient d s2"]
    have "reconnectAttempts (safeReconnect_settle (initializeWhatsAppClient d s2)) = reconnectAttempts s2"
      "\<not> isInitializing (safeReconnect_settle (initializeWhatsAppClient d s2))"
      "\<not> isClientReady (safeReconnect_settle (initializeWhatsAppClient d s2))"
      "\<not> isReconnecting (safeReconnect_settle (initializeWhatsAppClient d s2))"
      by simp_all
    with True enter after s2 show ?thesis by (simp add: safeReconnect_def)
  qed
qed

lemma safeReconnect_below_cap:
  assumes "\<not> isReconnecting s" "\<not> isInitializing s"
    and "reconnectAttempts s < MAX_RECONNECT_ATTEMPTS"
    and "initializeOutcome d 1 = Resolves ()"
  shows "initializations (newEffects s (safeReconnect destroyed d reason s)) = 2 \<and>
         connectionFailures (newEffects s (safeReconnect destroyed d reason s)) = [] \<and>
         delays (newEffects s (safeReconnect destroyed d reason s)) = [RECONNECT_DELAY]"
proof (cases "client s")
  case None
  with assms show ?thesis
    by (simp add: safeReconnect_def safeReconnect_enter_def safeReconnect_afterDestroy_def
          safeReconnect_finally_def safeReconnect_settle_def initializeWhatsAppClient_def
          initialize_begin_def initialize_rest_def initializeLoop_first_ok newEffects_def
          clearAccountReady_def logConnectionState_def emits_def Let_def)
next
  case (Some c)
  with assms show ?thesis
    by (cases destroyed)
       (simp_all add: safeReconnect_def safeReconnect_enter_def safeReconnect_afterDestroy_def
          safeReconnect_finally_def safeReconnect_settle_def initializeWhatsAppClient_def
          initialize_begin_def initialize_rest_def initializeLoop_first_ok newEffects_def
          clearAccountReady_def logConnectionState_def emits_def Let_def)
qed

lemma afterFourFailures_flags:
  "reconnectAttempts afterFourFailures = 4 \<and>
   \<not> isReconnecting afterFourFailures \<and> \<not> isInitializing afterFourFailures"
proof -
  have i: "\<not> isReconnecting initialState" "\<not> isInitializing initialState"
    "reconnectAttempts initialState = 0"
    by (simp_all add: initialState_def)
  note a = safeReconnect_passes [OF i(1,2), of "Resolves ()" failingDriver "''Disconnected: logout''"]
  note b = safeReconnect_passes [OF a [THEN conjunct2, THEN conjunct1]
      a [THEN conjunct2, THEN conjunct2, THEN conjunct1],
      of "Resolves ()" failingDriver "''Previous attempt failed''"]
  note c = safeReconnect_passes [OF b [THEN conjunct2, THEN conjunct1]
      b [THEN conjunct2, THEN conjunct2, THEN conjunct1],
      of "Resolves ()" failingDriver "''Previous attempt failed''"]
  note d = safeReconnect_passes [OF c [THEN conjunct2, THEN conjunct1]
      c [THEN conjunct2, THEN conjunct2, THEN conjunct1],
      of "Resolves ()" failingDriver "''Previous attempt failed''"]
  from a b c d i show ?thesis by (simp add: afterFourFailures_def fourFailures_def)
qed


lemma destroyFailedClient_trace:
  "\<exists>es. trace (destroyFailedClient d n s) = trace s @ es \<and> timers es = [] \<and> stored es = []
        \<and> broadcasts es = [] \<and> announced es = []"
  by (cases "client s"; cases "destroyOutcome d n") (simp_all add: destroyFailedClient_def)

lemma afterFailedInitialize_trace:
  "\<exists>es. trace (afterFailedInitialize d n e s) = trace s @ es \<and> timers es = [] \<and> stored es = []
        \<and> broadcasts es = [] \<and> announced es = []"
proof -
  obtain es where "trace (destroyFailedClient d n (emits [Console (''Initialization attempt failed: '' @ e)] s))
      = trace (emits [Console (''Initialization attempt failed: '' @ e)] s) @ es"
    "timers es = []" "stored es = []" "broadcasts es = []" "announced es = []"
    using destroyFailedClient_trace by blast
  then show ?thesis
    by (intro exI [of _ "[Console (''Initialization attempt failed: '' @ e)] @ es @ [NewClient]"])
       (simp add: afterFailedInitialize_def)
qed

lemma beforeInitialize_trace:
  "\<exists>es. trace (beforeInitialize n s) = trace s @ es \<and> timers es = [] \<and> stored es = []
        \<and> broadcasts es = [] \<and> announced es = []"
  by (simp add: beforeInitialize_def)

text \<open>The retry loop only talks to the driver and the console.\<close>

lemma initializeLoop_trace:
  "initializeLoop d n s = (s', r) \<Longrightarrow>
     \<exists>es. trace s' = trace s @ es \<and> timers es = [] \<and> stored es = [] \<and> broadcasts es = []
          \<and> announced es = []"
proof (induction d n s arbitrary: s' r rule: initializeLoop.induct)
  case (1 d initAttempts s)
  show ?case
  proof (cases "initAttempts < maxInitAttempts")
    case False
    with "1.prems" show ?thesis by (simp add: initializeLoop.simps)
  next
    case True
    obtain es0 where es0: "trace (beforeInitialize (initAttempts + 1) s) = trace s @ es0"
      "timers es0 = []" "stored es0 = []" "broadcasts es0 = []" "announced es0 = []"
      using beforeInitialize_trace by blast
    show ?thesis
    proof (cases "initializeOutcome d (initAttempts + 1)")
      case (Resolves u)
      with True "1.prems" es0 show ?thesis
        by (intro exI [of _ "es0 @ [Console ''WhatsApp client initialized successfully'']"])
           (auto simp add: initializeLoop.simps [of d initAttempts s] Let_def)
    next
      case (Rejects e)
      show ?thesis
      proof (cases "initAttempts + 1 < maxInitAttempts")
        case False
        with True Rejects "1.prems" es0 show ?thesis
          by (intro exI [of _ "es0 @ [Console (''Initialization attempt failed: '' @ e),
                           Console ''Failed to initialize after all attempts'']"])
             (auto simp add: initializeLoop.simps [of d initAttempts s] Let_def)
      next
        case lt: True
        let ?s6 = "afterFailedInitialize d (initAttempts + 1) e (beforeInitialize (initAttempts + 1) s)"
        from True Rejects lt "1.prems"
        have rec: "initializeLoop d (initAttempts + 1) ?s6 = (s', r)"
          by (simp add: initializeLoop.simps [of d initAttempts s] Let_def)
        obtain es1 where es1: "trace ?s6 = trace (beforeInitialize (initAttempts + 1) s) @ es1"
          "timers es1 = []" "stored es1 = []" "broadcasts es1 = []" "announced es1 = []"
          using afterFailedInitialize_trace by blast
        obtain es2 where es2: "trace s' = trace ?s6 @ es2"
          "timers es2 = []" "stored es2 = []" "broadcasts es2 = []" "announced es2 = []"
          using "1.IH" [OF True refl refl Rejects lt rec] by blast
        from es0 es1 es2 show ?thesis
          by (intro exI [of _ "es0 @ es1 @ es2"]) simp
      qed
    qed
  qed
qed



lemma delaysFixed_append [simp]:
  "delaysFixed (xs @ ys) = (delaysFixed xs \<and> delaysFixed ys)"
  by (auto simp add: delaysFixed_def)

lemma delaysFixed_simps [simp]:
  "delaysFixed []"
  "delaysFixed (SetTimeout n cb # es) = (n \<in> set scheduleDelays \<and> n \<le> maxInitDelay \<and> delaysFixed es)"
  "delaysFixed (Sleep n # es) = (n \<le> maxInitDelay \<and> delaysFixed es)"
  "delaysFixed (Console x # es) = delaysFixed es"
  "delaysFixed (Emit m p # es) = delaysFixed es"
  "delaysFixed (SocketEmit m p # es) = delaysFixed es"
  "delaysFixed (NewClient # es) = delaysFixed es"
  "delaysFixed (ClientDestroy # es) = delaysFixed es"
  "delaysFixed (ClientInitialize # es) = delaysFixed es"
  "delaysFixed (ClientSendText a b # es) = delaysFixed es"
  "delaysFixed (ClientSendMedia a b # es) = delaysFixed es"
  "delaysFixed (ClientGetProfilePicUrl a # es) = delaysFixed es"
  "delaysFixed (HttpGet a # es) = delaysFixed es"
  "delaysFixed (DownloadMedia a # es) = delaysFixed es"
  "delaysFixed (UploadMedia a b # es) = delaysFixed es"
  "delaysFixed (AddMessage cm # es) = delaysFixed es"
  "delaysFixed (GetContactAvatar a # es) = delaysFixed es"
  "delaysFixed (GetMultipleContactAvatars ids # es) = delaysFixed es"
  "delaysFixed (LoadChats # es) = delaysFixed es"
  "delaysFixed (SaveChats # es) = delaysFixed es"
  by (auto simp add: delaysFixed_def)

lemma scheduleDelays_values [simp]:
  "1000 \<in> set scheduleDelays" "2000 \<in> set scheduleDelays"
  "RECONNECT_DELAY * 2 \<in> set scheduleDelays"
  "min (RECONNECT_DELAY * 3) 30000 \<in> set scheduleDelays"
  "1000 \<le> maxInitDelay" "2000 \<le> maxInitDelay" "5000 \<le> maxInitDelay"
  "RECONNECT_DELAY \<le> maxInitDelay" "RECONNECT_DELAY * 2 \<le> maxInitDelay"
  "min (RECONNECT_DELAY * 3) 30000 \<le> maxInitDelay"
  "min (n * 15000) 60000 \<le> maxInitDelay"
  by (simp_all add: scheduleDelays_def maxInitDelay_def RECONNECT_DELAY_def)

text \<open>What the message functions add to a trace.\<close>

lemma processMedia_effects:
  "timers (fst (processMedia e label msg)) = [] \<and> stored (fst (processMedia e label msg)) = [] \<and>
   broadcasts (fst (processMedia e label msg)) = [] \<and> announced (fst (processMedia e label msg)) = []"
  by (simp add: processMedia_def Let_def split: outcome.splits option.splits)

lemma saveAndAnnounce_timers: "saveAndAnnounce e label m = (es, r) \<Longrightarrow> timers es = []"
  by (auto simp add: saveAndAnnounce_def split: outcome.splits)

lemma processIncomingMessage_timers: "timers (fst (processIncomingMessage e msg)) = []"
  using processMedia_effects [of e "''Processing incoming media''" msg]
  by (auto simp add: processIncomingMessage_def split: prod.splits outcome.splits
      dest: saveAndAnnounce_timers)

lemma processOutgoingMessage_timers: "timers (fst (processOutgoingMessage e msg)) = []"
  using processMedia_effects [of e "''Processing outgoing media''" msg]
  by (auto simp add: processOutgoingMessage_def split: prod.splits outcome.splits
      dest: saveAndAnnounce_timers)

lemma caught_timers: "timers (caught label r) = timers (fst r)"
  by (cases r; cases "snd r") (simp_all add: caught_def)

lemma deliver_effects:
  "timers (fst (deliver e d n)) = [] \<and> stored (fst (deliver e d n)) = [] \<and>
   broadcasts (fst (deliver e d n)) = []"
  by (simp add: deliver_def Let_def split: outcome.splits option.splits)

text \<open>
  Every piece of every handler keeps the delays of the trace fixed: a timer it sets has one
  of the delays of \<open>scheduleDelays\<close>, a wait is at most \<open>maxInitDelay\<close>.
\<close>

lemma destroyFailedClient_delaysFixed:
  "delaysFixed (trace s) \<Longrightarrow> delaysFixed (trace (destroyFailedClient d n s))"
  by (cases "client s"; cases "destroyOutcome d n") (simp_all add: destroyFailedClient_def)

lemma afterFailedInitialize_delaysFixed:
  "delaysFixed (trace s) \<Longrightarrow> delaysFixed (trace (afterFailedInitialize d n e s))"
  using destroyFailedClient_delaysFixed
    [of "emits [Console (''Initialization attempt failed: '' @ e)] s" d n]
  by (simp add: afterFailedInitialize_def)

lemma beforeInitialize_delaysFixed:
  "delaysFixed (trace s) \<Longrightarrow> delaysFixed (trace (beforeInitialize n s))"
  by (simp add: beforeInitialize_def)

lemma initializeLoop_delaysFixed:
  "initializeLoop d n s = (s', r) \<Longrightarrow> delaysFixed (trace s) \<Longrightarrow> delaysFixed (trace s')"
proof (induction d n s arbitrary: s' r rule: initializeLoop.induct)
  case (1 d initAttempts s)
  show ?case
  proof (cases "initAttempts < maxInitAttempts")
    case False
    with "1.prems" show ?thesis by (simp add: initializeLoop.simps)
  next
    case True
    have b: "delaysFixed (trace (beforeInitialize (initAttempts + 1) s))"
      using "1.prems"(2) by (rule beforeInitialize_delaysFixed)
    show ?thesis
    proof (cases "initializeOutcome d (initAttempts + 1)")
      case (Resolves u)
      with True "1.prems" b show ?thesis
        by (auto simp add: initializeLoop.simps [of d initAttempts s] Let_def)
    next
      case (Rejects e)
      show ?thesis
      proof (cases "initAttempts + 1 < maxInitAttempts")
        case False
        with True Rejects "1.prems" b show ?thesis
          by (auto simp add: initializeLoop.simps [of d initAttempts s] Let_def)
      next
        case lt: True
        let ?s6 = "afterFailedInitialize d (initAttempts + 1) e (beforeInitialize (initAttempts + 1) s)"
        from True Rejects lt "1.prems"
        have rec: "initializeLoop d (initAttempts + 1) ?s6 = (s', r)"
          by (simp add: initializeLoop.simps [of d initAttempts s] Let_def)
        have "delaysFixed (trace ?s6)"
          using b by (rule afterFailedInitialize_delaysFixed)
        with "1.IH" [OF True refl refl Rejects lt rec] show ?thesis .
      qed
    qed
  qed
qed

lemma initialize_rest_delaysFixed:
  "delaysFixed (trace s) \<Longrightarrow> delaysFixed (trace (fst (initialize_rest d s)))"
proof (cases "initializeLoop d 0 s")
  case (Pair s1 r)
  assume b: "delaysFixed (trace s)"
  from initializeLoop_delaysFixed [OF Pair b] have "delaysFixed (trace s1)" .
  with Pair show ?thesis
    by (cases r) (simp_all add: initialize_rest_def Let_def)
qed

lemma initialize_begin_delaysFixed:
  "delaysFixed (trace s) \<Longrightarrow> delaysFixed (trace (fst (initialize_begin s)))"
  by (simp add: initialize_begin_def Let_def)

lemma safeReconnect_settle_delaysFixed:
  "delaysFixed (trace (fst r)) \<Longrightarrow> delaysFixed (trace (safeReconnect_settle r))"
  by (cases r; cases "snd r")
     (simp_all add: safeReconnect_settle_def safeReconnect_finally_def safeReconnect_catch_def Let_def)

lemma safeReconnect_afterDestroy_delaysFixed:
  "delaysFixed (trace s) \<Longrightarrow> delaysFixed (trace (fst (safeReconnect_afterDestroy x s)))"
  by (simp add: safeReconnect_afterDestroy_def safeReconnect_finally_def Let_def
      split: option.splits outcome.splits)

lemma safeReconnect_enter_delaysFixed:
  "delaysFixed (trace s) \<Longrightarrow> delaysFixed (trace (fst (safeReconnect_enter reason s)))"
  by (simp add: safeReconnect_enter_def Let_def split: option.splits)

lemma restart_delaysFixed:
  "delaysFixed (trace s) \<Longrightarrow> delaysFixed (trace (fst (restart_begin s)))"
  "delaysFixed (trace s) \<Longrightarrow> delaysFixed (trace (restart_rest x y s))"
  by (simp_all add: restart_begin_def restart_rest_def Let_def split: option.splits outcome.splits)

lemma updateAccountInfo_delaysFixed:
  "delaysFixed (trace s) \<Longrightarrow> delaysFixed (trace (updateAccountInfo pic now s))"
  by (simp add: updateAccountInfo_def Let_def split: option.splits outcome.splits)

lemma handlers_delaysFixed:
  assumes "delaysFixed (trace s)"
  shows "delaysFixed (trace (onQr u s))"
    "delaysFixed (trace (onAuthenticated s))"
    "delaysFixed (trace (onLoadingScreen p s))"
    "delaysFixed (trace (onChangeState st s))"
    "delaysFixed (trace (onClientError err s))"
    "delaysFixed (trace (onReady pic now (driverSetsInfo i s)))"
    "delaysFixed (trace (onDisconnected reason s))"
    "delaysFixed (trace (onAuthFailure err s))"
    "delaysFixed (trace (onMessageAck msg a s))"
  using assms updateAccountInfo_delaysFixed
  by (simp_all add: onQr_def onAuthenticated_def onLoadingScreen_def onChangeState_def
      onClientError_def onReady_def driverSetsInfo_def onDisconnected_def onAuthFailure_def
      onMessageAck_def Let_def split: outcome.splits)

lemma sendFailed_delaysFixed:
  "delaysFixed (trace s) \<Longrightarrow> delaysFixed (trace (sendFailed d err s))"
  by (simp add: sendFailed_def Let_def)

lemma ingest_save_delaysFixed: "delaysFixed (fst (ingest_save e outgoing msg f))"
  by (simp add: ingest_save_def Let_def)

lemma ingest_start_delaysFixed: "delaysFixed (fst (ingest_start e outgoing msg))"
  by (simp add: ingest_start_def ingest_save_delaysFixed)

lemma ingest_resume_delaysFixed: "delaysFixed (fst (ingest_resume e outgoing msg ph))"
  by (cases ph)
     (simp_all add: ingest_save_delaysFixed split: outcome.splits option.splits)

lemma beginIngest_delaysFixed:
  "delaysFixed (trace (vars c)) \<Longrightarrow> delaysFixed (trace (vars (beginIngest e outgoing msg c)))"
  using ingest_start_delaysFixed [of e outgoing msg]
  by (cases "ingest_start e outgoing msg"; cases "snd (ingest_start e outgoing msg)")
     (simp_all add: beginIngest_def)

lemma requestMessage_delaysFixed:
  assumes "delaysFixed (trace (vars c))"
  shows "delaysFixed (trace (vars (requestMessage e msg c)))"
    "delaysFixed (trace (vars (requestMessageCreate e msg c)))"
  using assms
  by (simp_all add: requestMessage_def requestMessageCreate_def beginIngest_delaysFixed)

lemma send_resume_delaysFixed:
  "delaysFixed (trace s) \<Longrightarrow> delaysFixed (trace (fst (send_resume e d ph s)))"
  by (cases ph)
     (simp_all add: send_save_def mediaSendFailed_def sendFailed_delaysFixed Let_def
        split: outcome.splits)

lemma requestSend_delaysFixed:
  "delaysFixed (trace (vars c)) \<Longrightarrow> delaysFixed (trace (vars (requestSend e d c)))"
  by (simp add: requestSend_def send_start_def Let_def split: option.splits)

lemma endpoints_delaysFixed:
  assumes "delaysFixed (trace s)"
  shows "delaysFixed (trace (fst (getAvatar e contactId s)))"
    "delaysFixed (trace (fst (postAvatarsBatch e ids s)))"
    "delaysFixed (trace (fst (postAvatarsRefresh e s)))"
  using assms
  by (simp_all add: getAvatar_def postAvatarsBatch_def postAvatarsRefresh_def Let_def
      split: outcome.splits option.splits)

lemma requestReconnect_delaysFixed:
  assumes "delaysFixed (trace (vars c))"
  shows "delaysFixed (trace (vars (requestReconnect reason c)))"
proof -
  have a: "delaysFixed (trace (fst (safeReconnect_enter reason (vars c))))"
    using assms by (rule safeReconnect_enter_delaysFixed)
  have b: "delaysFixed (trace (fst (safeReconnect_afterDestroy None (fst (safeReconnect_enter reason (vars c))))))"
    using a by (rule safeReconnect_afterDestroy_delaysFixed)
  from a b show ?thesis
    by (auto simp add: requestReconnect_def split: prod.splits bool.splits option.splits)
qed

lemma requestStartup_delaysFixed:
  "delaysFixed (trace (vars c)) \<Longrightarrow> delaysFixed (trace (vars (requestStartup c)))"
  using initialize_begin_delaysFixed [of "vars c"]
  by (auto simp add: requestStartup_def split: prod.splits bool.splits)

lemma requestRestart_delaysFixed:
  "delaysFixed (trace (vars c)) \<Longrightarrow> delaysFixed (trace (vars (requestRestart c)))"
  using restart_delaysFixed(1) [of "vars c"]
  by (auto simp add: requestRestart_def split: prod.splits bool.splits)

lemma safeReconnect_afterDestroy_delaysFixed_pair:
  "delaysFixed (trace s) \<Longrightarrow> safeReconnect_afterDestroy x s = (s', b) \<Longrightarrow>
   delaysFixed (trace s')"
  using safeReconnect_afterDestroy_delaysFixed [of s x] by simp

lemma initialize_begin_delaysFixed_pair:
  "delaysFixed (trace s) \<Longrightarrow> initialize_begin s = (s', b) \<Longrightarrow> delaysFixed (trace s')"
  using initialize_begin_delaysFixed [of s] by simp

lemma send_resume_delaysFixed_pair:
  "delaysFixed (trace s) \<Longrightarrow> send_resume e d ph s = (s', x) \<Longrightarrow> delaysFixed (trace s')"
  using send_resume_delaysFixed [of s e d ph] by simp

lemma ingest_resume_delaysFixed_pair:
  "ingest_resume e outgoing msg ph = (es, x) \<Longrightarrow> delaysFixed es"
  using ingest_resume_delaysFixed [of e outgoing msg ph] by simp

lemma resumeTask_delaysFixed:
  assumes "delaysFixed (trace s)" and "resumeTask t r s = Some (s', t')"
  shows "delaysFixed (trace s')"
proof (cases t)
  case ReconnectAwaitsDestroy
  with assms show ?thesis
    by (cases r)
       (auto split: prod.splits bool.splits dest: safeReconnect_afterDestroy_delaysFixed_pair)
next
  case ReconnectAwaitsDelay
  with assms show ?thesis
    by (cases r)
       (auto simp add: safeReconnect_finally_def split: prod.splits bool.splits
             dest: initialize_begin_delaysFixed_pair)
next
  case ReconnectAwaitsInitialize
  with assms safeReconnect_settle_delaysFixed [OF initialize_rest_delaysFixed [OF assms(1)]]
  show ?thesis by (cases r) auto
next
  case StartupAwaitsInitialize
  with assms initialize_rest_delaysFixed [OF assms(1)] show ?thesis by (cases r) auto
next
  case (RestartAwaits x)
  with assms restart_delaysFixed(2) [OF assms(1)] show ?thesis by (cases r) auto
next
  case (IngestAwaits e outgoing msg ph)
  with assms show ?thesis
    by (cases r)
       (auto split: prod.splits option.splits dest: ingest_resume_delaysFixed_pair)
next
  case (SendAwaits e d ph)
  with assms show ?thesis
    by (cases r)
       (auto split: prod.splits option.splits dest: send_resume_delaysFixed_pair)
qed

lemma resume_delaysFixed:
  assumes "delaysFixed (trace (vars c))"
  shows "delaysFixed (trace (vars (resume i r c)))"
proof (cases "i < length (tasks c)")
  case False
  with assms show ?thesis by (simp add: resume_def)
next
  case True
  show ?thesis
  proof (cases "resumeTask (tasks c ! i) r (vars c)")
    case None
    with True assms show ?thesis by (simp add: resume_def)
  next
    case (Some p)
    obtain s' t' where p: "p = (s', t')" by (cases p)
    from resumeTask_delaysFixed [OF assms Some [unfolded p]]
    have "delaysFixed (trace s')" .
    with Some p True show ?thesis by (cases t') (simp_all add: resume_def)
  qed
qed

lemma step_delaysFixed:
  "delaysFixed (trace (vars c)) \<Longrightarrow> delaysFixed (trace (vars (step ev c)))"
  by (cases ev)
     (simp_all add: handlers_delaysFixed requestMessage_delaysFixed
        requestSend_delaysFixed endpoints_delaysFixed requestReconnect_delaysFixed
        requestStartup_delaysFixed requestRestart_delaysFixed resume_delaysFixed)

lemma run_delaysFixed:
  "delaysFixed (trace (vars c)) \<Longrightarrow> delaysFixed (trace (vars (run evs c)))"
  by (induction evs arbitrary: c) (simp_all add: step_delaysFixed)

lemma attemptDelay_constant:
  "attemptDelay x s = Some a \<Longrightarrow> a = RECONNECT_DELAY"
  by (auto simp add: attemptDelay_def safeReconnect_afterDestroy_def safeReconnect_finally_def
      newEffects_def Let_def split: if_splits option.splits outcome.splits)


section \<open>The cap on reconnect attempts\<close>


text \<open>
  C3, as the code has it. The cap is passed, not reached: a call of \<open>safeReconnect\<close> that
  finds the counter at 5 or above (so that its increment takes it beyond the cap) leaves the
  session not ready, announces the state \<open>MAX_RECONNECT_ATTEMPTS_REACHED\<close>, broadcasts
  \<open>connection-failed\<close>, creates and initialises no client, waits for nothing and sets no
  timer; and however many calls of \<open>safeReconnect\<close> follow, none creates or initialises a
  client or sets a timer. (The text of the \<open>connection-failed\<close> message is Russian in
  the source.)
\<close>

theorem reconnect_exhausted_beyond_cap:
  assumes "\<not> isReconnecting s" and "\<not> isInitializing s"
    and "MAX_RECONNECT_ATTEMPTS \<le> reconnectAttempts s"
  shows "reconnectAttempts (safeReconnect destroyed d reason s) = reconnectAttempts s + 1 \<and>
         \<not> isClientReady (safeReconnect destroyed d reason s) \<and>
         \<not> isReady (currentAccountInfo (safeReconnect destroyed d reason s)) \<and>
         \<not> isReconnecting (safeReconnect destroyed d reason s) \<and>
         (''connection-state'',
            ConnectionState ''MAX_RECONNECT_ATTEMPTS_REACHED'' NoDetails False (reconnectAttempts s + 1))
           \<in> set (broadcasts (newEffects s (safeReconnect destroyed d reason s))) \<and>
         connectionFailures (newEffects s (safeReconnect destroyed d reason s)) =
           [MessageField ''max reconnect attempts reached''] \<and>
         initializations (newEffects s (safeReconnect destroyed d reason s)) = 0 \<and>
         delays (newEffects s (safeReconnect destroyed d reason s)) = [] \<and>
         initializations (trace (reconnectAll calls (safeReconnect destroyed d reason s))) =
           initializations (trace s) \<and>
         timers (trace (reconnectAll calls (safeReconnect destroyed d reason s))) = timers (trace s)"
proof -
  let ?s' = "safeReconnect destroyed d reason s"
  from safeReconnect_over_cap [OF assms, of destroyed d reason]
  obtain es where eq: "?s' =
           (clearAccountReady s)
             \<lparr>isClientReady := False, isReconnecting := False,
               reconnectAttempts := reconnectAttempts s + 1,
               trace := trace s @
                 [Console ''WhatsApp Connection: RECONNECTING'',
                  Emit ''connection-state''
                    (ConnectionState ''RECONNECTING'' (ReconnectingDetail reason (reconnectAttempts s + 1))
                       False (reconnectAttempts s))] @ es @
                 [Console ''WhatsApp Connection: MAX_RECONNECT_ATTEMPTS_REACHED'',
                  Emit ''connection-state''
                    (ConnectionState ''MAX_RECONNECT_ATTEMPTS_REACHED'' NoDetails False (reconnectAttempts s + 1)),
                  Emit ''connection-failed'' (MessageField ''max reconnect attempts reached'')]\<rparr>"
    and es: "initializations es = 0" "timers es = []" "delays es = []"
      "connectionFailures es = []" by blast
  have now: "reconnectAttempts ?s' = reconnectAttempts s + 1" "\<not> isClientReady ?s'"
    "\<not> isReady (currentAccountInfo ?s')" "\<not> isReconnecting ?s'"
    by (simp_all add: eq)
  have new: "newEffects s ?s' =
      [Console ''WhatsApp Connection: RECONNECTING'',
       Emit ''connection-state''
         (ConnectionState ''RECONNECTING'' (ReconnectingDetail reason (reconnectAttempts s + 1))
            False (reconnectAttempts s))] @ es @
      [Console ''WhatsApp Connection: MAX_RECONNECT_ATTEMPTS_REACHED'',
       Emit ''connection-state''
         (ConnectionState ''MAX_RECONNECT_ATTEMPTS_REACHED'' NoDetails False (reconnectAttempts s + 1)),
       Emit ''connection-failed'' (MessageField ''max reconnect attempts reached'')]"
    by (rule newEffects_append) (simp add: eq)
  have later: "initializations (trace (reconnectAll calls ?s')) = initializations (trace ?s')"
    "timers (trace (reconnectAll calls ?s')) = timers (trace ?s')"
    using reconnectAll_stays_exhausted [of ?s' calls] now(1) assms(3) by simp_all
  have same: "initializations (trace ?s') = initializations (trace s)" "timers (trace ?s') = timers (trace s)"
    using es by (simp_all add: eq)
  from now new es later same show ?thesis by simp
qed

lemma fifthAttempt_flags:
  "reconnectAttempts fifthAttempt = 5 \<and> \<not> isReconnecting fifthAttempt \<and> \<not> isInitializing fifthAttempt"
  using afterFourFailures_flags
    safeReconnect_passes [of afterFourFailures "Resolves ()" okDriver "''Previous attempt failed''"]
  by (simp add: fifthAttempt_def)

theorem reconnect_exhausted_beyond_cap_witness:
  "\<not> isReconnecting fifthAttempt \<and> \<not> isInitializing fifthAttempt \<and>
   MAX_RECONNECT_ATTEMPTS \<le> reconnectAttempts fifthAttempt \<and>
   reconnectAttempts (safeReconnect (Resolves ()) okDriver ''Disconnected: logout'' fifthAttempt) = 6 \<and>
   connectionFailures
     (newEffects fifthAttempt (safeReconnect (Resolves ()) okDriver ''Disconnected: logout'' fifthAttempt)) =
     [MessageField ''max reconnect attempts reached''] \<and>
   initializations
     (newEffects fifthAttempt (safeReconnect (Resolves ()) okDriver ''Disconnected: logout'' fifthAttempt)) = 0"
proof -
  have h: "\<not> isReconnecting fifthAttempt" "\<not> isInitializing fifthAttempt"
    "MAX_RECONNECT_ATTEMPTS \<le> reconnectAttempts fifthAttempt"
    using fifthAttempt_flags by (simp_all add: MAX_RECONNECT_ATTEMPTS_def)
  from reconnect_exhausted_beyond_cap [OF h, of "Resolves ()" okDriver "''Disconnected: logout''" "[]"]
    h fifthAttempt_flags
  show ?thesis by simp
qed

text \<open>
  C3 as it is written fails: after four failed reconnects the fifth call takes the
  counter to the cap of 5, and it creates and initialises a client (two effects) and
  broadcasts no \<open>connection-failed\<close>.
\<close>

theorem reconnect_at_cap_counterexample:
  "reconnectAttempts fifthAttempt = MAX_RECONNECT_ATTEMPTS \<and>
   connectionFailures (newEffects afterFourFailures fifthAttempt) = [] \<and>
   initializations (newEffects afterFourFailures fifthAttempt) = 2"
proof -
  have ok: "initializeOutcome okDriver 1 = Resolves ()" by (simp add: okDriver_def)
  have lt: "reconnectAttempts afterFourFailures < MAX_RECONNECT_ATTEMPTS"
    using afterFourFailures_flags by (simp add: MAX_RECONNECT_ATTEMPTS_def)
  from safeReconnect_below_cap [of afterFourFailures okDriver "Resolves ()" "''Previous attempt failed''"]
    afterFourFailures_flags lt ok fifthAttempt_flags
  show ?thesis by (simp add: fifthAttempt_def MAX_RECONNECT_ATTEMPTS_def)
qed


section \<open>Disconnects\<close>


text \<open>While the ready flag is down nothing is stored or announced, and only \<open>ready\<close> raises it.\<close>

lemma idle_refl [simp]: "\<not> isClientReady s \<Longrightarrow> idle s s"
  by (simp add: idle_def)









lemma not_ready_unhealthy: "\<not> isClientReady s \<Longrightarrow> \<not> isClientHealthy s"
  by (simp add: isClientHealthy_def split: option.splits)





lemma messagesInFlight_vars [simp]:
  "messagesInFlight (c\<lparr>vars := x\<rparr>) = messagesInFlight c"
  by (simp add: messagesInFlight_def)

lemma idle_pair: "idle s (fst p) \<Longrightarrow> p = (s', b) \<Longrightarrow> idle s s'"
  by simp





















lemma run_append: "run (xs @ ys) c = run ys (run xs c)"
  by (induction xs arbitrary: c) simp_all

text \<open>The sample session, evaluated once.\<close>

lemma readySystem_value:
  "run bootToReady bootSystem =
     \<lparr> vars =
         \<lparr> client = Some \<lparr> info = Some sampleInfo \<rparr>,
           currentAccountInfo =
             \<lparr> phoneNumber = Some ''77001234567@c.us'', accountName = Some ''Office'',
               profilePicUrl = None, isReady = True,
               connectedAt = Some ''2025-01-01T00:00:00.000Z'' \<rparr>,
           qrCode = None, isInitializing = False, isClientReady = True, isReconnecting = False,
           reconnectAttempts = 0,
           trace =
             [Console ''WhatsApp Connection: INITIALIZING'',
              Emit ''connection-state'' (ConnectionState ''INITIALIZING'' NoDetails False 0),
              Console ''WhatsApp Client Configuration'', NewClient,
              Console ''Initialization attempt'', ClientInitialize,
              Console ''WhatsApp client initialized successfully'',
              Console ''WhatsApp Connection: INITIALIZATION_COMPLETE'',
              Emit ''connection-state'' (ConnectionState ''INITIALIZATION_COMPLETE'' NoDetails False 0),
              Console ''WhatsApp Connection: READY'',
              Emit ''connection-state'' (ConnectionState ''READY'' NoDetails True 0),
              ClientGetProfilePicUrl ''77001234567@c.us'',
              Console ''Account info updated'', Emit ''ready'' NoPayload,
              Emit ''account-connected''
                (Account
                  \<lparr> phoneNumber = Some ''77001234567@c.us'', accountName = Some ''Office'',
                    profilePicUrl = None, isReady = True,
                    connectedAt = Some ''2025-01-01T00:00:00.000Z'' \<rparr>),
              Console ''WhatsApp Connection: ACCOUNT_CONNECTED'',
              Emit ''connection-state''
                (ConnectionState ''ACCOUNT_CONNECTED''
                   (AccountDetail (Some ''77001234567@c.us'') (Some ''Office'')) True 0)] \<rparr>,
       tasks = [] \<rparr>"
  by (simp add: bootToReady_def bootSystem_def initialState_def requestStartup_def
      initialize_begin_def initialize_rest_def clearAccountReady_def logConnectionState_def
      emits_def newClient_def resume_def dropTask_def okDriver_def beforeInitialize_def
      maxInitAttempts_def onReady_def driverSetsInfo_def updateAccountInfo_def sampleInfo_def
      initializeLoop.simps Let_def)

lemma readyState_fields:
  "client readyState = Some \<lparr> info = Some sampleInfo \<rparr>"
  "currentAccountInfo readyState =
     \<lparr> phoneNumber = Some ''77001234567@c.us'', accountName = Some ''Office'',
       profilePicUrl = None, isReady = True, connectedAt = Some ''2025-01-01T00:00:00.000Z'' \<rparr>"
  "qrCode readyState = None"
  "\<not> isInitializing readyState" "isClientReady readyState" "\<not> isReconnecting readyState"
  "reconnectAttempts readyState = 0"
  "stored (trace readyState) = []" "timers (trace readyState) = []"
  "announced (trace readyState) = []" "delays (trace readyState) = []"
  by (simp_all add: readyState_def readySystem_value)

lemma readySystem_eq: "run bootToReady bootSystem = \<lparr> vars = readyState, tasks = [] \<rparr>"
  by (simp add: readyState_def readySystem_value)

lemma reconnectingSystem_flags:
  "isReconnecting (vars reconnectingSystem) \<and> \<not> isClientReady (vars reconnectingSystem) \<and>
   client (vars reconnectingSystem) = Some \<lparr> info = Some sampleInfo \<rparr> \<and>
   tasks reconnectingSystem = [ReconnectAwaitsDestroy] \<and>
   timers (trace (vars reconnectingSystem)) = [(1000, CallSafeReconnect ''Disconnected: logout'')]"
  by (simp add: reconnectingSystem_def run_append readySystem_eq readyState_fields
      onDisconnected_def requestReconnect_def safeReconnect_enter_def Let_def)








section \<open>Reconnect delays\<close>

lemma initialize_rest_schedule:
  assumes "snd (initialize_rest d s) = Rejects e"
  shows "timers (newEffects s (fst (initialize_rest d s))) =
           [(min (RECONNECT_DELAY * 3) 30000, CallSafeReconnect ''Extreme initialization failed'')]"
proof (cases "initializeLoop d 0 s")
  case (Pair s1 r)
  from initializeLoop_trace [OF Pair]
  obtain es where es: "trace s1 = trace s @ es" "timers es = []" by blast
  from assms Pair obtain e' where r: "r = Rejects e'"
    by (cases r) (simp_all add: initialize_rest_def)
  with Pair es show ?thesis
    by (simp add: initialize_rest_def newEffects_def Let_def)
qed

text \<open>An initialisation that fails in all five passes, with a client to destroy in each.\<close>

lemma failing_loop:
  assumes "client s = Some cl"
  shows "snd (initializeLoop failingDriver 0 s) = Rejects initFailure \<and>
         client (fst (initializeLoop failingDriver 0 s)) = Some newClient \<and>
         timers (trace (fst (initializeLoop failingDriver 0 s))) = timers (trace s) \<and>
         delays (trace (fst (initializeLoop failingDriver 0 s))) =
           delays (trace s) @ [5000, 30000, 5000, 45000, 5000, 60000, 5000, 60000]"
  using assms
  by (simp add: initializeLoop.simps beforeInitialize_def afterFailedInitialize_def
      destroyFailedClient_def maxInitAttempts_def failingDriver_def initFailure_def Let_def)

text \<open>The stages of a reconnect attempt, from a state of which only the flags are known.\<close>

lemma attempt_begins:
  assumes "client s = Some cl" "\<not> isReconnecting s" "\<not> isInitializing s"
    and "reconnectAttempts s < MAX_RECONNECT_ATTEMPTS"
  shows "\<exists>s'. run [ReconnectRequested reason, Resume 0 (Destroyed (Resolves ()))]
                 \<lparr> vars = s, tasks = [] \<rparr> = \<lparr> vars = s', tasks = [ReconnectAwaitsDelay] \<rparr> \<and>
              client s' = Some cl \<and> isReconnecting s' \<and> \<not> isInitializing s' \<and>
              reconnectAttempts s' = reconnectAttempts s + 1 \<and>
              timers (trace s') = timers (trace s) \<and>
              delays (trace s') = delays (trace s) @ [5000]"
  using assms
  by (simp add: requestReconnect_def safeReconnect_enter_def safeReconnect_afterDestroy_def
      resume_def RECONNECT_DELAY_def Let_def)

lemma attempt_guarded:
  "isReconnecting s \<Longrightarrow>
   step (ReconnectRequested reason) \<lparr> vars = s, tasks = ts \<rparr> =
     \<lparr> vars = emits [Console ''Reconnection already in progress, skipping...''] s, tasks = ts \<rparr>"
  by (simp add: requestReconnect_def safeReconnect_enter_def)

lemma attempt_fails:
  assumes "client s = Some cl" "isReconnecting s" "\<not> isInitializing s"
  shows "\<exists>s'. run [Resume 0 DelayElapsed, Resume 0 (Initialized failingDriver)]
                 \<lparr> vars = s, tasks = [ReconnectAwaitsDelay] \<rparr> = \<lparr> vars = s', tasks = [] \<rparr> \<and>
              client s' = Some newClient \<and> \<not> isReconnecting s' \<and> \<not> isInitializing s' \<and>
              reconnectAttempts s' = reconnectAttempts s \<and>
              timers (trace s') = timers (trace s) @
                [(15000, CallSafeReconnect ''Extreme initialization failed''),
                 (10000, CallSafeReconnect (''Previous attempt failed: '' @ initFailure))] \<and>
              delays (trace s') = delays (trace s) @
                [5000, 30000, 5000, 45000, 5000, 60000, 5000, 60000, 15000, 10000]"
proof -
  define s1 where "s1 = fst (initialize_begin s)"
  have s1: "initialize_begin s = (s1, True)" "client s1 = Some newClient"
    "reconnectAttempts s1 = reconnectAttempts s"
    "timers (trace s1) = timers (trace s)" "delays (trace s1) = delays (trace s)"
    using assms by (simp_all add: s1_def initialize_begin_def Let_def)
  obtain s2 r where loop: "initializeLoop failingDriver 0 s1 = (s2, r)"
    by (cases "initializeLoop failingDriver 0 s1")
  from failing_loop [OF s1(2)] loop
  have s2: "r = Rejects initFailure" "client s2 = Some newClient"
    "timers (trace s2) = timers (trace s1)"
    "delays (trace s2) = delays (trace s1) @ [5000, 30000, 5000, 45000, 5000, 60000, 5000, 60000]"
    by simp_all
  from initializeLoop_frame [OF loop] have "reconnectAttempts s2 = reconnectAttempts s1" by simp
  with s1 s2 loop show ?thesis
    by (simp add: resume_def dropTask_def initialize_rest_def safeReconnect_settle_def
        safeReconnect_catch_def safeReconnect_finally_def RECONNECT_DELAY_def Let_def)
qed

lemma attempt_succeeds:
  assumes "client s = Some cl" "isReconnecting s" "\<not> isInitializing s"
  shows "\<exists>s'. run [Resume 0 DelayElapsed, Resume 0 (Initialized okDriver)]
                 \<lparr> vars = s, tasks = [ReconnectAwaitsDelay] \<rparr> = \<lparr> vars = s', tasks = [] \<rparr> \<and>
              client s' = Some newClient \<and> \<not> isReconnecting s' \<and> \<not> isInitializing s' \<and>
              reconnectAttempts s' = reconnectAttempts s \<and>
              timers (trace s') = timers (trace s) \<and> delays (trace s') = delays (trace s)"
proof -
  have "initializeOutcome okDriver 1 = Resolves ()" by (simp add: okDriver_def)
  from initializeLoop_first_ok [OF this] assms show ?thesis
    by (simp add: resume_def dropTask_def initialize_begin_def initialize_rest_def
        safeReconnect_settle_def safeReconnect_finally_def Let_def)
qed

lemma failing_initialize_rest:
  "client s = Some cl \<Longrightarrow> snd (initialize_rest failingDriver s) = Rejects initFailure"
  using failing_loop [of s cl]
  by (cases "initializeLoop failingDriver 0 s") (simp add: initialize_rest_def Let_def)

text \<open>
  C8, as the code has it. The wait of \<open>safeReconnect\<close> before it initialises a new client
  is \<open>RECONNECT_DELAY\<close> for every attempt, whatever the counter. The delay of a timer that
  schedules a call of \<open>safeReconnect\<close> is fixed by what sets it: 1000 ms after a disconnect
  and after a send that failed on the connection, 2000 ms after an authentication failure
  (these three only when no reconnect is in flight), twice \<open>RECONNECT_DELAY\<close> in the catch
  block of \<open>safeReconnect\<close>, and the smaller of three times \<open>RECONNECT_DELAY\<close> and 30000 ms
  after a failed initialisation. In every run of the server every timer has one of these
  four delays, and no timer and no wait, those of the initialisation loop included,
  exceeds 60000 ms.
\<close>

theorem reconnect_delays_fixed_by_trigger:
  "(attemptDelay x s = Some a \<longrightarrow> a = RECONNECT_DELAY) \<and>
   (\<not> isReconnecting s \<longrightarrow>
      timers (newEffects s (onDisconnected reason s)) =
        [(1000, CallSafeReconnect (''Disconnected: '' @ reason))] \<and>
      timers (newEffects s (onAuthFailure err s)) =
        [(2000, CallSafeReconnect (''Auth failure: '' @ err))] \<and>
      (isConnectionError sendErr \<longrightarrow>
         timers (newEffects s (sendFailed sd sendErr s)) =
           [(1000, CallSafeReconnect ''Message sending failed due to connection error'')])) \<and>
   timers (newEffects s (safeReconnect_catch e s)) =
     [(RECONNECT_DELAY * 2, CallSafeReconnect (''Previous attempt failed: '' @ e))] \<and>
   (snd (initialize_rest d s) = Rejects initErr \<longrightarrow>
      timers (newEffects s (fst (initialize_rest d s))) =
        [(min (RECONNECT_DELAY * 3) 30000, CallSafeReconnect ''Extreme initialization failed'')]) \<and>
   delaysFixed (trace (vars (run evs bootSystem)))"
proof -
  have wait: "a = RECONNECT_DELAY" if "attemptDelay x s = Some a"
    using that by (rule attemptDelay_constant)
  have handlers:
    "timers (newEffects s (onDisconnected reason s)) =
       [(1000, CallSafeReconnect (''Disconnected: '' @ reason))]"
    "timers (newEffects s (onAuthFailure err s)) =
       [(2000, CallSafeReconnect (''Auth failure: '' @ err))]"
    if "\<not> isReconnecting s"
    using that by (simp_all add: onDisconnected_def onAuthFailure_def newEffects_def Let_def)
  have send: "timers (newEffects s (sendFailed sd sendErr s)) =
       [(1000, CallSafeReconnect ''Message sending failed due to connection error'')]"
    if "\<not> isReconnecting s" "isConnectionError sendErr"
    using that by (simp add: sendFailed_def newEffects_def Let_def)
  have catch: "timers (newEffects s (safeReconnect_catch e s)) =
     [(RECONNECT_DELAY * 2, CallSafeReconnect (''Previous attempt failed: '' @ e))]"
    by (simp add: safeReconnect_catch_def newEffects_def Let_def)
  have init: "timers (newEffects s (fst (initialize_rest d s))) =
        [(min (RECONNECT_DELAY * 3) 30000, CallSafeReconnect ''Extreme initialization failed'')]"
    if "snd (initialize_rest d s) = Rejects initErr"
    using that by (rule initialize_rest_schedule)
  have runs: "delaysFixed (trace (vars (run evs bootSystem)))"
    by (rule run_delaysFixed) (simp add: bootSystem_def initialState_def)
  from wait handlers send catch init runs show ?thesis by blast
qed

theorem reconnect_delays_fixed_by_trigger_witness:
  "attemptDelay (Some (Resolves ())) readyState = Some 5000 \<and> (5000::nat) = RECONNECT_DELAY \<and>
   \<not> isReconnecting readyState \<and> isConnectionError ''Session closed'' \<and>
   snd (initialize_rest failingDriver readyState) = Rejects initFailure \<and>
   timers (newEffects readyState (onDisconnected ''logout'' readyState)) =
     [(1000, CallSafeReconnect ''Disconnected: logout'')] \<and>
   timers (newEffects readyState (onAuthFailure ''auth'' readyState)) =
     [(2000, CallSafeReconnect ''Auth failure: auth'')] \<and>
   timers (newEffects readyState (sendFailed sampleSend ''Session closed'' readyState)) =
     [(1000, CallSafeReconnect ''Message sending failed due to connection error'')] \<and>
   timers (newEffects readyState (fst (initialize_rest failingDriver readyState))) =
     [(15000, CallSafeReconnect ''Extreme initialization failed'')]"
proof -
  have a: "attemptDelay (Some (Resolves ())) readyState = Some 5000"
    by (simp add: attemptDelay_def safeReconnect_afterDestroy_def readyState_fields newEffects_def
        MAX_RECONNECT_ATTEMPTS_def RECONNECT_DELAY_def Let_def)
  have b: "\<not> isReconnecting readyState" by (simp add: readyState_fields)
  have c: "isConnectionError ''Session closed''" by (simp add: isConnectionError_def)
  have d: "snd (initialize_rest failingDriver readyState) = Rejects initFailure"
    using readyState_fields(1) by (rule failing_initialize_rest)
  from a b c d
    reconnect_delays_fixed_by_trigger [of "Some (Resolves ())" readyState 5000 "''logout''"
      "''auth''" "''Session closed''" sampleSend _ failingDriver initFailure]
  show ?thesis by (simp add: RECONNECT_DELAY_def)
qed

text \<open>
  C8 as it is written fails in a run of three attempts in which the counter is never
  reset. The timer before the second attempt is the 10000 ms of the catch block, the
  timer before the third is the 2000 ms of the authentication failure: the delay goes
  down. And the code configures no maximum: its timers stay below the 30000 ms of the
  one cap that a timer has, while the first attempt waits 45000 ms and twice 60000 ms
  between the passes of its initialisation.
\<close>

theorem reconnect_delays_decrease_counterexample:
  "timers (trace (vars (run threeAttempts bootSystem))) =
     [(1000, CallSafeReconnect ''Disconnected: logout''),
      (15000, CallSafeReconnect ''Extreme initialization failed''),
      (10000, CallSafeReconnect (''Previous attempt failed: '' @ initFailure)),
      (2000, CallSafeReconnect ''Auth failure: auth'')] \<and>
   reconnectAttempts (vars (run threeAttempts bootSystem)) = 3 \<and>
   delays (trace (vars (run threeAttempts bootSystem))) =
     [1000, 5000, 5000, 30000, 5000, 45000, 5000, 60000, 5000, 60000, 15000, 10000, 5000, 2000, 5000]"
proof -
  let ?r1 = "''Disconnected: logout''"
  let ?r2 = "''Previous attempt failed: '' @ initFailure"
  let ?r3 = "''Auth failure: auth''"
  have split: "threeAttempts =
      bootToReady @ [Disconnected ''logout''] @
      [ReconnectRequested ?r1, Resume 0 (Destroyed (Resolves ()))] @
      [Resume 0 DelayElapsed, Resume 0 (Initialized failingDriver)] @
      [ReconnectRequested ?r2, Resume 0 (Destroyed (Resolves ()))] @
      [ReconnectRequested ''Extreme initialization failed''] @
      [Resume 0 DelayElapsed, Resume 0 (Initialized okDriver)] @ [AuthFailure ''auth''] @
      [ReconnectRequested ?r3, Resume 0 (Destroyed (Resolves ()))]"
    by (simp add: threeAttempts_def)
  define s0 where "s0 = onDisconnected ''logout'' readyState"
  have c0: "run [Disconnected ''logout''] (run bootToReady bootSystem) = \<lparr> vars = s0, tasks = [] \<rparr>"
    by (simp add: readySystem_eq s0_def)
  have s0: "client s0 = Some \<lparr> info = Some sampleInfo \<rparr>" "\<not> isReconnecting s0"
    "\<not> isInitializing s0" "reconnectAttempts s0 = 0"
    "timers (trace s0) = [(1000, CallSafeReconnect ?r1)]" "delays (trace s0) = [1000]"
    by (simp_all add: s0_def onDisconnected_def readyState_fields Let_def)
  from s0 have lt0: "reconnectAttempts s0 < MAX_RECONNECT_ATTEMPTS"
    by (simp add: MAX_RECONNECT_ATTEMPTS_def)
  from attempt_begins [OF s0(1,2,3) lt0, of ?r1] s0
  obtain s1 where s1:
    "run [ReconnectRequested ?r1, Resume 0 (Destroyed (Resolves ()))] \<lparr> vars = s0, tasks = [] \<rparr> =
       \<lparr> vars = s1, tasks = [ReconnectAwaitsDelay] \<rparr>"
    "client s1 = Some \<lparr> info = Some sampleInfo \<rparr>" "isReconnecting s1" "\<not> isInitializing s1"
    "reconnectAttempts s1 = 1" "timers (trace s1) = [(1000, CallSafeReconnect ?r1)]"
    "delays (trace s1) = [1000, 5000]"
    by auto
  from attempt_fails [OF s1(2,3,4)] s1
  obtain s2 where s2:
    "run [Resume 0 DelayElapsed, Resume 0 (Initialized failingDriver)]
       \<lparr> vars = s1, tasks = [ReconnectAwaitsDelay] \<rparr> = \<lparr> vars = s2, tasks = [] \<rparr>"
    "client s2 = Some newClient" "\<not> isReconnecting s2" "\<not> isInitializing s2"
    "reconnectAttempts s2 = 1"
    "timers (trace s2) = [(1000, CallSafeReconnect ?r1),
       (15000, CallSafeReconnect ''Extreme initialization failed''), (10000, CallSafeReconnect ?r2)]"
    "delays (trace s2) = [1000, 5000, 5000, 30000, 5000, 45000, 5000, 60000, 5000, 60000, 15000, 10000]"
    by auto
  from s2 have lt2: "reconnectAttempts s2 < MAX_RECONNECT_ATTEMPTS"
    by (simp add: MAX_RECONNECT_ATTEMPTS_def)
  from attempt_begins [OF s2(2,3,4) lt2, of ?r2] s2
  obtain s3 where s3:
    "run [ReconnectRequested ?r2, Resume 0 (Destroyed (Resolves ()))] \<lparr> vars = s2, tasks = [] \<rparr> =
       \<lparr> vars = s3, tasks = [ReconnectAwaitsDelay] \<rparr>"
    "client s3 = Some newClient" "isReconnecting s3" "\<not> isInitializing s3"
    "reconnectAttempts s3 = 2" "timers (trace s3) = timers (trace s2)"
    "delays (trace s3) = delays (trace s2) @ [5000]"
    by auto
  define s4 where "s4 = emits [Console ''Reconnection already in progress, skipping...''] s3"
  have c4: "run [ReconnectRequested ''Extreme initialization failed'']
       \<lparr> vars = s3, tasks = [ReconnectAwaitsDelay] \<rparr> = \<lparr> vars = s4, tasks = [ReconnectAwaitsDelay] \<rparr>"
    using attempt_guarded [OF s3(3)] by (simp add: s4_def)
  have s4: "client s4 = Some newClient" "isReconnecting s4" "\<not> isInitializing s4"
    "reconnectAttempts s4 = 2" "timers (trace s4) = timers (trace s2)"
    "delays (trace s4) = delays (trace s2) @ [5000]"
    using s3 by (simp_all add: s4_def)
  from attempt_succeeds [OF s4(1,2,3)] s4
  obtain s5 where s5:
    "run [Resume 0 DelayElapsed, Resume 0 (Initialized okDriver)]
       \<lparr> vars = s4, tasks = [ReconnectAwaitsDelay] \<rparr> = \<lparr> vars = s5, tasks = [] \<rparr>"
    "client s5 = Some newClient" "\<not> isReconnecting s5" "\<not> isInitializing s5"
    "reconnectAttempts s5 = 2" "timers (trace s5) = timers (trace s2)"
    "delays (trace s5) = delays (trace s2) @ [5000]"
    by auto
  define s6 where "s6 = onAuthFailure ''auth'' s5"
  have c6: "run [AuthFailure ''auth''] \<lparr> vars = s5, tasks = [] \<rparr> = \<lparr> vars = s6, tasks = [] \<rparr>"
    by (simp add: s6_def)
  have s6: "client s6 = Some newClient" "\<not> isReconnecting s6" "\<not> isInitializing s6"
    "reconnectAttempts s6 = 2"
    "timers (trace s6) = timers (trace s2) @ [(2000, CallSafeReconnect ?r3)]"
    "delays (trace s6) = delays (trace s2) @ [5000, 2000]"
    using s5 by (simp_all add: s6_def onAuthFailure_def Let_def)
  from s6 have lt6: "reconnectAttempts s6 < MAX_RECONNECT_ATTEMPTS"
    by (simp add: MAX_RECONNECT_ATTEMPTS_def)
  from attempt_begins [OF s6(1,2,3) lt6, of ?r3] s6
  obtain s7 where s7:
    "run [ReconnectRequested ?r3, Resume 0 (Destroyed (Resolves ()))] \<lparr> vars = s6, tasks = [] \<rparr> =
       \<lparr> vars = s7, tasks = [ReconnectAwaitsDelay] \<rparr>"
    "reconnectAttempts s7 = 3" "timers (trace s7) = timers (trace s2) @ [(2000, CallSafeReconnect ?r3)]"
    "delays (trace s7) = delays (trace s2) @ [5000, 2000, 5000]"
    by auto
  have "run threeAttempts bootSystem = \<lparr> vars = s7, tasks = [ReconnectAwaitsDelay] \<rparr>"
    by (simp only: split run_append c0 s1(1) s2(1) s3(1) c4 s5(1) c6 s7(1))
  with s7 s2 show ?thesis by simp
qed


section \<open>The health check\<close>

lemma unhealthy_refusals:
  assumes "\<not> isClientHealthy s"
  shows "sendMessageHandler e d s =
           emits [Console ''Received message data'', Console ''Cannot send message - client not ready'',
                  SocketEmit ''message-sent''
                    (SendFailed notReadyError ''Client is not connected or authenticated''
                       (connectionStatus s) d)] s"
    and "getAvatar e contactId s = (emits [Console ''GET /avatar''] s, NotReady (connectionStatus s))"
    and "ids \<noteq> [] \<Longrightarrow>
         postAvatarsBatch e (Some ids) s =
           (emits [Console ''POST /avatars/batch''] s, NotReady (connectionStatus s))"
    and "postAvatarsRefresh e s =
           (emits [Console ''POST /avatars/refresh''] s, NotReady (connectionStatus s))"
proof -
  have u: "\<not> isClientHealthy (emits es s)" for es
    using assms by simp
  show "sendMessageHandler e d s =
           emits [Console ''Received message data'', Console ''Cannot send message - client not ready'',
                  SocketEmit ''message-sent''
                    (SendFailed notReadyError ''Client is not connected or authenticated''
                       (connectionStatus s) d)] s"
    using u by (simp add: sendMessageHandler_def Let_def connectionStatus_def emits_def)
  show "getAvatar e contactId s = (emits [Console ''GET /avatar''] s, NotReady (connectionStatus s))"
    using u by (simp add: getAvatar_def Let_def notReady_def connectionStatus_def)
  show "postAvatarsBatch e (Some ids) s =
           (emits [Console ''POST /avatars/batch''] s, NotReady (connectionStatus s))" if "ids \<noteq> []"
    using u that by (simp add: postAvatarsBatch_def Let_def notReady_def connectionStatus_def)
  show "postAvatarsRefresh e s =
           (emits [Console ''POST /avatars/refresh''] s, NotReady (connectionStatus s))"
    using u by (simp add: postAvatarsRefresh_def Let_def notReady_def connectionStatus_def)
qed

text \<open>
  The ready handler asks the driver for the account's own picture without calling the
  health check; it does so only in a state in which the check holds.
\<close>

lemma onReady_fetch_healthy:
  "ClientGetProfilePicUrl u \<in> set (newEffects s (onReady pic now s)) \<Longrightarrow>
   isClientHealthy (onReady pic now s)"
  by (auto simp add: onReady_def updateAccountInfo_def newEffects_def isClientHealthy_def Let_def
      split: option.splits outcome.splits)

text \<open>
  C5. The health check holds only when the ready flag is set and the driver's client
  carries an identity (an info with a wid). When it fails, the \<open>send_message\<close> handler
  and the three avatar endpoints return their not-ready answer and do nothing else: the
  state is unchanged but for console lines and the reply, so no driver, network or storage
  call is attempted.
\<close>

theorem health_check_gates_external_calls:
  "(isClientHealthy s \<longrightarrow>
      isClientReady s \<and> (\<exists>c i w. client s = Some c \<and> info c = Some i \<and> wid i = Some w)) \<and>
   (\<not> isClientHealthy s \<longrightarrow>
      sendMessageHandler e d s =
        emits [Console ''Received message data'', Console ''Cannot send message - client not ready'',
               SocketEmit ''message-sent''
                 (SendFailed notReadyError ''Client is not connected or authenticated''
                    (connectionStatus s) d)] s \<and>
      getAvatar e contactId s = (emits [Console ''GET /avatar''] s, NotReady (connectionStatus s)) \<and>
      (ids \<noteq> [] \<longrightarrow>
         postAvatarsBatch e (Some ids) s =
           (emits [Console ''POST /avatars/batch''] s, NotReady (connectionStatus s))) \<and>
      postAvatarsRefresh e s =
        (emits [Console ''POST /avatars/refresh''] s, NotReady (connectionStatus s)))"
proof -
  have "isClientReady s \<and> (\<exists>c i w. client s = Some c \<and> info c = Some i \<and> wid i = Some w)"
    if "isClientHealthy s"
    using that by (auto simp add: isClientHealthy_def split: option.splits)
  then show ?thesis
    using unhealthy_refusals [of s] by blast
qed

lemma readyState_healthy: "isClientHealthy readyState"
  by (simp add: isClientHealthy_def readyState_fields sampleInfo_def)

lemma initialState_unhealthy: "\<not> isClientHealthy initialState"
  by (simp add: isClientHealthy_def initialState_def)

theorem health_check_gates_external_calls_witness:
  "isClientHealthy readyState \<and> isClientReady readyState \<and>
   \<not> isClientHealthy initialState \<and> [''A@c.us''] \<noteq> [] \<and>
   sendMessageHandler sampleEnv sampleSend initialState =
     emits [Console ''Received message data'', Console ''Cannot send message - client not ready'',
            SocketEmit ''message-sent''
              (SendFailed notReadyError ''Client is not connected or authenticated''
                 (connectionStatus initialState) sampleSend)] initialState \<and>
   getAvatar sampleEnv ''A@c.us'' initialState =
     (emits [Console ''GET /avatar''] initialState, NotReady (connectionStatus initialState)) \<and>
   postAvatarsBatch sampleEnv (Some [''A@c.us'']) initialState =
     (emits [Console ''POST /avatars/batch''] initialState, NotReady (connectionStatus initialState))"
  using readyState_healthy initialState_unhealthy
    health_check_gates_external_calls [of readyState]
    health_check_gates_external_calls [of initialState sampleEnv sampleSend "''A@c.us''" "[''A@c.us'']"]
  by simp

text \<open>
  C9. While \<open>safeReconnect\<close> waits for the old client to be destroyed, the client object
  still carries the driver's identity and the ready flag is down: the status endpoint
  answers \<open>ready\<close>, the health check fails, and sending a message or fetching an avatar
  is refused as not ready.
\<close>

theorem status_ready_while_unhealthy:
  "statusText (statusEndpoint (vars reconnectingSystem)) = ''ready'' \<and>
   \<not> isClientHealthy (vars reconnectingSystem) \<and>
   sendMessageHandler e d (vars reconnectingSystem) =
     emits [Console ''Received message data'', Console ''Cannot send message - client not ready'',
            SocketEmit ''message-sent''
              (SendFailed notReadyError ''Client is not connected or authenticated''
                 ''disconnected'' d)] (vars reconnectingSystem) \<and>
   snd (getAvatar e contactId (vars reconnectingSystem)) = NotReady ''disconnected''"
proof -
  have u: "\<not> isClientHealthy (vars reconnectingSystem)"
    using reconnectingSystem_flags by (simp add: not_ready_unhealthy)
  have st: "connectionStatus (vars reconnectingSystem) = ''disconnected''"
    using reconnectingSystem_flags by (simp add: connectionStatus_def)
  have "statusText (statusEndpoint (vars reconnectingSystem)) = ''ready''"
    using reconnectingSystem_flags by (simp add: statusEndpoint_def statusText_def Let_def)
  with u st unhealthy_refusals(1,2) [OF u] show ?thesis by simp
qed


section \<open>Message ingestion\<close>

lemma isExternalCall_filter_append [simp]:
  "filter isExternalCall (xs @ ys) = filter isExternalCall xs @ filter isExternalCall ys"
  by simp

text \<open>
  C6. An inbound message that is not addressed to the active account (the account is not
  ready, or the message's \<open>to\<close> is not its phone number) is neither stored nor broadcast
  and causes no external call; likewise an outbound echo that does not come from the
  active account. Such an event leaves the state as it is, but for one console line.
\<close>

theorem direction_routing:
  "(\<not> (isReady (currentAccountInfo s) \<and> Some (msg_to msg) = phoneNumber (currentAccountInfo s)) \<longrightarrow>
      stored (trace (onMessage e msg s)) = stored (trace s) \<and>
      broadcasts (trace (onMessage e msg s)) = broadcasts (trace s) \<and>
      filter isExternalCall (newEffects s (onMessage e msg s)) = [] \<and>
      (onMessage e msg s = s \<or> (\<exists>line. onMessage e msg s = emits [Console line] s))) \<and>
   (\<not> (isReady (currentAccountInfo s) \<and> Some (msg_from msg) = phoneNumber (currentAccountInfo s)) \<longrightarrow>
      stored (trace (onMessageCreate e msg s)) = stored (trace s) \<and>
      broadcasts (trace (onMessageCreate e msg s)) = broadcasts (trace s) \<and>
      filter isExternalCall (newEffects s (onMessageCreate e msg s)) = [] \<and>
      (onMessageCreate e msg s = s \<or> (\<exists>line. onMessageCreate e msg s = emits [Console line] s)))"
proof -
  have a: "stored (trace (onMessage e msg s)) = stored (trace s) \<and>
      broadcasts (trace (onMessage e msg s)) = broadcasts (trace s) \<and>
      filter isExternalCall (newEffects s (onMessage e msg s)) = [] \<and>
      (onMessage e msg s = s \<or> (\<exists>line. onMessage e msg s = emits [Console line] s))"
    if "\<not> (isReady (currentAccountInfo s) \<and> Some (msg_to msg) = phoneNumber (currentAccountInfo s))"
    using that by (auto simp add: onMessage_def newEffects_def)
  have b: "stored (trace (onMessageCreate e msg s)) = stored (trace s) \<and>
      broadcasts (trace (onMessageCreate e msg s)) = broadcasts (trace s) \<and>
      filter isExternalCall (newEffects s (onMessageCreate e msg s)) = [] \<and>
      (onMessageCreate e msg s = s \<or> (\<exists>line. onMessageCreate e msg s = emits [Console line] s))"
    if "\<not> (isReady (currentAccountInfo s) \<and> Some (msg_from msg) = phoneNumber (currentAccountInfo s))"
    using that by (auto simp add: onMessageCreate_def newEffects_def)
  from a b show ?thesis by blast
qed

text \<open>What the sample session does with the sample messages.\<close>

lemma inbound_text_ingested:
  "newEffects readyState (onMessage sampleEnv inboundText readyState) =
     [Console ''Saving INCOMING message'',
      AddMessage (buildMessage sampleEnv inboundText False 3 noMedia),
      Emit ''whatsapp-message'' (MessageObj (buildMessage sampleEnv inboundText False 3 noMedia)),
      Emit ''chat-updated'' (ChatOf (buildMessage sampleEnv inboundText False 3 noMedia))]"
  by (simp add: onMessage_def readyState_fields inboundText_def processIncomingMessage_def
      processMedia_def saveAndAnnounce_def caught_def sampleEnv_def newEffects_def)

theorem direction_routing_witness:
  "\<not> (isReady (currentAccountInfo readyState) \<and>
       Some (msg_to strayInbound) = phoneNumber (currentAccountInfo readyState)) \<and>
   \<not> (isReady (currentAccountInfo readyState) \<and>
       Some (msg_from strayEcho) = phoneNumber (currentAccountInfo readyState)) \<and>
   stored (trace (onMessage sampleEnv strayInbound readyState)) = stored (trace readyState) \<and>
   broadcasts (trace (onMessage sampleEnv strayInbound readyState)) = broadcasts (trace readyState) \<and>
   stored (trace (onMessageCreate sampleEnv strayEcho readyState)) = stored (trace readyState) \<and>
   broadcasts (trace (onMessageCreate sampleEnv strayEcho readyState)) = broadcasts (trace readyState)"
proof -
  have a: "\<not> (isReady (currentAccountInfo readyState) \<and>
       Some (msg_to strayInbound) = phoneNumber (currentAccountInfo readyState))"
    by (simp add: readyState_fields strayInbound_def inboundText_def)
  have b: "\<not> (isReady (currentAccountInfo readyState) \<and>
       Some (msg_from strayEcho) = phoneNumber (currentAccountInfo readyState))"
    by (simp add: readyState_fields strayEcho_def outboundEcho_def)
  from a direction_routing [of readyState strayInbound sampleEnv]
  have c: "stored (trace (onMessage sampleEnv strayInbound readyState)) = stored (trace readyState)"
    "broadcasts (trace (onMessage sampleEnv strayInbound readyState)) = broadcasts (trace readyState)"
    by blast+
  from b direction_routing [of readyState strayEcho sampleEnv]
  have d: "stored (trace (onMessageCreate sampleEnv strayEcho readyState)) = stored (trace readyState)"
    "broadcasts (trace (onMessageCreate sampleEnv strayEcho readyState)) = broadcasts (trace readyState)"
    by blast+
  from a b c d show ?thesis by blast
qed

lemma processIncomingMessage_stored:
  "stored (fst (processIncomingMessage e msg)) =
     (case snd (processMedia e ''Processing incoming media'' msg) of
        Rejects err \<Rightarrow> []
      | Resolves f \<Rightarrow> [buildMessage e msg False 3 f])"
  using processMedia_effects [of e "''Processing incoming media''" msg]
  by (cases "processMedia e ''Processing incoming media'' msg")
     (auto simp add: processIncomingMessage_def saveAndAnnounce_def split: outcome.splits)

lemma caught_stored: "stored (caught label r) = stored (fst r)"
  by (cases r; cases "snd r") (simp_all add: caught_def)

lemma onMessage_stored:
  "stored (newEffects s (onMessage e msg s)) = [] \<or>
   stored (newEffects s (onMessage e msg s)) = stored (fst (processIncomingMessage e msg))"
  by (simp add: onMessage_def newEffects_def caught_stored)

text \<open>
  C10. Every record that the inbound path hands to the chat storage has \<open>fromMe\<close> false and
  the acknowledgment level 3, whatever acknowledgment the event carries: the path stores
  nothing when the media block throws, and otherwise the one record it has built.
\<close>

theorem inbound_record_flags:
  "list_all (\<lambda>m. \<not> cm_fromMe m \<and> cm_ack m = Some 3) (stored (fst (processIncomingMessage e msg))) \<and>
   list_all (\<lambda>m. \<not> cm_fromMe m \<and> cm_ack m = Some 3) (stored (newEffects s (onMessage e msg s))) \<and>
   stored (fst (processIncomingMessage e msg)) =
     (case snd (processMedia e ''Processing incoming media'' msg) of
        Rejects err \<Rightarrow> []
      | Resolves f \<Rightarrow> [buildMessage e msg False 3 f])"
proof -
  have a: "list_all (\<lambda>m. \<not> cm_fromMe m \<and> cm_ack m = Some 3) (stored (fst (processIncomingMessage e msg)))"
    by (simp add: processIncomingMessage_stored buildMessage_def split: outcome.splits)
  with onMessage_stored [of s e msg]
  have "list_all (\<lambda>m. \<not> cm_fromMe m \<and> cm_ack m = Some 3) (stored (newEffects s (onMessage e msg s)))"
    by auto
  with a processIncomingMessage_stored show ?thesis by simp
qed

theorem inbound_record_flags_witness:
  "msg_ack inboundText = Some 1 \<and>
   stored (newEffects readyState (onMessage sampleEnv inboundText readyState)) =
     [buildMessage sampleEnv inboundText False 3 noMedia] \<and>
   list_all (\<lambda>m. \<not> cm_fromMe m \<and> cm_ack m = Some 3)
     (stored (newEffects readyState (onMessage sampleEnv inboundText readyState)))"
proof -
  have a: "msg_ack inboundText = Some 1" by (simp add: inboundText_def)
  have b: "stored (newEffects readyState (onMessage sampleEnv inboundText readyState)) =
     [buildMessage sampleEnv inboundText False 3 noMedia]"
    by (simp add: inbound_text_ingested)
  from a b inbound_record_flags [of sampleEnv inboundText readyState]
  show ?thesis by blast
qed

lemma caught_broadcasts: "broadcasts (caught label r) = broadcasts (fst r)"
  by (cases r; cases "snd r") (simp_all add: caught_def)

text \<open>The media block throws when the download or the upload is rejected.\<close>

lemma processMedia_fails:
  assumes "msg_hasMedia msg"
    and "downloadMedia e msg = Rejects err \<or>
         (downloadMedia e msg = Resolves (Some m) \<and>
          uploadMediaToSupabase e (data m) (mediaFileName e msg m) (mediaMimeType msg m) = Rejects err)"
  shows "snd (processMedia e label msg) = Rejects err"
  using assms by (auto simp add: processMedia_def Let_def)

lemma processing_fails:
  assumes "snd (processMedia e ''Processing incoming media'' msg) = Rejects err"
  shows "snd (processIncomingMessage e msg) = Rejects err \<and>
         stored (fst (processIncomingMessage e msg)) = [] \<and>
         broadcasts (fst (processIncomingMessage e msg)) = []"
  using assms processMedia_effects [of e "''Processing incoming media''" msg]
  by (cases "processMedia e ''Processing incoming media'' msg")
     (simp add: processIncomingMessage_def)

lemma processing_outgoing_fails:
  assumes "snd (processMedia e ''Processing outgoing media'' msg) = Rejects err"
  shows "snd (processOutgoingMessage e msg) = Rejects err \<and>
         stored (fst (processOutgoingMessage e msg)) = [] \<and>
         broadcasts (fst (processOutgoingMessage e msg)) = []"
  using assms processMedia_effects [of e "''Processing outgoing media''" msg]
  by (cases "processMedia e ''Processing outgoing media'' msg")
     (simp add: processOutgoingMessage_def)

text \<open>
  C1, as the code has it. When the download or the upload of a message's media is
  rejected, \<open>processIncomingMessage\<close> and \<open>processOutgoingMessage\<close> throw before they
  build the record: nothing is handed to the chat storage and nothing is broadcast, and
  the handler that called them prints the error and drops it. Only when the driver
  answers the download with no media object is the message stored, with empty media
  fields.
\<close>

theorem media_failure_drops_message:
  "(msg_hasMedia msg \<and>
      (downloadMedia e msg = Rejects err \<or>
       (downloadMedia e msg = Resolves (Some m) \<and>
        uploadMediaToSupabase e (data m) (mediaFileName e msg m) (mediaMimeType msg m) = Rejects err)) \<longrightarrow>
      snd (processIncomingMessage e msg) = Rejects err \<and>
      stored (fst (processIncomingMessage e msg)) = [] \<and>
      broadcasts (fst (processIncomingMessage e msg)) = [] \<and>
      snd (processOutgoingMessage e msg) = Rejects err \<and>
      stored (fst (processOutgoingMessage e msg)) = [] \<and>
      broadcasts (fst (processOutgoingMessage e msg)) = [] \<and>
      stored (trace (onMessage e msg s)) = stored (trace s) \<and>
      broadcasts (trace (onMessage e msg s)) = broadcasts (trace s) \<and>
      stored (trace (onMessageCreate e msg s)) = stored (trace s) \<and>
      broadcasts (trace (onMessageCreate e msg s)) = broadcasts (trace s)) \<and>
   (msg_hasMedia msg \<and> downloadMedia e msg = Resolves None \<and>
      addMessage e (buildMessage e msg False 3 noMedia) = Resolves () \<longrightarrow>
      stored (fst (processIncomingMessage e msg)) = [buildMessage e msg False 3 noMedia] \<and>
      cm_mediaUrl (buildMessage e msg False 3 noMedia) = Some [] \<and>
      snd (processIncomingMessage e msg) = Resolves ())"
proof -
  have fails: "snd (processIncomingMessage e msg) = Rejects err \<and>
      stored (fst (processIncomingMessage e msg)) = [] \<and>
      broadcasts (fst (processIncomingMessage e msg)) = [] \<and>
      snd (processOutgoingMessage e msg) = Rejects err \<and>
      stored (fst (processOutgoingMessage e msg)) = [] \<and>
      broadcasts (fst (processOutgoingMessage e msg)) = [] \<and>
      stored (trace (onMessage e msg s)) = stored (trace s) \<and>
      broadcasts (trace (onMessage e msg s)) = broadcasts (trace s) \<and>
      stored (trace (onMessageCreate e msg s)) = stored (trace s) \<and>
      broadcasts (trace (onMessageCreate e msg s)) = broadcasts (trace s)"
    if h: "msg_hasMedia msg"
      "downloadMedia e msg = Rejects err \<or>
       (downloadMedia e msg = Resolves (Some m) \<and>
        uploadMediaToSupabase e (data m) (mediaFileName e msg m) (mediaMimeType msg m) = Rejects err)"
  proof -
    note i = processing_fails [OF processMedia_fails [OF h]]
    note o = processing_outgoing_fails [OF processMedia_fails [OF h]]
    have "stored (trace (onMessage e msg s)) = stored (trace s)"
      "broadcasts (trace (onMessage e msg s)) = broadcasts (trace s)"
      using i by (simp_all add: onMessage_def caught_stored caught_broadcasts)
    moreover have "stored (trace (onMessageCreate e msg s)) = stored (trace s)"
      "broadcasts (trace (onMessageCreate e msg s)) = broadcasts (trace s)"
      using o by (simp_all add: onMessageCreate_def caught_stored caught_broadcasts)
    ultimately show ?thesis using i o by simp
  qed
  have none: "stored (fst (processIncomingMessage e msg)) = [buildMessage e msg False 3 noMedia] \<and>
      cm_mediaUrl (buildMessage e msg False 3 noMedia) = Some [] \<and>
      snd (processIncomingMessage e msg) = Resolves ()"
    if "msg_hasMedia msg" "downloadMedia e msg = Resolves None"
      "addMessage e (buildMessage e msg False 3 noMedia) = Resolves ()"
    using that
    by (simp add: processIncomingMessage_def processMedia_def saveAndAnnounce_def
        buildMessage_def noMedia_def)
  from fails none show ?thesis by blast
qed

lemma uploadFails_hypothesis:
  "msg_hasMedia inboundImage \<and>
   downloadMedia uploadFailsEnv inboundImage =
     Resolves (Some \<lparr> mimetype = ''image/png'', data = ''aGk='', filename = None \<rparr>) \<and>
   uploadMediaToSupabase uploadFailsEnv
     (data \<lparr> mimetype = ''image/png'', data = ''aGk='', filename = None \<rparr>)
     (mediaFileName uploadFailsEnv inboundImage \<lparr> mimetype = ''image/png'', data = ''aGk='', filename = None \<rparr>)
     (mediaMimeType inboundImage \<lparr> mimetype = ''image/png'', data = ''aGk='', filename = None \<rparr>) =
     Rejects ''storage unavailable''"
  by (simp add: inboundImage_def inboundText_def uploadFailsEnv_def sampleEnv_def)

theorem media_failure_drops_message_witness:
  "msg_hasMedia inboundImage \<and>
   downloadMedia uploadFailsEnv inboundImage =
     Resolves (Some \<lparr> mimetype = ''image/png'', data = ''aGk='', filename = None \<rparr>) \<and>
   stored (trace (onMessage uploadFailsEnv inboundImage readyState)) = stored (trace readyState) \<and>
   broadcasts (trace (onMessage uploadFailsEnv inboundImage readyState)) = broadcasts (trace readyState) \<and>
   snd (processIncomingMessage uploadFailsEnv inboundImage) = Rejects ''storage unavailable'' \<and>
   downloadMedia noMediaEnv inboundImage = Resolves None \<and>
   stored (fst (processIncomingMessage noMediaEnv inboundImage)) =
     [buildMessage noMediaEnv inboundImage False 3 noMedia]"
proof -
  have n: "msg_hasMedia inboundImage \<and> downloadMedia noMediaEnv inboundImage = Resolves None \<and>
      addMessage noMediaEnv (buildMessage noMediaEnv inboundImage False 3 noMedia) = Resolves ()"
    by (simp add: inboundImage_def noMediaEnv_def sampleEnv_def)
  from uploadFails_hypothesis
    media_failure_drops_message [of inboundImage uploadFailsEnv "''storage unavailable''"
      "\<lparr> mimetype = ''image/png'', data = ''aGk='', filename = None \<rparr>" readyState]
  have a: "stored (trace (onMessage uploadFailsEnv inboundImage readyState)) = stored (trace readyState)"
    "broadcasts (trace (onMessage uploadFailsEnv inboundImage readyState)) = broadcasts (trace readyState)"
    "snd (processIncomingMessage uploadFailsEnv inboundImage) = Rejects ''storage unavailable''"
    by blast+
  from n media_failure_drops_message [of inboundImage noMediaEnv]
  have b: "stored (fst (processIncomingMessage noMediaEnv inboundImage)) =
     [buildMessage noMediaEnv inboundImage False 3 noMedia]"
    by blast
  from a b n uploadFails_hypothesis show ?thesis by blast
qed

text \<open>
  C1 as it is written fails: an inbound image whose upload the blob store rejects, arriving
  in the ready session, leaves five effects, none of which stores or broadcasts anything.
\<close>

theorem media_upload_failure_counterexample:
  "newEffects readyState (onMessage uploadFailsEnv inboundImage readyState) =
     [Console ''Processing incoming media'', DownloadMedia ''m1'',
      UploadMedia ''image_1735689600000.png'' ''image/png'',
      Console ''Error processing media: storage unavailable'',
      Console ''Error processing incoming message: storage unavailable'']"
  by (simp add: onMessage_def readyState_fields inboundImage_def inboundText_def
      processIncomingMessage_def processMedia_def caught_def uploadFailsEnv_def sampleEnv_def
      mediaFileName_def mediaMimeType_def mimeExtension_def newEffects_def Let_def)


section \<open>Acknowledgments\<close>

lemma onMessageAck_eq:
  "onMessageAck msg a s =
     emits (Console ''Message ACK received'' #
            (if msg_fromMe msg \<and> isReady (currentAccountInfo s)
             then [Emit ''message-ack-updated'' (AckUpdated (msg_serialized msg) a (msg_to msg))]
             else [])) s"
  by (simp add: onMessageAck_def)

lemma ackEvents_run:
  "\<exists>es. trace (vars (run (ackEvents acks) c)) = trace (vars c) @ es \<and> stored es = [] \<and>
        filter isExternalCall es = []"
proof (induction acks arbitrary: c)
  case Nil
  then show ?case by simp
next
  case (Cons p acks)
  obtain msg a where p: "p = (msg, a)" by (cases p)
  let ?c1 = "c\<lparr>vars := onMessageAck msg a (vars c)\<rparr>"
  obtain es where es: "trace (vars (run (ackEvents acks) ?c1)) = trace (vars ?c1) @ es"
    "stored es = []" "filter isExternalCall es = []"
    using Cons.IH [of ?c1] by blast
  show ?case
    using es p
    by (intro exI [of _ "(Console ''Message ACK received'' #
            (if msg_fromMe msg \<and> isReady (currentAccountInfo (vars c))
             then [Emit ''message-ack-updated'' (AckUpdated (msg_serialized msg) a (msg_to msg))]
             else [])) @ es"])
       (simp add: onMessageAck_eq)
qed

text \<open>
  C2, as the code has it. An acknowledgment event touches no stored message: the handler
  prints the event and, when the message is the account's own and the account is ready,
  broadcasts the event's level to the subscribers, whether or not the message is known
  and whatever level it had. No series of acknowledgment events makes a call to the chat
  storage or to anything else outside, so the level of every stored message stays what
  it was.
\<close>

theorem ack_event_only_rebroadcast:
  "onMessageAck msg a s =
     emits (Console ''Message ACK received'' #
            (if msg_fromMe msg \<and> isReady (currentAccountInfo s)
             then [Emit ''message-ack-updated'' (AckUpdated (msg_serialized msg) a (msg_to msg))]
             else [])) s \<and>
   stored (trace (vars (run (ackEvents acks) c))) = stored (trace (vars c)) \<and>
   filter isExternalCall (newEffects (vars c) (vars (run (ackEvents acks) c))) = []"
proof -
  obtain es where es: "trace (vars (run (ackEvents acks) c)) = trace (vars c) @ es"
    "stored es = []" "filter isExternalCall es = []"
    using ackEvents_run by blast
  then have "newEffects (vars c) (vars (run (ackEvents acks) c)) = es"
    by (simp add: newEffects_def)
  with es show ?thesis by (simp add: onMessageAck_eq)
qed

lemma outbound_echo_stored:
  "vars (run [MessageCreate sampleEnv outboundEcho] (run bootToReady bootSystem)) =
     emits [Console ''Saving OUTGOING message'',
            AddMessage (buildMessage sampleEnv outboundEcho True 1 noMedia)]
       readyState"
  by (simp add: readySystem_eq requestMessageCreate_def beginIngest_def ingest_start_def
      ingest_save_def saveLabel_def ackOf_def readyState_fields outboundEcho_def Let_def)

text \<open>
  C2 as it is written fails. In the ready session, whose trace stores no message, an
  acknowledgment for the unknown message \<open>s9\<close> is broadcast, not ignored; and when that
  message has been stored with level 1, an acknowledgment of level 3 leaves the stored
  level at 1.
\<close>

theorem ack_event_counterexample:
  "stored (trace readyState) = [] \<and>
   newEffects readyState (onMessageAck outboundEcho 2 readyState) =
     [Console ''Message ACK received'',
      Emit ''message-ack-updated'' (AckUpdated ''true_A@c.us_s9'' 2 ''A@c.us'')] \<and>
   map cm_ack
     (stored (trace (vars (run [MessageCreate sampleEnv outboundEcho, MessageAck outboundEcho 3]
                             (run bootToReady bootSystem))))) = [Some 1]"
proof -
  have a: "newEffects readyState (onMessageAck outboundEcho 2 readyState) =
     [Console ''Message ACK received'',
      Emit ''message-ack-updated'' (AckUpdated ''true_A@c.us_s9'' 2 ''A@c.us'')]"
    by (simp add: onMessageAck_eq readyState_fields outboundEcho_def)
  have "run [MessageCreate sampleEnv outboundEcho, MessageAck outboundEcho 3] (run bootToReady bootSystem)
      = step (MessageAck outboundEcho 3) (run [MessageCreate sampleEnv outboundEcho] (run bootToReady bootSystem))"
    by simp
  then have b: "map cm_ack
     (stored (trace (vars (run [MessageCreate sampleEnv outboundEcho, MessageAck outboundEcho 3]
                             (run bootToReady bootSystem))))) = [Some 1]"
    using outbound_echo_stored
    by (simp add: onMessageAck_eq readyState_fields buildMessage_def del: run.simps)
  from a b show ?thesis by (simp add: readyState_fields)
qed

end
